theory Spec2Isabelle
  imports Complex_Main "HOL-Library.Multiset" "HOL-Library.AList" "HOL-Library.Sublist"
begin

text \<open>
  The barbershop API: the store with its schema and seed (db.js), authentication and the
  administrator bootstrap (auth.js), and the routes with their validation (server.js).
  A handler is a function from the request and the store to the response and the store
  it leaves; the clock reading of \<open>Date.now()\<close> and what the libraries compute are
  arguments.
\<close>

section \<open>Values\<close>

text \<open>
  A JavaScript value as it arrives in a parsed JSON body or leaves through \<open>res.json\<close>.
  Numbers are the rationals a JSON literal denotes; a string is the list of its code
  units, so that \<open>length\<close> is JavaScript's \<open>length\<close>; an object is the list of its own
  properties, looked up by its first binding; \<open>undefined\<close> is \<open>None\<close> of \<open>json option\<close>.
\<close>

datatype json =
    JNull
  | JBool bool
  | JNum rat
  | JStr string
  | JArr "json list"
  | JObj "(string \<times> json) list"

text \<open>Property access \<open>v.k\<close> and \<open>v?.k\<close>: only an object has own properties.\<close>

fun js_get :: "json \<Rightarrow> string \<Rightarrow> json option" where
  "js_get (JObj kvs) k = map_of kvs k"
| "js_get _ k = None"

text \<open>What a column of the store holds: NULL, an INTEGER or a TEXT.\<close>

datatype sqlval = SNull | SInt int | SText string

fun json_of_sql :: "sqlval \<Rightarrow> json" where
  "json_of_sql SNull = JNull"
| "json_of_sql (SInt n) = JNum (of_int n)"
| "json_of_sql (SText s) = JStr s"

section \<open>The store (db.js)\<close>

text \<open>
  Every table is declared \<open>id INTEGER PRIMARY KEY AUTOINCREMENT\<close> followed by its other
  columns. A row is its rowid and the values of the other columns by name; a table is its
  rows and the largest rowid it has ever handed out (SQLite's \<open>sqlite_sequence\<close> entry).
  The statements of the program write a value to every NOT NULL column and insert a user
  only after finding none with the e-mail, so no constraint of the schema can fail and
  none is part of the model.
\<close>

record row =
  rowid :: int
  cols :: "(string \<times> sqlval) list"

record table =
  rows :: "row list"
  sequence :: int

record db =
  users :: table
  services :: table
  team :: table
  testimonials :: table
  gallery :: table
  posts :: table
  appointments :: table
  contacts :: table

definition col :: "row \<Rightarrow> string \<Rightarrow> sqlval" where
  "col r c = (if c = ''id'' then SInt (rowid r)
              else case map_of (cols r) c of Some v \<Rightarrow> v | None \<Rightarrow> SNull)"

text \<open>\<open>SELECT c1, ..., cn\<close> and \<open>SELECT *\<close> of one row, as the object the driver returns.\<close>

definition select :: "string list \<Rightarrow> row \<Rightarrow> json" where
  "select cs r = JObj (map (\<lambda>c. (c, json_of_sql (col r c))) cs)"

definition select_star :: "row \<Rightarrow> json" where
  "select_star r = JObj ((''id'', JNum (of_int (rowid r))) # map (\<lambda>(c, v). (c, json_of_sql v)) (cols r))"

text \<open>\<open>ORDER BY id\<close>, \<open>ORDER BY id DESC\<close> and \<open>LIMIT n\<close>.\<close>

definition order_by_id :: "row list \<Rightarrow> row list" where
  "order_by_id rs = sort_key rowid rs"

definition order_by_id_desc :: "row list \<Rightarrow> row list" where
  "order_by_id_desc rs = rev (sort_key rowid rs)"

definition limit :: "nat \<Rightarrow> row list \<Rightarrow> row list" where
  "limit n rs = take n rs"

text \<open>\<open>WHERE c = v\<close> on a column and a bound value of the column's own type.\<close>

definition where_eq :: "string \<Rightarrow> sqlval \<Rightarrow> row \<Rightarrow> bool" where
  "where_eq c v r = (col r c = v)"

text \<open>
  AUTOINCREMENT: the new rowid is one more than the largest rowid the table has ever held.
\<close>

definition next_rowid :: "table \<Rightarrow> int" where
  "next_rowid t = 1 + fold max (map rowid (rows t)) (sequence t)"

text \<open>
  \<open>INSERT INTO t (c1, ..., cn) VALUES (...)\<close> naming every column but \<open>id\<close>; the result is
  \<open>info.lastInsertRowid\<close> and the table (\<open>info.changes\<close> is 1 and no caller reads it).
\<close>

definition sql_insert :: "(string \<times> sqlval) list \<Rightarrow> table \<Rightarrow> int \<times> table" where
  "sql_insert vs t =
     (let i = next_rowid t
      in (i, t\<lparr>rows := rows t @ [\<lparr>rowid = i, cols = vs\<rparr>], sequence := i\<rparr>))"

text \<open>
  \<open>UPDATE t SET c1 = v1, ... WHERE w\<close> and \<open>DELETE FROM t WHERE w\<close>; the result is
  \<open>info.changes\<close>, the number of rows the WHERE clause selects, and the table.
\<close>

definition set_cols :: "(string \<times> sqlval) list \<Rightarrow> row \<Rightarrow> row" where
  "set_cols vs r = r\<lparr>cols := fold (\<lambda>(c, v). AList.update c v) vs (cols r)\<rparr>"

definition sql_update :: "(string \<times> sqlval) list \<Rightarrow> (row \<Rightarrow> bool) \<Rightarrow> table \<Rightarrow> nat \<times> table" where
  "sql_update vs w t =
     (length (filter w (rows t)),
      t\<lparr>rows := map (\<lambda>r. if w r then set_cols vs r else r) (rows t)\<rparr>)"

definition sql_delete :: "(row \<Rightarrow> bool) \<Rightarrow> table \<Rightarrow> nat \<times> table" where
  "sql_delete w t =
     (length (filter w (rows t)), t\<lparr>rows := filter (\<lambda>r. \<not> w r) (rows t)\<rparr>)"

text \<open>\<open>Statement.get\<close>: the first selected row, or \<open>undefined\<close>.\<close>

definition sql_get :: "(row \<Rightarrow> bool) \<Rightarrow> table \<Rightarrow> row option" where
  "sql_get w t = (case filter w (rows t) of [] \<Rightarrow> None | r # _ \<Rightarrow> Some r)"

section \<open>What the process is given\<close>

text \<open>
  The messages of a validation failure are the schema library's; the model keeps the kind
  of each issue and takes its wording from the environment.
\<close>

datatype issue =
    Required
  | InvalidType
  | TooSmall
  | TooBig
  | NotInteger
  | InvalidEmail
  | InvalidUrl
  | InvalidEnumValue

text \<open>
  The environment variables the code reads and the library functions it calls, as they
  are at one moment of one process: \<open>jwt.sign\<close> with a secret that has a value, at a given
  clock reading (12 hours of validity), \<open>jwt.verify\<close> with \<open>JWT_SECRET\<close> at a given clock
  reading, \<open>None\<close> where it throws (as it does on every token when the secret has no
  value), \<open>bcrypt.hashSync\<close> (cost 10) and
  \<open>bcrypt.compareSync\<close>, the schema library's e-mail and URL formats and messages, and
  the integer that SQLite's numeric affinity reads from a TEXT operand compared with an
  INTEGER column. A variable that is not set is \<open>None\<close>.
\<close>

record env =
  ADMIN_EMAIL :: "string option"
  ADMIN_PASSWORD :: "string option"
  JWT_SECRET :: "string option"
  jwt_sign :: "string \<Rightarrow> json \<Rightarrow> int \<Rightarrow> string"
  jwt_verify :: "string \<Rightarrow> int \<Rightarrow> json option"
  hashSync :: "string \<Rightarrow> string"
  compareSync :: "string \<Rightarrow> string \<Rightarrow> bool"
  zod_email :: "string \<Rightarrow> bool"
  zod_url :: "string \<Rightarrow> bool"
  zod_message :: "issue \<Rightarrow> string"
  numeric_affinity :: "string \<Rightarrow> int option"

text \<open>\<open>WHERE id = ?\<close> with the route parameter, a string, bound to the placeholder.\<close>

definition where_id :: "env \<Rightarrow> string \<Rightarrow> row \<Rightarrow> bool" where
  "where_id env p r = (numeric_affinity env p = Some (rowid r))"

section \<open>Requests and responses\<close>

datatype http_method = GET | POST | PUT | PATCH | DELETE

text \<open>
  A request as the routes see it: the path split at its slashes, the
  \<open>Authorization\<close> header, the body \<open>express.json\<close> parsed, and the two properties the
  router and the authentication middleware attach, \<open>req.params\<close> and \<open>req.user\<close>.
\<close>

record request =
  req_method :: http_method
  req_path :: "string list"
  req_authorization :: "string option"
  req_body :: json
  req_params :: "(string \<times> string) list"
  req_user :: "json option"

record response =
  res_status :: nat
  res_json :: json

definition respond :: "nat \<Rightarrow> json \<Rightarrow> response" where
  "respond st j = \<lparr>res_status = st, res_json = j\<rparr>"

definition param :: "request \<Rightarrow> string \<Rightarrow> string" where
  "param req k = (case map_of (req_params req) k of Some v \<Rightarrow> v | None \<Rightarrow> [])"

section \<open>Validation schemas\<close>

text \<open>
  The part of the schema library the routes use: \<open>z.string()\<close> with \<open>min\<close>, \<open>email\<close> and
  \<open>url\<close>, \<open>z.number()\<close> with \<open>int\<close>, \<open>nonnegative\<close>, \<open>min\<close> and \<open>max\<close>, \<open>z.boolean()\<close>,
  \<open>z.enum\<close>, the wrappers \<open>optional()\<close> and \<open>optional().nullable()\<close>, and \<open>z.object\<close>, which
  reports every failing key and drops the keys it does not declare.
\<close>

datatype check = Zmin int | Zmax int | Zint | Znonnegative | Zemail | Zurl

datatype ztype = ZString "check list" | ZNumber "check list" | ZBoolean | ZEnum "string list"

datatype zwrap = Mandatory | Optional | OptionalNullable

type_synonym schema = "(string \<times> ztype \<times> zwrap) list"

fun string_check :: "env \<Rightarrow> string \<Rightarrow> check \<Rightarrow> issue option" where
  "string_check env s (Zmin n) = (if int (length s) < n then Some TooSmall else None)"
| "string_check env s (Zmax n) = (if n < int (length s) then Some TooBig else None)"
| "string_check env s Zemail = (if zod_email env s then None else Some InvalidEmail)"
| "string_check env s Zurl = (if zod_url env s then None else Some InvalidUrl)"
| "string_check env s _ = None"

fun number_check :: "rat \<Rightarrow> check \<Rightarrow> issue option" where
  "number_check x (Zmin n) = (if x < of_int n then Some TooSmall else None)"
| "number_check x (Zmax n) = (if of_int n < x then Some TooBig else None)"
| "number_check x Zint = (if of_int \<lfloor>x\<rfloor> = x then None else Some NotInteger)"
| "number_check x Znonnegative = (if x < 0 then Some TooSmall else None)"
| "number_check x _ = None"

fun parse_type :: "env \<Rightarrow> ztype \<Rightarrow> json \<Rightarrow> issue list" where
  "parse_type env (ZString cs) (JStr s) = List.map_filter (string_check env s) cs"
| "parse_type env (ZNumber cs) (JNum x) = List.map_filter (number_check x) cs"
| "parse_type env ZBoolean (JBool b) = []"
| "parse_type env (ZEnum vs) (JStr s) = (if s \<in> set vs then [] else [InvalidEnumValue])"
| "parse_type env t v = [InvalidType]"

fun parse_field :: "env \<Rightarrow> ztype \<times> zwrap \<Rightarrow> json option \<Rightarrow> issue list" where
  "parse_field env (t, w) None = (if w = Mandatory then [Required] else [])"
| "parse_field env (t, w) (Some JNull) = (if w = OptionalNullable then [] else parse_type env t JNull)"
| "parse_field env (t, w) (Some v) = parse_type env t v"

text \<open>
  \<open>Schema.safeParse(req.body)\<close>: \<open>Inr\<close> the parsed data, the declared keys the body has, or
  \<open>Inl\<close> the error as \<open>flatten()\<close> presents it, the issues of the body as a whole
  (\<open>formErrors\<close>) and the issues of each failing key in the schema's order (\<open>fieldErrors\<close>).
\<close>

type_synonym flat_error = "issue list \<times> (string \<times> issue list) list"

definition field_issues :: "env \<Rightarrow> schema \<Rightarrow> (string \<times> json) list \<Rightarrow> (string \<times> issue list) list" where
  "field_issues env sch kvs =
     filter (\<lambda>(k, is). is \<noteq> []) (map (\<lambda>(k, tw). (k, parse_field env tw (map_of kvs k))) sch)"

definition safeParse :: "env \<Rightarrow> schema \<Rightarrow> json \<Rightarrow> flat_error + json" where
  "safeParse env sch body =
     (case body of
        JObj kvs \<Rightarrow>
          (if field_issues env sch kvs = []
           then Inr (JObj (List.map_filter (\<lambda>(k, tw). map_option (Pair k) (map_of kvs k)) sch))
           else Inl ([], field_issues env sch kvs))
      | _ \<Rightarrow> Inl ([InvalidType], []))"

definition flatten :: "env \<Rightarrow> flat_error \<Rightarrow> json" where
  "flatten env e =
     JObj [(''formErrors'', JArr (map (\<lambda>i. JStr (zod_message env i)) (fst e))),
           (''fieldErrors'',
            JObj (map (\<lambda>(k, is). (k, JArr (map (\<lambda>i. JStr (zod_message env i)) is))) (snd e)))]"

text \<open>\<open>res.status(400).json({ error: parsed.error.flatten() })\<close>.\<close>

definition validation_error :: "env \<Rightarrow> flat_error \<Rightarrow> response" where
  "validation_error env e = respond 400 (JObj [(''error'', flatten env e)])"

section \<open>JavaScript operators on parsed data\<close>

fun truthy :: "json \<Rightarrow> bool" where
  "truthy JNull = False"
| "truthy (JBool b) = b"
| "truthy (JNum x) = (x \<noteq> 0)"
| "truthy (JStr s) = (s \<noteq> [])"
| "truthy (JArr xs) = True"
| "truthy (JObj kvs) = True"

text \<open>
  The driver binds a string as TEXT, a number as a number and \<open>null\<close> as NULL. The routes
  bind only values their schema has checked: strings, integers and \<open>null\<close>.
\<close>

fun bind :: "json option \<Rightarrow> sqlval" where
  "bind (Some (JStr s)) = SText s"
| "bind (Some (JNum x)) = SInt \<lfloor>x\<rfloor>"
| "bind _ = SNull"

text \<open>\<open>v || null\<close>, bound.\<close>

fun or_null :: "json option \<Rightarrow> sqlval" where
  "or_null (Some v) = (if truthy v then bind (Some v) else SNull)"
| "or_null None = SNull"

text \<open>\<open>v ?? d ? 1 : 0\<close>, which JavaScript reads as \<open>(v ?? d) ? 1 : 0\<close>.\<close>

fun flag :: "json option \<Rightarrow> bool \<Rightarrow> sqlval" where
  "flag None d = SInt (if d then 1 else 0)"
| "flag (Some JNull) d = SInt (if d then 1 else 0)"
| "flag (Some v) d = SInt (if truthy v then 1 else 0)"

section \<open>Schema creation and seed (db.js)\<close>

text \<open>
  \<open>migrate\<close> runs \<open>CREATE TABLE IF NOT EXISTS\<close> for the eight tables: a table that exists is
  left as it is, and a table that does not exist is, in the record, the table with no rows.
\<close>

definition migrate :: "db \<Rightarrow> db" where
  "migrate db = db"

definition seed_row :: "string \<Rightarrow> string \<Rightarrow> int \<Rightarrow> int \<Rightarrow> (string \<times> sqlval) list" where
  "seed_row t d p now =
     [(''title'', SText t), (''description'', SText d), (''price_cents'', SInt p),
      (''active'', SInt 1), (''created_at'', SInt now)]"

definition seedIfEmpty :: "int \<Rightarrow> db \<Rightarrow> db" where
  "seedIfEmpty now db =
     (let count = length (rows (services db))
      in if count = 0
         then
           (let t1 = snd (sql_insert
                  (seed_row (''Corte Cl'' @ [CHR 0xE1] @ ''ssico'')
                     (''Tesoura e m'' @ [CHR 0xE1] @ ''quina, finaliza'' @ [CHR 0xE7, CHR 0xE3] @ ''o.'')
                     4000 now) (services db));
                t2 = snd (sql_insert
                  (seed_row ''Barba Modelada''
                     (''Desenho e hidrata'' @ [CHR 0xE7, CHR 0xE3] @ ''o.'') 3000 now) t1);
                t3 = snd (sql_insert (seed_row ''Corte + Barba'' ''Combo especial.'' 7000 now) t2)
            in db\<lparr>services := t3\<rparr>)
         else db)"

section \<open>Authentication (auth.js)\<close>

text \<open>
  \<open>jwt.sign\<close> throws when its secret has no value, which is the case when \<open>JWT_SECRET\<close> is
  not set or is the empty string; \<open>signToken\<close> does not catch it. \<open>None\<close> is that throw.
\<close>

definition signToken :: "env \<Rightarrow> int \<Rightarrow> row \<Rightarrow> string option" where
  "signToken env now user =
     (case JWT_SECRET env of
        None \<Rightarrow> None
      | Some secret \<Rightarrow>
          if secret = [] then None
          else Some (jwt_sign env secret
                 (JObj [(''sub'', json_of_sql (col user ''id'')),
                        (''role'', json_of_sql (col user ''role'')),
                        (''email'', json_of_sql (col user ''email''))])
                 now))"

text \<open>
  A middleware either answers (\<open>Inl\<close>) or calls \<open>next()\<close> with the request as it has left
  it (\<open>Inr\<close>).
\<close>

definition authMiddleware :: "env \<Rightarrow> int \<Rightarrow> request \<Rightarrow> response + request" where
  "authMiddleware env now req =
     (let header = (case req_authorization req of Some h \<Rightarrow> h | None \<Rightarrow> []);
          token = (if prefix ''Bearer '' header then Some (drop 7 header) else None)
      in case token of
           None \<Rightarrow> Inl (respond 401 (JObj [(''error'', JStr ''missing_token'')]))
         | Some t \<Rightarrow>
             if t = [] then Inl (respond 401 (JObj [(''error'', JStr ''missing_token'')]))
             else (case jwt_verify env t now of
                     Some payload \<Rightarrow> Inr (req\<lparr>req_user := Some payload\<rparr>)
                   | None \<Rightarrow> Inl (respond 401 (JObj [(''error'', JStr ''invalid_token'')]))))"

definition ensureAdmin :: "request \<Rightarrow> response + request" where
  "ensureAdmin req =
     (if (case req_user req of Some u \<Rightarrow> js_get u ''role'' | None \<Rightarrow> None) \<noteq> Some (JStr ''admin'')
      then Inl (respond 403 (JObj [(''error'', JStr ''forbidden'')]))
      else Inr req)"

definition ensureAdminUser :: "env \<Rightarrow> int \<Rightarrow> db \<Rightarrow> db" where
  "ensureAdminUser env now db =
     (case (ADMIN_EMAIL env, ADMIN_PASSWORD env) of
        (Some email, Some pwd) \<Rightarrow>
          if email = [] \<or> pwd = [] then db
          else (case sql_get (where_eq ''email'' (SText email)) (users db) of
                  Some exists \<Rightarrow> db
                | None \<Rightarrow>
                    db\<lparr>users := snd (sql_insert
                      [(''email'', SText email), (''password_hash'', SText (hashSync env pwd)),
                       (''role'', SText ''admin''), (''created_at'', SInt now)] (users db))\<rparr>)
      | _ \<Rightarrow> db)"

definition verifyPassword :: "env \<Rightarrow> string \<Rightarrow> string \<Rightarrow> bool" where
  "verifyPassword env hash plain = compareSync env plain hash"

section \<open>Routes (server.js)\<close>

subsection \<open>Schemas\<close>

text \<open>
  Each route builds its schema in its own body; the create and the replace route of one
  entity build the same one.
\<close>

definition Schema_login :: schema where
  "Schema_login =
     [(''email'', ZString [Zemail], Mandatory),
      (''password'', ZString [Zmin 3], Mandatory)]"

definition Schema_appointments :: schema where
  "Schema_appointments =
     [(''name'', ZString [Zmin 2], Mandatory),
      (''phone'', ZString [Zmin 6], Mandatory),
      (''email'', ZString [Zemail], Mandatory),
      (''service'', ZString [], OptionalNullable),
      (''datetime'', ZString [], OptionalNullable),
      (''notes'', ZString [], OptionalNullable)]"

definition Schema_contact :: schema where
  "Schema_contact =
     [(''name'', ZString [Zmin 2], Mandatory),
      (''email'', ZString [Zemail], Mandatory),
      (''message'', ZString [Zmin 2], Mandatory)]"

definition Schema_services :: schema where
  "Schema_services =
     [(''title'', ZString [Zmin 2], Mandatory),
      (''description'', ZString [], Optional),
      (''price_cents'', ZNumber [Zint, Znonnegative], Mandatory),
      (''active'', ZBoolean, Optional)]"

definition Schema_team :: schema where
  "Schema_team =
     [(''name'', ZString [Zmin 2], Mandatory),
      (''role'', ZString [], Optional),
      (''photo_url'', ZString [Zurl], Optional),
      (''active'', ZBoolean, Optional)]"

definition Schema_testimonials :: schema where
  "Schema_testimonials =
     [(''author'', ZString [Zmin 2], Mandatory),
      (''content'', ZString [Zmin 2], Mandatory),
      (''rating'', ZNumber [Zint, Zmin 1, Zmax 5], Mandatory),
      (''active'', ZBoolean, Optional)]"

definition Schema_gallery :: schema where
  "Schema_gallery =
     [(''image_url'', ZString [Zurl], Mandatory),
      (''caption'', ZString [], Optional),
      (''active'', ZBoolean, Optional)]"

definition Schema_posts :: schema where
  "Schema_posts =
     [(''title'', ZString [Zmin 2], Mandatory),
      (''excerpt'', ZString [], Optional),
      (''content'', ZString [], Optional),
      (''cover_url'', ZString [Zurl], Optional),
      (''published'', ZBoolean, Optional)]"

definition Schema_status :: schema where
  "Schema_status = [(''status'', ZEnum [''pending'', ''confirmed'', ''canceled''], Mandatory)]"

subsection \<open>Login\<close>

text \<open>
  A handler takes the request and the store and gives the response and the store it
  leaves. An exception the handler does not catch is answered by the framework with
  status 500 and a body that is not JSON: \<open>bcrypt.compareSync\<close> throws on a hash that is
  not a string, and \<open>signToken\<close> throws when the secret has no value.
\<close>

definition post_auth_login :: "env \<Rightarrow> int \<Rightarrow> request \<Rightarrow> db \<Rightarrow> response \<times> db" where
  "post_auth_login env now req db =
     (case safeParse env Schema_login (req_body req) of
        Inl e \<Rightarrow> (validation_error env e, db)
      | Inr data \<Rightarrow>
          (case sql_get (where_eq ''email'' (bind (js_get data ''email''))) (users db) of
             None \<Rightarrow> (respond 401 (JObj [(''error'', JStr ''invalid_credentials'')]), db)
           | Some user \<Rightarrow>
               (case (col user ''password_hash'', js_get data ''password'') of
                  (SText hash, Some (JStr password)) \<Rightarrow>
                    if \<not> verifyPassword env hash password
                    then (respond 401 (JObj [(''error'', JStr ''invalid_credentials'')]), db)
                    else (case signToken env now user of
                            None \<Rightarrow> (respond 500 JNull, db)
                          | Some token \<Rightarrow> (respond 200 (JObj [(''token'', JStr token)]), db))
                | _ \<Rightarrow> (respond 500 JNull, db))))"

subsection \<open>Public reads\<close>

definition get_services :: "request \<Rightarrow> db \<Rightarrow> response \<times> db" where
  "get_services req db =
     (respond 200
        (JArr (map (select [''id'', ''title'', ''description'', ''price_cents''])
           (order_by_id (filter (where_eq ''active'' (SInt 1)) (rows (services db)))))),
      db)"

definition get_team :: "request \<Rightarrow> db \<Rightarrow> response \<times> db" where
  "get_team req db =
     (respond 200
        (JArr (map (select [''id'', ''name'', ''role'', ''photo_url''])
           (order_by_id (filter (where_eq ''active'' (SInt 1)) (rows (team db)))))),
      db)"

definition get_testimonials :: "request \<Rightarrow> db \<Rightarrow> response \<times> db" where
  "get_testimonials req db =
     (respond 200
        (JArr (map (select [''id'', ''author'', ''content'', ''rating''])
           (limit 12 (order_by_id_desc (filter (where_eq ''active'' (SInt 1)) (rows (testimonials db))))))),
      db)"

definition get_gallery :: "request \<Rightarrow> db \<Rightarrow> response \<times> db" where
  "get_gallery req db =
     (respond 200
        (JArr (map (select [''id'', ''image_url'', ''caption''])
           (limit 24 (order_by_id_desc (filter (where_eq ''active'' (SInt 1)) (rows (gallery db))))))),
      db)"

definition get_posts :: "request \<Rightarrow> db \<Rightarrow> response \<times> db" where
  "get_posts req db =
     (respond 200
        (JArr (map (select [''id'', ''title'', ''excerpt'', ''cover_url'', ''created_at''])
           (limit 20 (order_by_id_desc (filter (where_eq ''published'' (SInt 1)) (rows (posts db))))))),
      db)"

definition get_posts_id :: "env \<Rightarrow> request \<Rightarrow> db \<Rightarrow> response \<times> db" where
  "get_posts_id env req db =
     (case sql_get (\<lambda>r. where_id env (param req ''id'') r \<and> where_eq ''published'' (SInt 1) r)
             (posts db) of
        None \<Rightarrow> (respond 404 (JObj [(''error'', JStr ''not_found'')]), db)
      | Some r \<Rightarrow>
          (respond 200
             (select [''id'', ''title'', ''excerpt'', ''content'', ''cover_url'', ''created_at''] r),
           db))"

subsection \<open>Public writes\<close>

definition post_appointments :: "env \<Rightarrow> int \<Rightarrow> request \<Rightarrow> db \<Rightarrow> response \<times> db" where
  "post_appointments env now req db =
     (case safeParse env Schema_appointments (req_body req) of
        Inl e \<Rightarrow> (validation_error env e, db)
      | Inr data \<Rightarrow>
          (let (i, t) = sql_insert
                 [(''name'', bind (js_get data ''name'')),
                  (''phone'', bind (js_get data ''phone'')),
                  (''email'', bind (js_get data ''email'')),
                  (''service'', or_null (js_get data ''service'')),
                  (''datetime'', or_null (js_get data ''datetime'')),
                  (''notes'', or_null (js_get data ''notes'')),
                  (''status'', SText ''pending''),
                  (''created_at'', SInt now)]
                 (appointments db)
           in (respond 201 (JObj [(''id'', JNum (of_int i)), (''status'', JStr ''pending'')]),
               db\<lparr>appointments := t\<rparr>)))"

definition post_contact :: "env \<Rightarrow> int \<Rightarrow> request \<Rightarrow> db \<Rightarrow> response \<times> db" where
  "post_contact env now req db =
     (case safeParse env Schema_contact (req_body req) of
        Inl e \<Rightarrow> (validation_error env e, db)
      | Inr data \<Rightarrow>
          (let (i, t) = sql_insert
                 [(''name'', bind (js_get data ''name'')),
                  (''email'', bind (js_get data ''email'')),
                  (''message'', bind (js_get data ''message'')),
                  (''created_at'', SInt now)]
                 (contacts db)
           in (respond 201 (JObj [(''id'', JNum (of_int i))]), db\<lparr>contacts := t\<rparr>)))"

subsection \<open>Administration\<close>

definition get_admin_services :: "request \<Rightarrow> db \<Rightarrow> response \<times> db" where
  "get_admin_services req db =
     (respond 200 (JArr (map select_star (order_by_id_desc (rows (services db))))), db)"

definition post_admin_services :: "env \<Rightarrow> int \<Rightarrow> request \<Rightarrow> db \<Rightarrow> response \<times> db" where
  "post_admin_services env now req db =
     (case safeParse env Schema_services (req_body req) of
        Inl e \<Rightarrow> (validation_error env e, db)
      | Inr data \<Rightarrow>
          (let (i, t) = sql_insert
                 [(''title'', bind (js_get data ''title'')),
                  (''description'', or_null (js_get data ''description'')),
                  (''price_cents'', bind (js_get data ''price_cents'')),
                  (''active'', flag (js_get data ''active'') True),
                  (''created_at'', SInt now)]
                 (services db)
           in (respond 201 (JObj [(''id'', JNum (of_int i))]), db\<lparr>services := t\<rparr>)))"

definition put_admin_services_id :: "env \<Rightarrow> request \<Rightarrow> db \<Rightarrow> response \<times> db" where
  "put_admin_services_id env req db =
     (case safeParse env Schema_services (req_body req) of
        Inl e \<Rightarrow> (validation_error env e, db)
      | Inr data \<Rightarrow>
          (let (n, t) = sql_update
                 [(''title'', bind (js_get data ''title'')),
                  (''description'', or_null (js_get data ''description'')),
                  (''price_cents'', bind (js_get data ''price_cents'')),
                  (''active'', flag (js_get data ''active'') True)]
                 (where_id env (param req ''id'')) (services db)
           in (respond 200 (JObj [(''updated'', JNum (of_nat n))]), db\<lparr>services := t\<rparr>)))"

definition delete_admin_services_id :: "env \<Rightarrow> request \<Rightarrow> db \<Rightarrow> response \<times> db" where
  "delete_admin_services_id env req db =
     (let (n, t) = sql_delete (where_id env (param req ''id'')) (services db)
      in (respond 200 (JObj [(''deleted'', JNum (of_nat n))]), db\<lparr>services := t\<rparr>))"

definition get_admin_team :: "request \<Rightarrow> db \<Rightarrow> response \<times> db" where
  "get_admin_team req db =
     (respond 200 (JArr (map select_star (order_by_id_desc (rows (team db))))), db)"

definition post_admin_team :: "env \<Rightarrow> int \<Rightarrow> request \<Rightarrow> db \<Rightarrow> response \<times> db" where
  "post_admin_team env now req db =
     (case safeParse env Schema_team (req_body req) of
        Inl e \<Rightarrow> (validation_error env e, db)
      | Inr data \<Rightarrow>
          (let (i, t) = sql_insert
                 [(''name'', bind (js_get data ''name'')),
                  (''role'', or_null (js_get data ''role'')),
                  (''photo_url'', or_null (js_get data ''photo_url'')),
                  (''active'', flag (js_get data ''active'') True),
                  (''created_at'', SInt now)]
                 (team db)
           in (respond 201 (JObj [(''id'', JNum (of_int i))]), db\<lparr>team := t\<rparr>)))"

definition put_admin_team_id :: "env \<Rightarrow> request \<Rightarrow> db \<Rightarrow> response \<times> db" where
  "put_admin_team_id env req db =
     (case safeParse env Schema_team (req_body req) of
        Inl e \<Rightarrow> (validation_error env e, db)
      | Inr data \<Rightarrow>
          (let (n, t) = sql_update
                 [(''name'', bind (js_get data ''name'')),
                  (''role'', or_null (js_get data ''role'')),
                  (''photo_url'', or_null (js_get data ''photo_url'')),
                  (''active'', flag (js_get data ''active'') True)]
                 (where_id env (param req ''id'')) (team db)
           in (respond 200 (JObj [(''updated'', JNum (of_nat n))]), db\<lparr>team := t\<rparr>)))"

definition delete_admin_team_id :: "env \<Rightarrow> request \<Rightarrow> db \<Rightarrow> response \<times> db" where
  "delete_admin_team_id env req db =
     (let (n, t) = sql_delete (where_id env (param req ''id'')) (team db)
      in (respond 200 (JObj [(''deleted'', JNum (of_nat n))]), db\<lparr>team := t\<rparr>))"

definition get_admin_testimonials :: "request \<Rightarrow> db \<Rightarrow> response \<times> db" where
  "get_admin_testimonials req db =
     (respond 200 (JArr (map select_star (order_by_id_desc (rows (testimonials db))))), db)"

definition post_admin_testimonials :: "env \<Rightarrow> int \<Rightarrow> request \<Rightarrow> db \<Rightarrow> response \<times> db" where
  "post_admin_testimonials env now req db =
     (case safeParse env Schema_testimonials (req_body req) of
        Inl e \<Rightarrow> (validation_error env e, db)
      | Inr data \<Rightarrow>
          (let (i, t) = sql_insert
                 [(''author'', bind (js_get data ''author'')),
                  (''content'', bind (js_get data ''content'')),
                  (''rating'', bind (js_get data ''rating'')),
                  (''active'', flag (js_get data ''active'') True),
                  (''created_at'', SInt now)]
                 (testimonials db)
           in (respond 201 (JObj [(''id'', JNum (of_int i))]), db\<lparr>testimonials := t\<rparr>)))"

definition put_admin_testimonials_id :: "env \<Rightarrow> request \<Rightarrow> db \<Rightarrow> response \<times> db" where
  "put_admin_testimonials_id env req db =
     (case safeParse env Schema_testimonials (req_body req) of
        Inl e \<Rightarrow> (validation_error env e, db)
      | Inr data \<Rightarrow>
          (let (n, t) = sql_update
                 [(''author'', bind (js_get data ''author'')),
                  (''content'', bind (js_get data ''content'')),
                  (''rating'', bind (js_get data ''rating'')),
                  (''active'', flag (js_get data ''active'') True)]
                 (where_id env (param req ''id'')) (testimonials db)
           in (respond 200 (JObj [(''updated'', JNum (of_nat n))]), db\<lparr>testimonials := t\<rparr>)))"

definition delete_admin_testimonials_id :: "env \<Rightarrow> request \<Rightarrow> db \<Rightarrow> response \<times> db" where
  "delete_admin_testimonials_id env req db =
     (let (n, t) = sql_delete (where_id env (param req ''id'')) (testimonials db)
      in (respond 200 (JObj [(''deleted'', JNum (of_nat n))]), db\<lparr>testimonials := t\<rparr>))"

definition get_admin_gallery :: "request \<Rightarrow> db \<Rightarrow> response \<times> db" where
  "get_admin_gallery req db =
     (respond 200 (JArr (map select_star (order_by_id_desc (rows (gallery db))))), db)"

definition post_admin_gallery :: "env \<Rightarrow> int \<Rightarrow> request \<Rightarrow> db \<Rightarrow> response \<times> db" where
  "post_admin_gallery env now req db =
     (case safeParse env Schema_gallery (req_body req) of
        Inl e \<Rightarrow> (validation_error env e, db)
      | Inr data \<Rightarrow>
          (let (i, t) = sql_insert
                 [(''image_url'', bind (js_get data ''image_url'')),
                  (''caption'', or_null (js_get data ''caption'')),
                  (''active'', flag (js_get data ''active'') True),
                  (''created_at'', SInt now)]
                 (gallery db)
           in (respond 201 (JObj [(''id'', JNum (of_int i))]), db\<lparr>gallery := t\<rparr>)))"

definition put_admin_gallery_id :: "env \<Rightarrow> request \<Rightarrow> db \<Rightarrow> response \<times> db" where
  "put_admin_gallery_id env req db =
     (case safeParse env Schema_gallery (req_body req) of
        Inl e \<Rightarrow> (validation_error env e, db)
      | Inr data \<Rightarrow>
          (let (n, t) = sql_update
                 [(''image_url'', bind (js_get data ''image_url'')),
                  (''caption'', or_null (js_get data ''caption'')),
                  (''active'', flag (js_get data ''active'') True)]
                 (where_id env (param req ''id'')) (gallery db)
           in (respond 200 (JObj [(''updated'', JNum (of_nat n))]), db\<lparr>gallery := t\<rparr>)))"

definition delete_admin_gallery_id :: "env \<Rightarrow> request \<Rightarrow> db \<Rightarrow> response \<times> db" where
  "delete_admin_gallery_id env req db =
     (let (n, t) = sql_delete (where_id env (param req ''id'')) (gallery db)
      in (respond 200 (JObj [(''deleted'', JNum (of_nat n))]), db\<lparr>gallery := t\<rparr>))"

definition get_admin_posts :: "request \<Rightarrow> db \<Rightarrow> response \<times> db" where
  "get_admin_posts req db =
     (respond 200 (JArr (map select_star (order_by_id_desc (rows (posts db))))), db)"

definition post_admin_posts :: "env \<Rightarrow> int \<Rightarrow> request \<Rightarrow> db \<Rightarrow> response \<times> db" where
  "post_admin_posts env now req db =
     (case safeParse env Schema_posts (req_body req) of
        Inl e \<Rightarrow> (validation_error env e, db)
      | Inr data \<Rightarrow>
          (let (i, t) = sql_insert
                 [(''title'', bind (js_get data ''title'')),
                  (''excerpt'', or_null (js_get data ''excerpt'')),
                  (''content'', or_null (js_get data ''content'')),
                  (''cover_url'', or_null (js_get data ''cover_url'')),
                  (''published'', flag (js_get data ''published'') False),
                  (''created_at'', SInt now)]
                 (posts db)
           in (respond 201 (JObj [(''id'', JNum (of_int i))]), db\<lparr>posts := t\<rparr>)))"

definition put_admin_posts_id :: "env \<Rightarrow> request \<Rightarrow> db \<Rightarrow> response \<times> db" where
  "put_admin_posts_id env req db =
     (case safeParse env Schema_posts (req_body req) of
        Inl e \<Rightarrow> (validation_error env e, db)
      | Inr data \<Rightarrow>
          (let (n, t) = sql_update
                 [(''title'', bind (js_get data ''title'')),
                  (''excerpt'', or_null (js_get data ''excerpt'')),
                  (''content'', or_null (js_get data ''content'')),
                  (''cover_url'', or_null (js_get data ''cover_url'')),
                  (''published'', flag (js_get data ''published'') False)]
                 (where_id env (param req ''id'')) (posts db)
           in (respond 200 (JObj [(''updated'', JNum (of_nat n))]), db\<lparr>posts := t\<rparr>)))"

definition delete_admin_posts_id :: "env \<Rightarrow> request \<Rightarrow> db \<Rightarrow> response \<times> db" where
  "delete_admin_posts_id env req db =
     (let (n, t) = sql_delete (where_id env (param req ''id'')) (posts db)
      in (respond 200 (JObj [(''deleted'', JNum (of_nat n))]), db\<lparr>posts := t\<rparr>))"

definition get_admin_appointments :: "request \<Rightarrow> db \<Rightarrow> response \<times> db" where
  "get_admin_appointments req db =
     (respond 200 (JArr (map select_star (order_by_id_desc (rows (appointments db))))), db)"

definition put_admin_appointments_id_status :: "env \<Rightarrow> request \<Rightarrow> db \<Rightarrow> response \<times> db" where
  "put_admin_appointments_id_status env req db =
     (case safeParse env Schema_status (req_body req) of
        Inl e \<Rightarrow> (validation_error env e, db)
      | Inr data \<Rightarrow>
          (let (n, t) = sql_update [(''status'', bind (js_get data ''status''))]
                 (where_id env (param req ''id'')) (appointments db)
           in (respond 200 (JObj [(''updated'', JNum (of_nat n))]), db\<lparr>appointments := t\<rparr>)))"

definition delete_admin_appointments_id :: "env \<Rightarrow> request \<Rightarrow> db \<Rightarrow> response \<times> db" where
  "delete_admin_appointments_id env req db =
     (let (n, t) = sql_delete (where_id env (param req ''id'')) (appointments db)
      in (respond 200 (JObj [(''deleted'', JNum (of_nat n))]), db\<lparr>appointments := t\<rparr>))"

definition get_admin_contacts :: "request \<Rightarrow> db \<Rightarrow> response \<times> db" where
  "get_admin_contacts req db =
     (respond 200 (JArr (map select_star (order_by_id_desc (rows (contacts db))))), db)"

definition delete_admin_contacts_id :: "env \<Rightarrow> request \<Rightarrow> db \<Rightarrow> response \<times> db" where
  "delete_admin_contacts_id env req db =
     (let (n, t) = sql_delete (where_id env (param req ''id'')) (contacts db)
      in (respond 200 (JObj [(''deleted'', JNum (of_nat n))]), db\<lparr>contacts := t\<rparr>))"

definition get_health :: "request \<Rightarrow> db \<Rightarrow> response \<times> db" where
  "get_health req db = (respond 200 (JObj [(''ok'', JBool True)]), db)"

subsection \<open>The router\<close>

text \<open>
  \<open>app.get(path, handler)\<close> and its siblings register a route for one method and one
  path pattern, whose segment \<open>:id\<close> binds \<open>req.params.id\<close>; \<open>app.use(prefix, ...)\<close> registers
  middleware for every method and every path under the prefix. A request goes through the
  registrations in their order.
\<close>

datatype layer =
    Route http_method "string list" "request \<Rightarrow> db \<Rightarrow> response \<times> db"
  | Use "string list" "(request \<Rightarrow> response + request) list"

fun match_path :: "string list \<Rightarrow> string list \<Rightarrow> (string \<times> string) list option" where
  "match_path [] [] = Some []"
| "match_path (s # ss) (x # xs) =
     (if prefix '':'' s then map_option (\<lambda>ps. (drop 1 s, x) # ps) (match_path ss xs)
      else if s = x then match_path ss xs
      else None)"
| "match_path _ _ = None"

fun run_middleware :: "(request \<Rightarrow> response + request) list \<Rightarrow> request \<Rightarrow> response + request" where
  "run_middleware [] req = Inr req"
| "run_middleware (m # ms) req =
     (case m req of Inl res \<Rightarrow> Inl res | Inr req' \<Rightarrow> run_middleware ms req')"

text \<open>A request no registration answers gets the framework's 404, whose body is not JSON.\<close>

fun dispatch :: "layer list \<Rightarrow> request \<Rightarrow> db \<Rightarrow> response \<times> db" where
  "dispatch [] req db = (respond 404 JNull, db)"
| "dispatch (Route m pat h # ls) req db =
     (if req_method req = m
      then (case match_path pat (req_path req) of
              Some ps \<Rightarrow> h (req\<lparr>req_params := ps\<rparr>) db
            | None \<Rightarrow> dispatch ls req db)
      else dispatch ls req db)"
| "dispatch (Use pre ms # ls) req db =
     (if prefix pre (req_path req)
      then (case run_middleware ms req of
              Inl res \<Rightarrow> (res, db)
            | Inr req' \<Rightarrow> dispatch ls req' db)
      else dispatch ls req db)"

text \<open>
  The registrations of server.js from the login route on, in the file's order. The
  library middleware registered before them (security headers, the JSON body parser, the
  logger, CORS, the rate limiter) answers some requests itself; \<open>app\<close> is what runs on the
  requests it passes on.
\<close>

definition app :: "env \<Rightarrow> int \<Rightarrow> layer list" where
  "app env now =
     [Route POST [''auth'', ''login''] (post_auth_login env now),
      Route GET [''services''] get_services,
      Route GET [''team''] get_team,
      Route GET [''testimonials''] get_testimonials,
      Route GET [''gallery''] get_gallery,
      Route GET [''posts''] get_posts,
      Route GET [''posts'', '':id''] (get_posts_id env),
      Route POST [''appointments''] (post_appointments env now),
      Route POST [''contact''] (post_contact env now),
      Use [''admin''] [authMiddleware env now, ensureAdmin],
      Route GET [''admin'', ''services''] get_admin_services,
      Route POST [''admin'', ''services''] (post_admin_services env now),
      Route PUT [''admin'', ''services'', '':id''] (put_admin_services_id env),
      Route DELETE [''admin'', ''services'', '':id''] (delete_admin_services_id env),
      Route GET [''admin'', ''team''] get_admin_team,
      Route POST [''admin'', ''team''] (post_admin_team env now),
      Route PUT [''admin'', ''team'', '':id''] (put_admin_team_id env),
      Route DELETE [''admin'', ''team'', '':id''] (delete_admin_team_id env),
      Route GET [''admin'', ''testimonials''] get_admin_testimonials,
      Route POST [''admin'', ''testimonials''] (post_admin_testimonials env now),
      Route PUT [''admin'', ''testimonials'', '':id''] (put_admin_testimonials_id env),
      Route DELETE [''admin'', ''testimonials'', '':id''] (delete_admin_testimonials_id env),
      Route GET [''admin'', ''gallery''] get_admin_gallery,
      Route POST [''admin'', ''gallery''] (post_admin_gallery env now),
      Route PUT [''admin'', ''gallery'', '':id''] (put_admin_gallery_id env),
      Route DELETE [''admin'', ''gallery'', '':id''] (delete_admin_gallery_id env),
      Route GET [''admin'', ''posts''] get_admin_posts,
      Route POST [''admin'', ''posts''] (post_admin_posts env now),
      Route PUT [''admin'', ''posts'', '':id''] (put_admin_posts_id env),
      Route DELETE [''admin'', ''posts'', '':id''] (delete_admin_posts_id env),
      Route GET [''admin'', ''appointments''] get_admin_appointments,
      Route PUT [''admin'', ''appointments'', '':id'', ''status'']
        (put_admin_appointments_id_status env),
      Route DELETE [''admin'', ''appointments'', '':id''] (delete_admin_appointments_id env),
      Route GET [''admin'', ''contacts''] get_admin_contacts,
      Route DELETE [''admin'', ''contacts'', '':id''] (delete_admin_contacts_id env),
      Route GET [''health''] get_health]"

definition server :: "env \<Rightarrow> int \<Rightarrow> request \<Rightarrow> db \<Rightarrow> response \<times> db" where
  "server env now req db = dispatch (app env now) req db"

text \<open>
  The three calls at the top of server.js. The seed and the bootstrap read the clock
  separately.
\<close>

definition startup :: "env \<Rightarrow> int \<Rightarrow> int \<Rightarrow> db \<Rightarrow> db" where
  "startup env t_seed t_admin db = ensureAdminUser env t_admin (seedIfEmpty t_seed (migrate db))"

section \<open>A concrete environment and store\<close>

text \<open>
  An environment for running the definitions on examples: the token \<open>admin-token\<close>
  verifies with role \<open>admin\<close>, \<open>guest-token\<close> with role \<open>guest\<close>, and no other token does;
  a password's hash is \<open>#\<close> followed by the password; an e-mail address contains \<open>@\<close>, a URL
  starts with \<open>http\<close>; the ids \<open>1\<close>, \<open>2\<close>, \<open>3\<close> and \<open>999\<close> are read from their decimal text.
\<close>

definition test_env :: env where
  "test_env =
     \<lparr>ADMIN_EMAIL = Some ''admin@x.com'',
      ADMIN_PASSWORD = Some ''secret'',
      JWT_SECRET = Some ''key'',
      jwt_sign = (\<lambda>secret payload now. ''signed''),
      jwt_verify = (\<lambda>t now.
         if t = ''admin-token'' then Some (JObj [(''sub'', JNum 1), (''role'', JStr ''admin'')])
         else if t = ''guest-token'' then Some (JObj [(''sub'', JNum 2), (''role'', JStr ''guest'')])
         else None),
      hashSync = (\<lambda>p. CHR ''#'' # p),
      compareSync = (\<lambda>plain hash. hash = CHR ''#'' # plain),
      zod_email = (\<lambda>s. CHR ''@'' \<in> set s),
      zod_url = (\<lambda>s. prefix ''http'' s),
      zod_message = (\<lambda>i. ''invalid''),
      numeric_affinity = (\<lambda>s.
         if s = ''1'' then Some 1 else if s = ''2'' then Some 2
         else if s = ''3'' then Some 3 else if s = ''999'' then Some 999 else None)\<rparr>"

definition empty_table :: table where
  "empty_table = \<lparr>rows = [], sequence = 0\<rparr>"

definition empty_db :: db where
  "empty_db =
     \<lparr>users = empty_table, services = empty_table, team = empty_table,
      testimonials = empty_table, gallery = empty_table, posts = empty_table,
      appointments = empty_table, contacts = empty_table\<rparr>"

definition request :: "http_method \<Rightarrow> string list \<Rightarrow> string option \<Rightarrow> json \<Rightarrow> request" where
  "request m p a b =
     \<lparr>req_method = m, req_path = p, req_authorization = a, req_body = b,
      req_params = [], req_user = None\<rparr>"

text \<open>The request of the specification's example.\<close>

definition ana :: request where
  "ana = request POST [''appointments''] None
     (JObj [(''name'', JStr ''Ana Silva''), (''phone'', JStr ''11999999999''),
            (''email'', JStr ''ana@x.com'')])"

definition login :: "string \<Rightarrow> string \<Rightarrow> request" where
  "login e pw = request POST [''auth'', ''login''] None
     (JObj [(''email'', JStr e), (''password'', JStr pw)])"

definition as_admin :: "http_method \<Rightarrow> string list \<Rightarrow> json \<Rightarrow> request" where
  "as_admin m p b = request m p (Some ''Bearer admin-token'') b"

definition service_body :: json where
  "service_body = JObj [(''title'', JStr ''Corte novo''), (''price_cents'', JNum 4500)]"

text \<open>
  A store with a user, a visible and a hidden service, a published and an unpublished
  post, and one row in each of the tables team, testimonials, gallery, appointments and
  contacts.
\<close>

definition sample_db :: db where
  "sample_db =
     \<lparr>users = \<lparr>rows = [\<lparr>rowid = 1, cols = [(''email'', SText ''admin@x.com''),
                 (''password_hash'', SText ''#secret''), (''role'', SText ''admin''),
                 (''created_at'', SInt 10)]\<rparr>], sequence = 1\<rparr>,
      services = \<lparr>rows =
         [\<lparr>rowid = 1, cols = [(''title'', SText ''Corte''), (''description'', SNull),
             (''price_cents'', SInt 4000), (''active'', SInt 1), (''created_at'', SInt 10)]\<rparr>,
          \<lparr>rowid = 2, cols = [(''title'', SText ''Barba''), (''description'', SText ''old''),
             (''price_cents'', SInt 3000), (''active'', SInt 0), (''created_at'', SInt 11)]\<rparr>],
         sequence = 2\<rparr>,
      team = \<lparr>rows = [\<lparr>rowid = 1, cols = [(''name'', SText ''Rui''), (''role'', SNull),
                 (''photo_url'', SNull), (''active'', SInt 0), (''created_at'', SInt 12)]\<rparr>],
               sequence = 1\<rparr>,
      testimonials = \<lparr>rows = [\<lparr>rowid = 1, cols = [(''author'', SText ''Bia''),
                 (''content'', SText ''bom''), (''rating'', SInt 5), (''active'', SInt 0),
                 (''created_at'', SInt 13)]\<rparr>], sequence = 1\<rparr>,
      gallery = \<lparr>rows = [\<lparr>rowid = 1, cols = [(''image_url'', SText ''http://x/1.png''),
                 (''caption'', SNull), (''active'', SInt 0), (''created_at'', SInt 14)]\<rparr>],
                  sequence = 1\<rparr>,
      posts = \<lparr>rows =
         [\<lparr>rowid = 1, cols = [(''title'', SText ''Novo''), (''excerpt'', SNull),
             (''content'', SNull), (''cover_url'', SNull), (''published'', SInt 1),
             (''created_at'', SInt 15)]\<rparr>,
          \<lparr>rowid = 2, cols = [(''title'', SText ''Rascunho''), (''excerpt'', SNull),
             (''content'', SNull), (''cover_url'', SNull), (''published'', SInt 0),
             (''created_at'', SInt 16)]\<rparr>],
         sequence = 2\<rparr>,
      appointments = \<lparr>rows = [\<lparr>rowid = 1, cols = [(''name'', SText ''Ana Silva''),
                 (''phone'', SText ''11999999999''), (''email'', SText ''ana@x.com''),
                 (''service'', SText ''Corte''), (''datetime'', SNull), (''notes'', SNull),
                 (''status'', SText ''confirmed''), (''created_at'', SInt 17)]\<rparr>],
                       sequence = 1\<rparr>,
      contacts = \<lparr>rows = [\<lparr>rowid = 1, cols = [(''name'', SText ''Ana''),
                 (''email'', SText ''ana@x.com''), (''message'', SText ''oi''),
                 (''created_at'', SInt 18)]\<rparr>], sequence = 1\<rparr>\<rparr>"

text \<open>
  The same environment with \<open>JWT_SECRET\<close> not set and with \<open>JWT_SECRET\<close> empty, where no
  token verifies either, and the user row of the store.
\<close>

definition no_secret_env :: env where
  "no_secret_env = test_env\<lparr>JWT_SECRET := None, jwt_verify := (\<lambda>t now. None)\<rparr>"

definition empty_secret_env :: env where
  "empty_secret_env = test_env\<lparr>JWT_SECRET := Some [], jwt_verify := (\<lambda>t now. None)\<rparr>"

definition admin_row :: row where
  "admin_row = \<lparr>rowid = 1, cols = [(''email'', SText ''admin@x.com''),
                 (''password_hash'', SText ''#secret''), (''role'', SText ''admin''),
                 (''created_at'', SInt 10)]\<rparr>"

text \<open>The environment of a restart after the administrator's password was changed.\<close>

definition changed_password_env :: env where
  "changed_password_env =
     test_env\<lparr>ADMIN_PASSWORD := Some ''changed'', hashSync := (\<lambda>p. CHR ''$'' # p)\<rparr>"

text \<open>
  A store with more visible rows than the lists show: three services held out of the
  order of their ids, the second hidden; two team members; fourteen testimonials, the
  fifth hidden; twenty-five gallery items and twenty-one posts, all visible.
\<close>

definition service :: "int \<Rightarrow> int \<Rightarrow> row" where
  "service i a = \<lparr>rowid = i, cols = [(''title'', SText ''Corte''), (''description'', SNull),
     (''price_cents'', SInt (1000 * i)), (''active'', SInt a), (''created_at'', SInt (100 + i))]\<rparr>"

definition team_member :: "int \<Rightarrow> int \<Rightarrow> row" where
  "team_member i a = \<lparr>rowid = i, cols = [(''name'', SText ''Rui''), (''role'', SNull),
     (''photo_url'', SNull), (''active'', SInt a), (''created_at'', SInt (100 + i))]\<rparr>"

definition testimonial :: "int \<Rightarrow> int \<Rightarrow> row" where
  "testimonial i a = \<lparr>rowid = i, cols = [(''author'', SText ''Bia''), (''content'', SText ''bom''),
     (''rating'', SInt 5), (''active'', SInt a), (''created_at'', SInt (100 + i))]\<rparr>"

definition gallery_item :: "int \<Rightarrow> int \<Rightarrow> row" where
  "gallery_item i a = \<lparr>rowid = i, cols = [(''image_url'', SText ''http://x/1.png''),
     (''caption'', SNull), (''active'', SInt a), (''created_at'', SInt (100 + i))]\<rparr>"

definition post :: "int \<Rightarrow> int \<Rightarrow> row" where
  "post i p = \<lparr>rowid = i, cols = [(''title'', SText ''Novo''), (''excerpt'', SNull),
     (''content'', SNull), (''cover_url'', SNull), (''published'', SInt p),
     (''created_at'', SInt (100 + i))]\<rparr>"

definition busy_db :: db where
  "busy_db =
     sample_db
       \<lparr>services := \<lparr>rows = [service 3 1, service 1 1, service 2 0], sequence = 3\<rparr>,
        team := \<lparr>rows = [team_member 2 1, team_member 1 1], sequence = 2\<rparr>,
        testimonials :=
          \<lparr>rows = map (\<lambda>i. testimonial i (if i = 5 then 0 else 1))
                    [1, 2, 3, 4, 5, 6, 7, 8, 9, 10, 11, 12, 13, 14],
           sequence = 14\<rparr>,
        gallery :=
          \<lparr>rows = map (\<lambda>i. gallery_item i 1)
                    [1, 2, 3, 4, 5, 6, 7, 8, 9, 10, 11, 12, 13, 14, 15, 16, 17, 18, 19, 20,
                     21, 22, 23, 24, 25],
           sequence = 25\<rparr>,
        posts :=
          \<lparr>rows = map (\<lambda>i. post i 1)
                    [1, 2, 3, 4, 5, 6, 7, 8, 9, 10, 11, 12, 13, 14, 15, 16, 17, 18, 19, 20, 21],
           sequence = 21\<rparr>\<rparr>"

text \<open>The ids of the objects of a list answer, in the answer's order.\<close>

definition ids :: "response \<times> db \<Rightarrow> json option list" where
  "ids out = (case res_json (fst out) of JArr js \<Rightarrow> map (\<lambda>j. js_get j ''id'') js | _ \<Rightarrow> [])"

section \<open>Notions the properties are stated with\<close>

fun keys :: "json \<Rightarrow> string list" where
  "keys (JObj kvs) = map fst kvs"
| "keys _ = []"

text \<open>
  A body lists only visible rows of a table in the columns \<open>cs\<close>: it is an array, and each
  element is the projection to \<open>cs\<close> of a row of the table whose flag column is 1.
\<close>

definition lists_visible :: "json \<Rightarrow> string list \<Rightarrow> string \<Rightarrow> table \<Rightarrow> bool" where
  "lists_visible body cs c t =
     (case body of
        JArr js \<Rightarrow>
          (\<forall>j \<in> set js. keys j = cs \<and> (\<exists>r \<in> set (rows t). col r c = SInt 1 \<and> j = select cs r))
      | _ \<Rightarrow> False)"

text \<open>The request passes the two middlewares registered for the \<open>/admin\<close> prefix.\<close>

definition passes_guard :: "env \<Rightarrow> int \<Rightarrow> request \<Rightarrow> bool" where
  "passes_guard env now req =
     (case run_middleware [authMiddleware env now, ensureAdmin] req of
        Inr req' \<Rightarrow> True
      | Inl res \<Rightarrow> False)"

text \<open>
  The table behind \<open>/admin/<name>/:id\<close>, for the seven names that have a delete route, and
  the schema of \<open>PUT /admin/<name>/:id\<close>, for the five names that have a replace route.
\<close>

definition admin_table :: "string \<Rightarrow> db \<Rightarrow> table option" where
  "admin_table name db =
     (if name = ''services'' then Some (services db)
      else if name = ''team'' then Some (team db)
      else if name = ''testimonials'' then Some (testimonials db)
      else if name = ''gallery'' then Some (gallery db)
      else if name = ''posts'' then Some (posts db)
      else if name = ''appointments'' then Some (appointments db)
      else if name = ''contacts'' then Some (contacts db)
      else None)"

definition admin_schema :: "string \<Rightarrow> schema option" where
  "admin_schema name =
     (if name = ''services'' then Some Schema_services
      else if name = ''team'' then Some Schema_team
      else if name = ''testimonials'' then Some Schema_testimonials
      else if name = ''gallery'' then Some Schema_gallery
      else if name = ''posts'' then Some Schema_posts
      else None)"

text \<open>
  Rows in descending order of id, and the \<open>n\<close> newest of the rows \<open>ms\<close>: in descending
  order of id, \<open>n\<close> of them or all when there are fewer, and no row left out has a larger
  id than a row taken.
\<close>

definition newest_first :: "row list \<Rightarrow> bool" where
  "newest_first rs = sorted (rev (map rowid rs))"

definition newest :: "nat \<Rightarrow> row list \<Rightarrow> row list \<Rightarrow> bool" where
  "newest n ms rs =
     (newest_first rs \<and> mset rs \<subseteq># mset ms \<and> length rs = min n (length ms)
      \<and> (\<forall>r \<in># mset ms - mset rs. \<forall>k \<in> set rs. rowid r \<le> rowid k))"

text \<open>
  The schema a route validates its body with, for the fourteen routes that validate one,
  and the declared fields of a schema that a body fails on.
\<close>

fun write_schema :: "http_method \<Rightarrow> string list \<Rightarrow> schema option" where
  "write_schema POST [a] =
     (if a = ''appointments'' then Some Schema_appointments
      else if a = ''contact'' then Some Schema_contact
      else None)"
| "write_schema POST [a, b] =
     (if a = ''auth'' \<and> b = ''login'' then Some Schema_login
      else if a = ''admin'' then admin_schema b
      else None)"
| "write_schema PUT [a, b, i] = (if a = ''admin'' then admin_schema b else None)"
| "write_schema PUT [a, b, i, c] =
     (if a = ''admin'' \<and> b = ''appointments'' \<and> c = ''status'' then Some Schema_status else None)"
| "write_schema m p = None"

definition invalid_fields :: "env \<Rightarrow> schema \<Rightarrow> json \<Rightarrow> string list" where
  "invalid_fields env sch body =
     map fst (filter (\<lambda>(k, tw). parse_field env tw (js_get body k) \<noteq> []) sch)"

text \<open>Both bootstrap variables are set and not empty.\<close>

definition configured :: "env \<Rightarrow> bool" where
  "configured env =
     (case (ADMIN_EMAIL env, ADMIN_PASSWORD env) of
        (Some e, Some pw) \<Rightarrow> e \<noteq> [] \<and> pw \<noteq> []
      | _ \<Rightarrow> False)"

text \<open>
  An object shows the columns \<open>cs\<close> of a row: its keys are \<open>cs\<close>, and under each it has the
  row's value of that column. A full row is shown with its id and every column it has.
\<close>

definition shows_columns :: "string list \<Rightarrow> row \<Rightarrow> json \<Rightarrow> bool" where
  "shows_columns cs r j =
     (keys j = cs \<and> (\<forall>c \<in> set cs. js_get j c = Some (json_of_sql (col r c))))"

definition full_row :: "row \<Rightarrow> json \<Rightarrow> bool" where
  "full_row r j = shows_columns (''id'' # map fst (cols r)) r j"

section \<open>Facts about the store and the schemas\<close>

lemma fold_max_ge: "(a::int) \<le> fold max xs a"
  by (induction xs arbitrary: a) (auto intro: order_trans [OF max.cobounded2])

lemma fold_max_mem: "x \<in> set xs \<Longrightarrow> (x::int) \<le> fold max xs a"
proof (induction xs arbitrary: a)
  case Nil
  then show ?case by simp
next
  case (Cons y ys)
  show ?case
  proof (cases "x = y")
    case True
    have "y \<le> max y a" by simp
    also have "\<dots> \<le> fold max ys (max y a)" by (rule fold_max_ge)
    finally show ?thesis using True by simp
  next
    case False
    with Cons show ?thesis by simp
  qed
qed

lemma next_rowid_fresh: "r \<in> set (rows t) \<Longrightarrow> rowid r < next_rowid t"
  using fold_max_mem [of "rowid r" "map rowid (rows t)" "sequence t"]
  by (simp add: next_rowid_def)

lemma field_issues_Nil:
  "field_issues env sch kvs = [] \<longleftrightarrow> (\<forall>(k, tw) \<in> set sch. parse_field env tw (map_of kvs k) = [])"
  by (auto simp: field_issues_def filter_empty_conv)

lemma safeParse_Inr:
  "safeParse env sch body = Inr data \<longleftrightarrow>
     (\<exists>kvs. body = JObj kvs \<and> (\<forall>(k, tw) \<in> set sch. parse_field env tw (map_of kvs k) = [])
        \<and> data = JObj (List.map_filter (\<lambda>(k, tw). map_option (Pair k) (map_of kvs k)) sch))"
  by (cases body) (auto simp: safeParse_def field_issues_Nil)

lemma map_of_declared:
  "map_of (List.map_filter (\<lambda>(k, tw). map_option (Pair k) (m k)) sch) k'
     = (if k' \<in> fst ` set sch then m k' else None)"
proof (induction sch)
  case Nil
  then show ?case by (simp add: List.map_filter_simps)
next
  case (Cons a sch)
  obtain k tw where a: "a = (k, tw)" by (cases a)
  show ?case
  proof (cases "m k")
    case None
    with Cons a show ?thesis by (auto simp: List.map_filter_simps)
  next
    case (Some v)
    with Cons a show ?thesis by (auto simp: List.map_filter_simps)
  qed
qed

lemma safeParse_data:
  assumes "safeParse env sch body = Inr data"
  shows "js_get data k = (if k \<in> fst ` set sch then js_get body k else None)"
proof -
  from assms obtain kvs where "body = JObj kvs"
    and "data = JObj (List.map_filter (\<lambda>(k, tw). map_option (Pair k) (map_of kvs k)) sch)"
    unfolding safeParse_Inr by blast
  then show ?thesis by (simp add: map_of_declared)
qed

lemma safeParse_field:
  assumes "safeParse env sch body = Inr data" and "(k, tw) \<in> set sch"
  shows "parse_field env tw (js_get body k) = []"
proof -
  from assms(1) obtain kvs where "body = JObj kvs"
    and "\<forall>(k, tw) \<in> set sch. parse_field env tw (map_of kvs k) = []"
    unfolding safeParse_Inr by blast
  with assms(2) show ?thesis by auto
qed

lemma parse_field_Mandatory_string:
  assumes "parse_field env (ZString cs, Mandatory) v = []"
  shows "\<exists>s. v = Some (JStr s) \<and> (\<forall>c \<in> set cs. string_check env s c = None)"
proof (cases v)
  case None
  with assms show ?thesis by simp
next
  case (Some a)
  with assms show ?thesis
    by (cases a) (auto simp: List.map_filter_def filter_empty_conv)
qed

lemma parse_field_OptionalNullable_string:
  assumes "parse_field env (ZString [], OptionalNullable) v = []"
  shows "v = None \<or> v = Some JNull \<or> (\<exists>s. v = Some (JStr s))"
proof (cases v)
  case None
  then show ?thesis by simp
next
  case (Some a)
  with assms show ?thesis by (cases a) auto
qed

lemma passes_guard_as_admin: "passes_guard test_env now (as_admin m p b)"
  by (simp add: passes_guard_def as_admin_def request_def authMiddleware_def ensureAdmin_def
      test_env_def Let_def)

section \<open>The guard in front of the administration routes\<close>

lemma authMiddleware_no_bearer:
  assumes "\<forall>t. t \<noteq> [] \<longrightarrow> req_authorization req \<noteq> Some (''Bearer '' @ t)"
  shows "authMiddleware env now req = Inl (respond 401 (JObj [(''error'', JStr ''missing_token'')]))"
  using assms by (auto simp: authMiddleware_def Let_def prefix_def split: option.splits)

lemma authMiddleware_bearer:
  assumes "req_authorization req = Some (''Bearer '' @ t)" and "t \<noteq> []"
  shows "authMiddleware env now req =
     (case jwt_verify env t now of
        Some payload \<Rightarrow> Inr (req\<lparr>req_user := Some payload\<rparr>)
      | None \<Rightarrow> Inl (respond 401 (JObj [(''error'', JStr ''invalid_token'')])))"
  using assms by (simp add: authMiddleware_def Let_def)

lemma server_admin_prefix:
  assumes "req_path req = ''admin'' # rest"
  shows "server env now req db =
     (case run_middleware [authMiddleware env now, ensureAdmin] req of
        Inl res \<Rightarrow> (res, db)
      | Inr req' \<Rightarrow> dispatch (drop 10 (app env now)) req' db)"
  using assms by (simp add: server_def app_def cong: sum.case_cong)

text \<open>
  Claim C1. A request whose path lies under \<open>/admin\<close>, whatever its method and the rest of
  its path: when the \<open>Authorization\<close> header is absent or is not \<open>Bearer\<close> followed by a
  non-empty token, the answer is 401 \<open>missing_token\<close>; when the token does not verify, 401
  \<open>invalid_token\<close>; when it verifies and the role of its claims is not \<open>admin\<close>, 403
  \<open>forbidden\<close>. The store is left as it was in all three. The answer is 403 only for a
  token that has verified, so the role is looked at after authentication alone.
\<close>

theorem admin_requires_admin_token:
  assumes "req_path req = ''admin'' # rest"
  shows "((\<forall>t. t \<noteq> [] \<longrightarrow> req_authorization req \<noteq> Some (''Bearer '' @ t)) \<longrightarrow>
            server env now req db = (respond 401 (JObj [(''error'', JStr ''missing_token'')]), db))
       \<and> (\<forall>t. t \<noteq> [] \<and> req_authorization req = Some (''Bearer '' @ t) \<and> jwt_verify env t now = None \<longrightarrow>
            server env now req db = (respond 401 (JObj [(''error'', JStr ''invalid_token'')]), db))
       \<and> (\<forall>t payload. t \<noteq> [] \<and> req_authorization req = Some (''Bearer '' @ t)
              \<and> jwt_verify env t now = Some payload \<and> js_get payload ''role'' \<noteq> Some (JStr ''admin'') \<longrightarrow>
            server env now req db = (respond 403 (JObj [(''error'', JStr ''forbidden'')]), db))
       \<and> (res_status (fst (server env now req db)) = 403 \<longrightarrow>
            (\<exists>t payload. t \<noteq> [] \<and> req_authorization req = Some (''Bearer '' @ t)
               \<and> jwt_verify env t now = Some payload))"
proof (intro conjI allI impI)
  assume "\<forall>t. t \<noteq> [] \<longrightarrow> req_authorization req \<noteq> Some (''Bearer '' @ t)"
  then show "server env now req db = (respond 401 (JObj [(''error'', JStr ''missing_token'')]), db)"
    by (simp add: server_admin_prefix [OF assms] authMiddleware_no_bearer)
next
  fix t
  assume "t \<noteq> [] \<and> req_authorization req = Some (''Bearer '' @ t) \<and> jwt_verify env t now = None"
  then show "server env now req db = (respond 401 (JObj [(''error'', JStr ''invalid_token'')]), db)"
    by (simp add: server_admin_prefix [OF assms] authMiddleware_bearer)
next
  fix t payload
  assume "t \<noteq> [] \<and> req_authorization req = Some (''Bearer '' @ t)
              \<and> jwt_verify env t now = Some payload \<and> js_get payload ''role'' \<noteq> Some (JStr ''admin'')"
  then show "server env now req db = (respond 403 (JObj [(''error'', JStr ''forbidden'')]), db)"
    by (simp add: server_admin_prefix [OF assms] authMiddleware_bearer ensureAdmin_def)
next
  assume st: "res_status (fst (server env now req db)) = 403"
  show "\<exists>t payload. t \<noteq> [] \<and> req_authorization req = Some (''Bearer '' @ t)
               \<and> jwt_verify env t now = Some payload"
  proof (cases "\<forall>t. t \<noteq> [] \<longrightarrow> req_authorization req \<noteq> Some (''Bearer '' @ t)")
    case True
    then have "server env now req db = (respond 401 (JObj [(''error'', JStr ''missing_token'')]), db)"
      by (simp add: server_admin_prefix [OF assms] authMiddleware_no_bearer)
    with st show ?thesis by (simp add: respond_def)
  next
    case False
    then obtain t where t: "t \<noteq> []" "req_authorization req = Some (''Bearer '' @ t)" by blast
    show ?thesis
    proof (cases "jwt_verify env t now")
      case None
      with t have "server env now req db = (respond 401 (JObj [(''error'', JStr ''invalid_token'')]), db)"
        by (simp add: server_admin_prefix [OF assms] authMiddleware_bearer)
      with st show ?thesis by (simp add: respond_def)
    next
      case (Some payload)
      with t show ?thesis by blast
    qed
  qed
qed

theorem admin_requires_admin_token_witness:
  "server test_env 0 (request GET [''admin'', ''services''] None JNull) empty_db
     = (respond 401 (JObj [(''error'', JStr ''missing_token'')]), empty_db)
   \<and> server test_env 0 (request GET [''admin'', ''services''] (Some ''Bearer forged'') JNull) empty_db
     = (respond 401 (JObj [(''error'', JStr ''invalid_token'')]), empty_db)
   \<and> server test_env 0 (request GET [''admin'', ''services''] (Some ''Bearer guest-token'') JNull) empty_db
     = (respond 403 (JObj [(''error'', JStr ''forbidden'')]), empty_db)
   \<and> (\<exists>t payload. t \<noteq> []
         \<and> req_authorization (request GET [''admin'', ''services''] (Some ''Bearer guest-token'') JNull)
             = Some (''Bearer '' @ t)
         \<and> jwt_verify test_env t 0 = Some payload)"
proof -
  have p: "\<And>a. req_path (request GET [''admin'', ''services''] a JNull) = ''admin'' # [''services'']"
    by (simp add: request_def)
  have 1: "\<forall>t. t \<noteq> [] \<longrightarrow> req_authorization (request GET [''admin'', ''services''] None JNull) \<noteq> Some (''Bearer '' @ t)"
    by (simp add: request_def)
  have 2: "''forged'' \<noteq> [] \<and> req_authorization (request GET [''admin'', ''services''] (Some ''Bearer forged'') JNull) = Some (''Bearer '' @ ''forged'')
      \<and> jwt_verify test_env ''forged'' 0 = None"
    by (simp add: request_def test_env_def)
  have 3: "''guest-token'' \<noteq> [] \<and> req_authorization (request GET [''admin'', ''services''] (Some ''Bearer guest-token'') JNull) = Some (''Bearer '' @ ''guest-token'')
      \<and> jwt_verify test_env ''guest-token'' 0 = Some (JObj [(''sub'', JNum 2), (''role'', JStr ''guest'')])
      \<and> js_get (JObj [(''sub'', JNum 2), (''role'', JStr ''guest'')]) ''role'' \<noteq> Some (JStr ''admin'')"
    by (simp add: request_def test_env_def)
  have 4: "res_status (fst (respond 403 (JObj [(''error'', JStr ''forbidden'')]), empty_db)) = 403"
    by (simp add: respond_def)
  note a = admin_requires_admin_token [OF p, of None test_env 0 empty_db]
  note b = admin_requires_admin_token [OF p, of "Some ''Bearer forged''" test_env 0 empty_db]
  note c = admin_requires_admin_token [OF p, of "Some ''Bearer guest-token''" test_env 0 empty_db]
  from a 1 have r1: "server test_env 0 (request GET [''admin'', ''services''] None JNull) empty_db
     = (respond 401 (JObj [(''error'', JStr ''missing_token'')]), empty_db)" by blast
  from b 2 have r2: "server test_env 0 (request GET [''admin'', ''services''] (Some ''Bearer forged'') JNull) empty_db
     = (respond 401 (JObj [(''error'', JStr ''invalid_token'')]), empty_db)" by blast
  from c 3 have r3: "server test_env 0 (request GET [''admin'', ''services''] (Some ''Bearer guest-token'') JNull) empty_db
     = (respond 403 (JObj [(''error'', JStr ''forbidden'')]), empty_db)" by blast
  from r3 4 have "res_status (fst (server test_env 0
      (request GET [''admin'', ''services''] (Some ''Bearer guest-token'') JNull) empty_db)) = 403"
    by simp
  with c have r4: "\<exists>t payload. t \<noteq> []
         \<and> req_authorization (request GET [''admin'', ''services''] (Some ''Bearer guest-token'') JNull)
             = Some (''Bearer '' @ t)
         \<and> jwt_verify test_env t 0 = Some payload"
    by blast
  from r1 r2 r3 r4 show ?thesis by blast
qed

section \<open>Creating an appointment\<close>

lemma route_post_appointments:
  assumes "req_method req = POST" and "req_path req = [''appointments'']"
  shows "server env now req db = post_appointments env now (req\<lparr>req_params := []\<rparr>) db"
  using assms by (simp add: server_def app_def)

text \<open>
  Claim C2. When the body of \<open>POST /appointments\<close> passes the appointment schema, so that
  its name is a string of at least 2 characters, its phone a string of at least 6 and its
  e-mail a string in the e-mail format, the route appends exactly one row to the
  appointments table and leaves every other table as it was. The row's id is new to the
  table, its status is \<open>pending\<close>, its \<open>created_at\<close> is the server's clock reading, and it
  holds the name, phone and e-mail sent and, of service, date and notes, the string sent
  or NULL. The answer is 201 with that id and the status
  \<open>pending\<close>.
\<close>

theorem post_appointments_creates_pending:
  assumes "req_method req = POST" and "req_path req = [''appointments'']"
    and "safeParse env Schema_appointments (req_body req) = Inr data"
  shows "\<exists>name phone email i r.
            js_get (req_body req) ''name'' = Some (JStr name) \<and> 2 \<le> length name
          \<and> js_get (req_body req) ''phone'' = Some (JStr phone) \<and> 6 \<le> length phone
          \<and> js_get (req_body req) ''email'' = Some (JStr email) \<and> zod_email env email
          \<and> server env now req db =
               (respond 201 (JObj [(''id'', JNum (of_int i)), (''status'', JStr ''pending'')]),
                db\<lparr>appointments := (appointments db)\<lparr>rows := rows (appointments db) @ [r], sequence := i\<rparr>\<rparr>)
          \<and> rowid r = i \<and> i \<notin> rowid ` set (rows (appointments db))
          \<and> col r ''status'' = SText ''pending''
          \<and> col r ''created_at'' = SInt now
          \<and> col r ''name'' = SText name \<and> col r ''phone'' = SText phone \<and> col r ''email'' = SText email
          \<and> col r ''service'' = or_null (js_get (req_body req) ''service'')
          \<and> col r ''datetime'' = or_null (js_get (req_body req) ''datetime'')
          \<and> col r ''notes'' = or_null (js_get (req_body req) ''notes'')"
proof -
  note sp = assms(3)
  from parse_field_Mandatory_string [OF safeParse_field [OF sp, of "''name''" "(ZString [Zmin 2], Mandatory)"]]
  obtain name where n: "js_get (req_body req) ''name'' = Some (JStr name)" "2 \<le> length name"
    by (auto simp: Schema_appointments_def split: if_splits)
  from parse_field_Mandatory_string [OF safeParse_field [OF sp, of "''phone''" "(ZString [Zmin 6], Mandatory)"]]
  obtain phone where p: "js_get (req_body req) ''phone'' = Some (JStr phone)" "6 \<le> length phone"
    by (auto simp: Schema_appointments_def split: if_splits)
  from parse_field_Mandatory_string [OF safeParse_field [OF sp, of "''email''" "(ZString [Zemail], Mandatory)"]]
  obtain email where e: "js_get (req_body req) ''email'' = Some (JStr email)" "zod_email env email"
    by (auto simp: Schema_appointments_def split: if_splits)
  have d: "js_get data ''name'' = Some (JStr name)" "js_get data ''phone'' = Some (JStr phone)"
     "js_get data ''email'' = Some (JStr email)"
    using n p e by (simp_all add: safeParse_data [OF sp] Schema_appointments_def)
  define vs where "vs =
                 [(''name'', bind (js_get data ''name'')),
                  (''phone'', bind (js_get data ''phone'')),
                  (''email'', bind (js_get data ''email'')),
                  (''service'', or_null (js_get data ''service'')),
                  (''datetime'', or_null (js_get data ''datetime'')),
                  (''notes'', or_null (js_get data ''notes'')),
                  (''status'', SText ''pending''),
                  (''created_at'', SInt now)]"
  define i where "i = next_rowid (appointments db)"
  define r where "r = \<lparr>rowid = i, cols = vs\<rparr>"
  have s: "server env now req db =
               (respond 201 (JObj [(''id'', JNum (of_int i)), (''status'', JStr ''pending'')]),
                db\<lparr>appointments := (appointments db)\<lparr>rows := rows (appointments db) @ [r], sequence := i\<rparr>\<rparr>)"
    by (simp add: route_post_appointments [OF assms(1,2)] post_appointments_def sp sql_insert_def
        Let_def i_def r_def vs_def)
  have f: "i \<notin> rowid ` set (rows (appointments db))"
    by (auto simp: i_def dest!: next_rowid_fresh)
  have c: "col r ''status'' = SText ''pending''" "col r ''created_at'' = SInt now"
     "col r ''name'' = SText name" "col r ''phone'' = SText phone" "col r ''email'' = SText email"
    by (simp_all add: col_def r_def vs_def d)
  have o: "col r ''service'' = or_null (js_get (req_body req) ''service'')"
     "col r ''datetime'' = or_null (js_get (req_body req) ''datetime'')"
     "col r ''notes'' = or_null (js_get (req_body req) ''notes'')"
    by (simp_all add: col_def r_def vs_def safeParse_data [OF sp] Schema_appointments_def)
  have "rowid r = i" by (simp add: r_def)
  with n p e s f c o show ?thesis by blast
qed

theorem post_appointments_creates_pending_witness:
  "req_method ana = POST \<and> req_path ana = [''appointments'']
   \<and> safeParse test_env Schema_appointments (req_body ana) = Inr (req_body ana)
   \<and> (\<exists>i r. server test_env 1700 ana empty_db =
               (respond 201 (JObj [(''id'', JNum (of_int i)), (''status'', JStr ''pending'')]),
                empty_db\<lparr>appointments :=
                  (appointments empty_db)\<lparr>rows := rows (appointments empty_db) @ [r], sequence := i\<rparr>\<rparr>)
          \<and> rowid r = i \<and> col r ''status'' = SText ''pending'' \<and> col r ''created_at'' = SInt 1700)"
proof -
  have m: "req_method ana = POST" and p: "req_path ana = [''appointments'']"
    by (simp_all add: ana_def request_def)
  have a: "safeParse test_env Schema_appointments (req_body ana) = Inr (req_body ana)"
    by (simp add: ana_def request_def safeParse_def field_issues_def Schema_appointments_def
        test_env_def List.map_filter_def)
  from post_appointments_creates_pending [OF m p a, of 1700 empty_db] m p a
  show ?thesis by blast
qed

section \<open>Public lists\<close>

lemma keys_select: "keys (select cs r) = cs"
  by (simp add: select_def comp_def)

lemma lists_visible_select:
  assumes "set rs \<subseteq> set (filter (where_eq c (SInt 1)) (rows t))"
  shows "lists_visible (JArr (map (select cs) rs)) cs c t"
  using assms by (auto simp: lists_visible_def keys_select where_eq_def)

lemma set_order_by_id: "set (order_by_id rs) = set rs"
  by (simp add: order_by_id_def)

lemma set_order_by_id_desc: "set (order_by_id_desc rs) = set rs"
  by (simp add: order_by_id_desc_def)

lemma set_limit: "set (limit n rs) \<subseteq> set rs"
  by (simp add: limit_def set_take_subset)

lemma route_public_lists:
  assumes "req_method req = GET"
  shows "req_path req = [''services''] \<Longrightarrow> server env now req db = get_services (req\<lparr>req_params := []\<rparr>) db"
    and "req_path req = [''team''] \<Longrightarrow> server env now req db = get_team (req\<lparr>req_params := []\<rparr>) db"
    and "req_path req = [''testimonials''] \<Longrightarrow> server env now req db = get_testimonials (req\<lparr>req_params := []\<rparr>) db"
    and "req_path req = [''gallery''] \<Longrightarrow> server env now req db = get_gallery (req\<lparr>req_params := []\<rparr>) db"
    and "req_path req = [''posts''] \<Longrightarrow> server env now req db = get_posts (req\<lparr>req_params := []\<rparr>) db"
  using assms by (simp_all add: server_def app_def)

text \<open>
  Claim C3. For every store, the answer of each public list route is an array in which
  every element has exactly the columns the route selects and is the projection of a row
  of the route's own table whose \<open>active\<close> flag (for posts, \<open>published\<close> flag) is 1. None
  of the selected columns is \<open>password_hash\<close>, and the answer is the same whatever the
  users table holds.
\<close>

theorem public_lists_show_visible_rows_only:
  assumes "req_method req = GET"
  shows "(req_path req = [''services''] \<longrightarrow>
            lists_visible (res_json (fst (server env now req db)))
              [''id'', ''title'', ''description'', ''price_cents''] ''active'' (services db))
       \<and> (req_path req = [''team''] \<longrightarrow>
            lists_visible (res_json (fst (server env now req db)))
              [''id'', ''name'', ''role'', ''photo_url''] ''active'' (team db))
       \<and> (req_path req = [''testimonials''] \<longrightarrow>
            lists_visible (res_json (fst (server env now req db)))
              [''id'', ''author'', ''content'', ''rating''] ''active'' (testimonials db))
       \<and> (req_path req = [''gallery''] \<longrightarrow>
            lists_visible (res_json (fst (server env now req db)))
              [''id'', ''image_url'', ''caption''] ''active'' (gallery db))
       \<and> (req_path req = [''posts''] \<longrightarrow>
            lists_visible (res_json (fst (server env now req db)))
              [''id'', ''title'', ''excerpt'', ''cover_url'', ''created_at''] ''published'' (posts db))
       \<and> (req_path req \<in> {[''services''], [''team''], [''testimonials''], [''gallery''], [''posts'']} \<longrightarrow>
            fst (server env now req (db\<lparr>users := u\<rparr>)) = fst (server env now req db)
            \<and> (\<forall>j \<in> set (case res_json (fst (server env now req db)) of JArr js \<Rightarrow> js | _ \<Rightarrow> []).
                  ''password_hash'' \<notin> set (keys j)))"
proof (intro conjI impI)
  assume "req_path req = [''services'']"
  then show "lists_visible (res_json (fst (server env now req db)))
              [''id'', ''title'', ''description'', ''price_cents''] ''active'' (services db)"
    by (simp add: route_public_lists [OF assms] get_services_def respond_def
        lists_visible_select set_order_by_id)
next
  assume "req_path req = [''team'']"
  then show "lists_visible (res_json (fst (server env now req db)))
              [''id'', ''name'', ''role'', ''photo_url''] ''active'' (team db)"
    by (simp add: route_public_lists [OF assms] get_team_def respond_def
        lists_visible_select set_order_by_id)
next
  assume "req_path req = [''testimonials'']"
  then show "lists_visible (res_json (fst (server env now req db)))
              [''id'', ''author'', ''content'', ''rating''] ''active'' (testimonials db)"
    using set_limit [of 12 "order_by_id_desc (filter (where_eq ''active'' (SInt 1)) (rows (testimonials db)))"]
    by (simp add: route_public_lists [OF assms] get_testimonials_def respond_def
        lists_visible_select set_order_by_id_desc)
next
  assume "req_path req = [''gallery'']"
  then show "lists_visible (res_json (fst (server env now req db)))
              [''id'', ''image_url'', ''caption''] ''active'' (gallery db)"
    using set_limit [of 24 "order_by_id_desc (filter (where_eq ''active'' (SInt 1)) (rows (gallery db)))"]
    by (simp add: route_public_lists [OF assms] get_gallery_def respond_def
        lists_visible_select set_order_by_id_desc)
next
  assume "req_path req = [''posts'']"
  then show "lists_visible (res_json (fst (server env now req db)))
              [''id'', ''title'', ''excerpt'', ''cover_url'', ''created_at''] ''published'' (posts db)"
    using set_limit [of 20 "order_by_id_desc (filter (where_eq ''published'' (SInt 1)) (rows (posts db)))"]
    by (simp add: route_public_lists [OF assms] get_posts_def respond_def
        lists_visible_select set_order_by_id_desc)
next
  assume "req_path req \<in> {[''services''], [''team''], [''testimonials''], [''gallery''], [''posts'']}"
  then show "fst (server env now req (db\<lparr>users := u\<rparr>)) = fst (server env now req db)"
    by (auto simp: route_public_lists [OF assms] get_services_def get_team_def
        get_testimonials_def get_gallery_def get_posts_def)
next
  assume "req_path req \<in> {[''services''], [''team''], [''testimonials''], [''gallery''], [''posts'']}"
  then show "\<forall>j \<in> set (case res_json (fst (server env now req db)) of JArr js \<Rightarrow> js | _ \<Rightarrow> []).
                  ''password_hash'' \<notin> set (keys j)"
    by (auto simp: route_public_lists [OF assms] get_services_def get_team_def
        get_testimonials_def get_gallery_def get_posts_def respond_def keys_select)
qed

theorem public_lists_show_visible_rows_only_witness:
  "lists_visible (res_json (fst (server test_env 0 (request GET [''services''] None JNull) sample_db)))
      [''id'', ''title'', ''description'', ''price_cents''] ''active'' (services sample_db)
   \<and> lists_visible (res_json (fst (server test_env 0 (request GET [''team''] None JNull) sample_db)))
      [''id'', ''name'', ''role'', ''photo_url''] ''active'' (team sample_db)
   \<and> lists_visible (res_json (fst (server test_env 0 (request GET [''testimonials''] None JNull) sample_db)))
      [''id'', ''author'', ''content'', ''rating''] ''active'' (testimonials sample_db)
   \<and> lists_visible (res_json (fst (server test_env 0 (request GET [''gallery''] None JNull) sample_db)))
      [''id'', ''image_url'', ''caption''] ''active'' (gallery sample_db)
   \<and> lists_visible (res_json (fst (server test_env 0 (request GET [''posts''] None JNull) sample_db)))
      [''id'', ''title'', ''excerpt'', ''cover_url'', ''created_at''] ''published'' (posts sample_db)
   \<and> fst (server test_env 0 (request GET [''services''] None JNull) (sample_db\<lparr>users := empty_table\<rparr>))
       = fst (server test_env 0 (request GET [''services''] None JNull) sample_db)
   \<and> res_json (fst (server test_env 0 (request GET [''services''] None JNull) sample_db))
       = JArr [JObj [(''id'', JNum 1), (''title'', JStr ''Corte''), (''description'', JNull),
                     (''price_cents'', JNum 4000)]]"
proof -
  have m: "\<And>p. req_method (request GET p None JNull) = GET"
    and p: "\<And>p. req_path (request GET p None JNull) = p"
    by (simp_all add: request_def)
  note t = public_lists_show_visible_rows_only [OF m, of _ test_env 0 sample_db empty_table]
  have 1: "lists_visible (res_json (fst (server test_env 0 (request GET [''services''] None JNull) sample_db)))
      [''id'', ''title'', ''description'', ''price_cents''] ''active'' (services sample_db)"
    using t [of "[''services'']"] by (simp add: p)
  have 2: "lists_visible (res_json (fst (server test_env 0 (request GET [''team''] None JNull) sample_db)))
      [''id'', ''name'', ''role'', ''photo_url''] ''active'' (team sample_db)"
    using t [of "[''team'']"] by (simp add: p)
  have 3: "lists_visible (res_json (fst (server test_env 0 (request GET [''testimonials''] None JNull) sample_db)))
      [''id'', ''author'', ''content'', ''rating''] ''active'' (testimonials sample_db)"
    using t [of "[''testimonials'']"] by (simp add: p)
  have 4: "lists_visible (res_json (fst (server test_env 0 (request GET [''gallery''] None JNull) sample_db)))
      [''id'', ''image_url'', ''caption''] ''active'' (gallery sample_db)"
    using t [of "[''gallery'']"] by (simp add: p)
  have 5: "lists_visible (res_json (fst (server test_env 0 (request GET [''posts''] None JNull) sample_db)))
      [''id'', ''title'', ''excerpt'', ''cover_url'', ''created_at''] ''published'' (posts sample_db)"
    using t [of "[''posts'']"] by (simp add: p)
  have 6: "fst (server test_env 0 (request GET [''services''] None JNull) (sample_db\<lparr>users := empty_table\<rparr>))
       = fst (server test_env 0 (request GET [''services''] None JNull) sample_db)"
    using t [of "[''services'']"] by (simp add: p)
  have 7: "res_json (fst (server test_env 0 (request GET [''services''] None JNull) sample_db))
       = JArr [JObj [(''id'', JNum 1), (''title'', JStr ''Corte''), (''description'', JNull),
                     (''price_cents'', JNum 4000)]]"
    by (simp add: route_public_lists [OF m] p get_services_def respond_def sample_db_def
        order_by_id_def where_eq_def col_def select_def)
  from 1 2 3 4 5 6 7 show ?thesis by blast
qed

section \<open>Login\<close>

lemma route_post_auth_login:
  assumes "req_method req = POST" and "req_path req = [''auth'', ''login'']"
  shows "server env now req db = post_auth_login env now (req\<lparr>req_params := []\<rparr>) db"
  using assms by (simp add: server_def app_def)

lemma Schema_login_accepts:
  assumes "safeParse env Schema_login body = Inr data"
  shows "\<exists>e pw. js_get body ''email'' = Some (JStr e) \<and> js_get body ''password'' = Some (JStr pw)
           \<and> js_get data ''email'' = Some (JStr e) \<and> js_get data ''password'' = Some (JStr pw)"
proof -
  from parse_field_Mandatory_string
    [OF safeParse_field [OF assms, of "''email''" "(ZString [Zemail], Mandatory)"]]
  obtain e where e: "js_get body ''email'' = Some (JStr e)"
    by (auto simp: Schema_login_def)
  from parse_field_Mandatory_string
    [OF safeParse_field [OF assms, of "''password''" "(ZString [Zmin 3], Mandatory)"]]
  obtain pw where p: "js_get body ''password'' = Some (JStr pw)"
    by (auto simp: Schema_login_def)
  from e p show ?thesis
    by (simp add: safeParse_data [OF assms] Schema_login_def)
qed

lemma sql_get_None: "sql_get w t = None \<longleftrightarrow> (\<forall>r \<in> set (rows t). \<not> w r)"
proof (cases "filter w (rows t)")
  case Nil
  then show ?thesis by (simp add: sql_get_def filter_empty_conv)
next
  case (Cons r rs)
  then have "r \<in> set (filter w (rows t))" by simp
  then have "r \<in> set (rows t) \<and> w r" by simp
  with Cons show ?thesis by (auto simp: sql_get_def)
qed

lemma sql_get_Some: "sql_get w t = Some r \<Longrightarrow> r \<in> set (rows t) \<and> w r"
proof -
  assume "sql_get w t = Some r"
  then obtain rs where "filter w (rows t) = r # rs"
    by (auto simp: sql_get_def split: list.splits)
  then have "r \<in> set (filter w (rows t))" by simp
  then show ?thesis by simp
qed

lemma signToken_Some:
  assumes "JWT_SECRET env = Some secret" and "secret \<noteq> []"
  shows "signToken env now u
           = Some (jwt_sign env secret
               (JObj [(''sub'', json_of_sql (col u ''id'')),
                      (''role'', json_of_sql (col u ''role'')),
                      (''email'', json_of_sql (col u ''email''))])
               now)"
  using assms by (simp add: signToken_def)

lemma signToken_None:
  "signToken env now u = None \<longleftrightarrow> JWT_SECRET env = None \<or> JWT_SECRET env = Some []"
  by (auto simp: signToken_def split: option.splits)

text \<open>
  Claim C4, as the code has it. For a login body that passes its schema, with e-mail \<open>e\<close>
  and password \<open>pw\<close>: when no user row has the e-mail \<open>e\<close>, the answer is 401
  \<open>invalid_credentials\<close>; when the row the query returns has a hash that \<open>pw\<close> does not
  verify against, the answer is the same 401 with the same body; when \<open>pw\<close> verifies
  against it and \<open>JWT_SECRET\<close> is set and not empty, the answer is 200 with the token signed
  with that secret for the row's id, role and e-mail; when \<open>pw\<close> verifies and \<open>JWT_SECRET\<close>
  is not set or is empty, signing throws and the answer is 500 with no token. A token is
  returned only for a user row with the e-mail \<open>e\<close> whose hash \<open>pw\<close> verifies against, and
  only with a secret that has a value. The store is left as it was.
\<close>

theorem login_token_iff_credentials_and_secret:
  assumes "req_method req = POST" and "req_path req = [''auth'', ''login'']"
    and "safeParse env Schema_login (req_body req) = Inr data"
  shows "\<exists>e pw.
           js_get (req_body req) ''email'' = Some (JStr e)
         \<and> js_get (req_body req) ''password'' = Some (JStr pw)
         \<and> ((\<forall>u \<in> set (rows (users db)). col u ''email'' \<noteq> SText e) \<longrightarrow>
               server env now req db
                 = (respond 401 (JObj [(''error'', JStr ''invalid_credentials'')]), db))
         \<and> (\<forall>u h. sql_get (where_eq ''email'' (SText e)) (users db) = Some u
                 \<and> col u ''password_hash'' = SText h \<and> \<not> verifyPassword env h pw \<longrightarrow>
               server env now req db
                 = (respond 401 (JObj [(''error'', JStr ''invalid_credentials'')]), db))
         \<and> (\<forall>u h secret. sql_get (where_eq ''email'' (SText e)) (users db) = Some u
                 \<and> col u ''password_hash'' = SText h \<and> verifyPassword env h pw
                 \<and> JWT_SECRET env = Some secret \<and> secret \<noteq> [] \<longrightarrow>
               server env now req db
                 = (respond 200
                      (JObj [(''token'',
                         JStr (jwt_sign env secret
                           (JObj [(''sub'', json_of_sql (col u ''id'')),
                                  (''role'', json_of_sql (col u ''role'')),
                                  (''email'', json_of_sql (col u ''email''))])
                           now))]),
                    db))
         \<and> (\<forall>u h. sql_get (where_eq ''email'' (SText e)) (users db) = Some u
                 \<and> col u ''password_hash'' = SText h \<and> verifyPassword env h pw
                 \<and> (JWT_SECRET env = None \<or> JWT_SECRET env = Some []) \<longrightarrow>
               server env now req db = (respond 500 JNull, db))
         \<and> (res_status (fst (server env now req db)) = 200 \<longrightarrow>
               (\<exists>u \<in> set (rows (users db)). \<exists>h secret.
                  col u ''email'' = SText e \<and> col u ''password_hash'' = SText h
                  \<and> verifyPassword env h pw
                  \<and> JWT_SECRET env = Some secret \<and> secret \<noteq> []))
         \<and> snd (server env now req db) = db"
proof -
  note sp = assms(3)
  from Schema_login_accepts [OF sp] obtain e pw where
    b: "js_get (req_body req) ''email'' = Some (JStr e)"
       "js_get (req_body req) ''password'' = Some (JStr pw)"
    and d: "js_get data ''email'' = Some (JStr e)" "js_get data ''password'' = Some (JStr pw)"
    by blast
  have s: "server env now req db =
     (case sql_get (where_eq ''email'' (SText e)) (users db) of
        None \<Rightarrow> (respond 401 (JObj [(''error'', JStr ''invalid_credentials'')]), db)
      | Some user \<Rightarrow>
          (case col user ''password_hash'' of
             SText hash \<Rightarrow>
               if \<not> verifyPassword env hash pw
               then (respond 401 (JObj [(''error'', JStr ''invalid_credentials'')]), db)
               else (case signToken env now user of
                       None \<Rightarrow> (respond 500 JNull, db)
                     | Some token \<Rightarrow> (respond 200 (JObj [(''token'', JStr token)]), db))
           | _ \<Rightarrow> (respond 500 JNull, db)))"
    by (simp add: route_post_auth_login [OF assms(1,2)] post_auth_login_def sp d
        split: option.splits sqlval.splits)
  have 1: "(\<forall>u \<in> set (rows (users db)). col u ''email'' \<noteq> SText e) \<longrightarrow>
               server env now req db
                 = (respond 401 (JObj [(''error'', JStr ''invalid_credentials'')]), db)"
  proof
    assume "\<forall>u \<in> set (rows (users db)). col u ''email'' \<noteq> SText e"
    then have "sql_get (where_eq ''email'' (SText e)) (users db) = None"
      by (simp add: sql_get_None where_eq_def)
    then show "server env now req db
                 = (respond 401 (JObj [(''error'', JStr ''invalid_credentials'')]), db)"
      by (simp add: s)
  qed
  have 2: "\<forall>u h. sql_get (where_eq ''email'' (SText e)) (users db) = Some u
                 \<and> col u ''password_hash'' = SText h \<and> \<not> verifyPassword env h pw \<longrightarrow>
               server env now req db
                 = (respond 401 (JObj [(''error'', JStr ''invalid_credentials'')]), db)"
    by (simp add: s)
  have 3: "\<forall>u h secret. sql_get (where_eq ''email'' (SText e)) (users db) = Some u
                 \<and> col u ''password_hash'' = SText h \<and> verifyPassword env h pw
                 \<and> JWT_SECRET env = Some secret \<and> secret \<noteq> [] \<longrightarrow>
               server env now req db
                 = (respond 200
                      (JObj [(''token'',
                         JStr (jwt_sign env secret
                           (JObj [(''sub'', json_of_sql (col u ''id'')),
                                  (''role'', json_of_sql (col u ''role'')),
                                  (''email'', json_of_sql (col u ''email''))])
                           now))]),
                    db)"
    by (simp add: s signToken_Some)
  have 4: "\<forall>u h. sql_get (where_eq ''email'' (SText e)) (users db) = Some u
                 \<and> col u ''password_hash'' = SText h \<and> verifyPassword env h pw
                 \<and> (JWT_SECRET env = None \<or> JWT_SECRET env = Some []) \<longrightarrow>
               server env now req db = (respond 500 JNull, db)"
  proof (intro allI impI)
    fix u h
    assume a: "sql_get (where_eq ''email'' (SText e)) (users db) = Some u
                 \<and> col u ''password_hash'' = SText h \<and> verifyPassword env h pw
                 \<and> (JWT_SECRET env = None \<or> JWT_SECRET env = Some [])"
    then have "signToken env now u = None" by (simp add: signToken_None)
    with a show "server env now req db = (respond 500 JNull, db)" by (simp add: s)
  qed
  have 5: "res_status (fst (server env now req db)) = 200 \<longrightarrow>
               (\<exists>u \<in> set (rows (users db)). \<exists>h secret.
                  col u ''email'' = SText e \<and> col u ''password_hash'' = SText h
                  \<and> verifyPassword env h pw
                  \<and> JWT_SECRET env = Some secret \<and> secret \<noteq> [])"
  proof
    assume st: "res_status (fst (server env now req db)) = 200"
    then obtain u where u: "sql_get (where_eq ''email'' (SText e)) (users db) = Some u"
      by (cases "sql_get (where_eq ''email'' (SText e)) (users db)") (auto simp: s respond_def)
    from st u obtain h where h: "col u ''password_hash'' = SText h"
      by (cases "col u ''password_hash''") (auto simp: s respond_def)
    from st u h have v: "verifyPassword env h pw"
      by (auto simp: s respond_def split: if_splits)
    from st u h v have "signToken env now u \<noteq> None"
      by (auto simp: s respond_def split: option.splits)
    then obtain secret where k: "JWT_SECRET env = Some secret" "secret \<noteq> []"
      unfolding signToken_None by auto
    from sql_get_Some [OF u] have "u \<in> set (rows (users db))" "col u ''email'' = SText e"
      by (simp_all add: where_eq_def)
    with h v k show "\<exists>u \<in> set (rows (users db)). \<exists>h secret.
                  col u ''email'' = SText e \<and> col u ''password_hash'' = SText h
                  \<and> verifyPassword env h pw
                  \<and> JWT_SECRET env = Some secret \<and> secret \<noteq> []"
      by blast
  qed
  have 6: "snd (server env now req db) = db"
    by (simp add: s split: option.splits sqlval.splits)
  from b 1 2 3 4 5 6 show ?thesis by blast
qed

lemma login_accepted:
  assumes "CHR ''@'' \<in> set e" and "3 \<le> length pw"
    and "zod_email env' = zod_email test_env"
  shows "safeParse env' Schema_login (req_body (login e pw)) = Inr (req_body (login e pw))"
  using assms
  by (simp add: login_def request_def safeParse_def field_issues_def Schema_login_def
      test_env_def List.map_filter_def)

theorem login_token_iff_credentials_and_secret_witness:
  "server test_env 0 (login ''admin@x.com'' ''secret'') sample_db
     = (respond 200 (JObj [(''token'', JStr ''signed'')]), sample_db)
   \<and> server test_env 0 (login ''admin@x.com'' ''wrong'') sample_db
     = (respond 401 (JObj [(''error'', JStr ''invalid_credentials'')]), sample_db)
   \<and> server test_env 0 (login ''nobody@x.com'' ''secret'') sample_db
     = (respond 401 (JObj [(''error'', JStr ''invalid_credentials'')]), sample_db)
   \<and> server empty_secret_env 0 (login ''admin@x.com'' ''secret'') sample_db
     = (respond 500 JNull, sample_db)
   \<and> (\<exists>u \<in> set (rows (users sample_db)). \<exists>h secret.
         col u ''email'' = SText ''admin@x.com'' \<and> col u ''password_hash'' = SText h
         \<and> verifyPassword test_env h ''secret''
         \<and> JWT_SECRET test_env = Some secret \<and> secret \<noteq> [])"
proof -
  have m: "\<And>e pw. req_method (login e pw) = POST"
    and p: "\<And>e pw. req_path (login e pw) = [''auth'', ''login'']"
    by (simp_all add: login_def request_def)
  have a: "safeParse test_env Schema_login (req_body (login ''admin@x.com'' ''secret''))
              = Inr (req_body (login ''admin@x.com'' ''secret''))"
    and b: "safeParse test_env Schema_login (req_body (login ''admin@x.com'' ''wrong''))
              = Inr (req_body (login ''admin@x.com'' ''wrong''))"
    and c: "safeParse test_env Schema_login (req_body (login ''nobody@x.com'' ''secret''))
              = Inr (req_body (login ''nobody@x.com'' ''secret''))"
    and a0: "safeParse empty_secret_env Schema_login (req_body (login ''admin@x.com'' ''secret''))
              = Inr (req_body (login ''admin@x.com'' ''secret''))"
    by (simp_all add: login_accepted empty_secret_env_def)
  have g: "sql_get (where_eq ''email'' (SText ''admin@x.com'')) (users sample_db) = Some admin_row"
    by (simp add: sql_get_def where_eq_def col_def sample_db_def admin_row_def)
  have h: "col admin_row ''password_hash'' = SText ''#secret''"
    by (simp add: col_def admin_row_def)
  have n: "\<forall>v \<in> set (rows (users sample_db)). col v ''email'' \<noteq> SText ''nobody@x.com''"
    by (simp add: col_def sample_db_def)
  have k: "JWT_SECRET test_env = Some ''key''" "''key'' \<noteq> []"
    and k0: "JWT_SECRET empty_secret_env = None \<or> JWT_SECRET empty_secret_env = Some []"
    by (simp_all add: test_env_def empty_secret_env_def)
  have v: "verifyPassword test_env ''#secret'' ''secret''"
    and v0: "verifyPassword empty_secret_env ''#secret'' ''secret''"
    and w: "\<not> verifyPassword test_env ''#secret'' ''wrong''"
    by (simp_all add: verifyPassword_def test_env_def empty_secret_env_def)
  have 1: "server test_env 0 (login ''admin@x.com'' ''secret'') sample_db
     = (respond 200 (JObj [(''token'', JStr ''signed'')]), sample_db)"
  proof -
    from login_token_iff_credentials_and_secret [OF m p a, where db = sample_db and now = 0]
    obtain e pw where "js_get (req_body (login ''admin@x.com'' ''secret'')) ''email'' = Some (JStr e)"
      and "js_get (req_body (login ''admin@x.com'' ''secret'')) ''password'' = Some (JStr pw)"
      and i: "\<forall>u h secret. sql_get (where_eq ''email'' (SText e)) (users sample_db) = Some u
                 \<and> col u ''password_hash'' = SText h \<and> verifyPassword test_env h pw
                 \<and> JWT_SECRET test_env = Some secret \<and> secret \<noteq> [] \<longrightarrow>
               server test_env 0 (login ''admin@x.com'' ''secret'') sample_db
                 = (respond 200
                      (JObj [(''token'',
                         JStr (jwt_sign test_env secret
                           (JObj [(''sub'', json_of_sql (col u ''id'')),
                                  (''role'', json_of_sql (col u ''role'')),
                                  (''email'', json_of_sql (col u ''email''))])
                           0))]),
                    sample_db)"
      by blast
    then have "e = ''admin@x.com''" "pw = ''secret''"
      by (simp_all add: login_def request_def)
    moreover have "\<And>secret payload. jwt_sign test_env secret payload 0 = ''signed''"
      by (simp add: test_env_def)
    ultimately show ?thesis using i g h v k by auto
  qed
  have 2: "server test_env 0 (login ''admin@x.com'' ''wrong'') sample_db
     = (respond 401 (JObj [(''error'', JStr ''invalid_credentials'')]), sample_db)"
  proof -
    from login_token_iff_credentials_and_secret [OF m p b, where db = sample_db and now = 0]
    obtain e pw where "js_get (req_body (login ''admin@x.com'' ''wrong'')) ''email'' = Some (JStr e)"
      and "js_get (req_body (login ''admin@x.com'' ''wrong'')) ''password'' = Some (JStr pw)"
      and i: "\<forall>u h. sql_get (where_eq ''email'' (SText e)) (users sample_db) = Some u
                 \<and> col u ''password_hash'' = SText h \<and> \<not> verifyPassword test_env h pw \<longrightarrow>
               server test_env 0 (login ''admin@x.com'' ''wrong'') sample_db
                 = (respond 401 (JObj [(''error'', JStr ''invalid_credentials'')]), sample_db)"
      by blast
    then have "e = ''admin@x.com''" "pw = ''wrong''"
      by (simp_all add: login_def request_def)
    then show ?thesis using i g h w by auto
  qed
  have 3: "server test_env 0 (login ''nobody@x.com'' ''secret'') sample_db
     = (respond 401 (JObj [(''error'', JStr ''invalid_credentials'')]), sample_db)"
  proof -
    from login_token_iff_credentials_and_secret [OF m p c, where db = sample_db and now = 0]
    obtain e pw where "js_get (req_body (login ''nobody@x.com'' ''secret'')) ''email'' = Some (JStr e)"
      and i: "(\<forall>u \<in> set (rows (users sample_db)). col u ''email'' \<noteq> SText e) \<longrightarrow>
               server test_env 0 (login ''nobody@x.com'' ''secret'') sample_db
                 = (respond 401 (JObj [(''error'', JStr ''invalid_credentials'')]), sample_db)"
      by blast
    then have "e = ''nobody@x.com''"
      by (simp add: login_def request_def)
    with i n show ?thesis by blast
  qed
  have 4: "server empty_secret_env 0 (login ''admin@x.com'' ''secret'') sample_db = (respond 500 JNull, sample_db)"
  proof -
    from login_token_iff_credentials_and_secret [OF m p a0, where db = sample_db and now = 0]
    obtain e pw where "js_get (req_body (login ''admin@x.com'' ''secret'')) ''email'' = Some (JStr e)"
      and "js_get (req_body (login ''admin@x.com'' ''secret'')) ''password'' = Some (JStr pw)"
      and i: "\<forall>u h. sql_get (where_eq ''email'' (SText e)) (users sample_db) = Some u
                 \<and> col u ''password_hash'' = SText h \<and> verifyPassword empty_secret_env h pw
                 \<and> (JWT_SECRET empty_secret_env = None \<or> JWT_SECRET empty_secret_env = Some []) \<longrightarrow>
               server empty_secret_env 0 (login ''admin@x.com'' ''secret'') sample_db = (respond 500 JNull, sample_db)"
      by blast
    then have "e = ''admin@x.com''" "pw = ''secret''"
      by (simp_all add: login_def request_def)
    then show ?thesis using i g h v0 k0 by blast
  qed
  have 5: "\<exists>u \<in> set (rows (users sample_db)). \<exists>h secret.
         col u ''email'' = SText ''admin@x.com'' \<and> col u ''password_hash'' = SText h
         \<and> verifyPassword test_env h ''secret''
         \<and> JWT_SECRET test_env = Some secret \<and> secret \<noteq> []"
  proof -
    from login_token_iff_credentials_and_secret [OF m p a, where db = sample_db and now = 0]
    obtain e pw where "js_get (req_body (login ''admin@x.com'' ''secret'')) ''email'' = Some (JStr e)"
      and "js_get (req_body (login ''admin@x.com'' ''secret'')) ''password'' = Some (JStr pw)"
      and i: "res_status (fst (server test_env 0 (login ''admin@x.com'' ''secret'') sample_db)) = 200 \<longrightarrow>
               (\<exists>u \<in> set (rows (users sample_db)). \<exists>h secret.
                  col u ''email'' = SText e \<and> col u ''password_hash'' = SText h
                  \<and> verifyPassword test_env h pw
                  \<and> JWT_SECRET test_env = Some secret \<and> secret \<noteq> [])"
      by blast
    then have "e = ''admin@x.com''" "pw = ''secret''"
      by (simp_all add: login_def request_def)
    moreover from 1 have "res_status (fst (server test_env 0 (login ''admin@x.com'' ''secret'') sample_db)) = 200"
      by (simp add: respond_def)
    ultimately show ?thesis using i by blast
  qed
  from 1 2 3 4 5 show ?thesis by blast
qed

text \<open>
  With \<open>JWT_SECRET\<close> not set, the right password for an existing user is answered with 500
  and no token.
\<close>

theorem login_without_secret_counterexample:
  "sql_get (where_eq ''email'' (SText ''admin@x.com'')) (users sample_db) = Some admin_row
   \<and> col admin_row ''password_hash'' = SText ''#secret''
   \<and> verifyPassword no_secret_env ''#secret'' ''secret''
   \<and> server no_secret_env 0 (login ''admin@x.com'' ''secret'') sample_db
       = (respond 500 JNull, sample_db)"
  by (simp add: sql_get_def where_eq_def col_def sample_db_def admin_row_def verifyPassword_def
      no_secret_env_def test_env_def server_def app_def login_def request_def
      post_auth_login_def safeParse_def field_issues_def Schema_login_def List.map_filter_def
      signToken_def)

section \<open>Replacing and deleting by id\<close>

lemma sql_update_no_row:
  assumes "\<forall>r \<in> set (rows t). \<not> w r"
  shows "sql_update vs w t = (0, t)"
proof -
  from assms have "filter w (rows t) = []" by (simp add: filter_empty_conv)
  moreover from assms have "map (\<lambda>r. if w r then set_cols vs r else r) (rows t) = rows t"
    by (simp add: map_idI)
  ultimately show ?thesis by (simp add: sql_update_def)
qed

lemma sql_delete_no_row:
  assumes "\<forall>r \<in> set (rows t). \<not> w r"
  shows "sql_delete w t = (0, t)"
proof -
  from assms have "filter w (rows t) = []" by (simp add: filter_empty_conv)
  moreover from assms have "filter (\<lambda>r. \<not> w r) (rows t) = rows t" by simp
  ultimately show ?thesis by (simp add: sql_delete_def)
qed

lemma passes_guard_server:
  assumes "passes_guard env now req" and "req_path req = ''admin'' # rest"
  shows "\<exists>payload. server env now req db
           = dispatch (drop 10 (app env now)) (req\<lparr>req_user := Some payload\<rparr>) db"
proof -
  from assms(1) obtain req' where
    r: "run_middleware [authMiddleware env now, ensureAdmin] req = Inr req'"
    by (auto simp: passes_guard_def split: sum.splits)
  then obtain req1 where a: "authMiddleware env now req = Inr req1" and e: "ensureAdmin req1 = Inr req'"
    by (auto split: sum.splits)
  from e have "req' = req1" by (auto simp: ensureAdmin_def split: if_splits)
  moreover from a obtain payload where "req1 = req\<lparr>req_user := Some payload\<rparr>"
    by (auto simp: authMiddleware_def Let_def split: option.splits if_splits)
  ultimately show ?thesis
    using r by (auto simp: server_admin_prefix [OF assms(2)])
qed

lemma admin_table_cases:
  assumes "admin_table name db = Some t"
  obtains "name = ''services''" "t = services db"
  | "name = ''team''" "t = team db"
  | "name = ''testimonials''" "t = testimonials db"
  | "name = ''gallery''" "t = gallery db"
  | "name = ''posts''" "t = posts db"
  | "name = ''appointments''" "t = appointments db"
  | "name = ''contacts''" "t = contacts db"
  using assms by (auto simp: admin_table_def split: if_splits)

lemma delete_missing_id:
  assumes "admin_table name db = Some t"
    and "\<forall>r \<in> set (rows t). \<not> where_id env i r"
    and "req_method req = DELETE" and "req_path req = [''admin'', name, i]"
  shows "dispatch (drop 10 (app env now)) req db
           = (respond 200 (JObj [(''deleted'', JNum 0)]), db)"
  using assms(1)
proof (cases rule: admin_table_cases)
  case 1
  with assms(2-4) show ?thesis
    by (simp add: app_def delete_admin_services_id_def param_def sql_delete_no_row)
next
  case 2
  with assms(2-4) show ?thesis
    by (simp add: app_def delete_admin_team_id_def param_def sql_delete_no_row)
next
  case 3
  with assms(2-4) show ?thesis
    by (simp add: app_def delete_admin_testimonials_id_def param_def sql_delete_no_row)
next
  case 4
  with assms(2-4) show ?thesis
    by (simp add: app_def delete_admin_gallery_id_def param_def sql_delete_no_row)
next
  case 5
  with assms(2-4) show ?thesis
    by (simp add: app_def delete_admin_posts_id_def param_def sql_delete_no_row)
next
  case 6
  with assms(2-4) show ?thesis
    by (simp add: app_def delete_admin_appointments_id_def param_def sql_delete_no_row)
next
  case 7
  with assms(2-4) show ?thesis
    by (simp add: app_def delete_admin_contacts_id_def param_def sql_delete_no_row)
qed

lemma admin_schema_cases:
  assumes "admin_schema name = Some sch"
  obtains "name = ''services''" "sch = Schema_services"
  | "name = ''team''" "sch = Schema_team"
  | "name = ''testimonials''" "sch = Schema_testimonials"
  | "name = ''gallery''" "sch = Schema_gallery"
  | "name = ''posts''" "sch = Schema_posts"
  using assms by (auto simp: admin_schema_def split: if_splits)

lemma put_missing_id:
  assumes "admin_table name db = Some t" and "admin_schema name = Some sch"
    and "\<forall>r \<in> set (rows t). \<not> where_id env i r"
    and "req_method req = PUT" and "req_path req = [''admin'', name, i]"
  shows "dispatch (drop 10 (app env now)) req db
           = (case safeParse env sch (req_body req) of
                Inl e \<Rightarrow> (validation_error env e, db)
              | Inr data \<Rightarrow> (respond 200 (JObj [(''updated'', JNum 0)]), db))"
  using assms(2)
proof (cases rule: admin_schema_cases)
  case 1
  with assms(1,3-5) show ?thesis
    by (simp add: app_def put_admin_services_id_def param_def sql_update_no_row admin_table_def
        split: sum.splits)
next
  case 2
  with assms(1,3-5) show ?thesis
    by (simp add: app_def put_admin_team_id_def param_def sql_update_no_row admin_table_def
        split: sum.splits)
next
  case 3
  with assms(1,3-5) show ?thesis
    by (simp add: app_def put_admin_testimonials_id_def param_def sql_update_no_row admin_table_def
        split: sum.splits)
next
  case 4
  with assms(1,3-5) show ?thesis
    by (simp add: app_def put_admin_gallery_id_def param_def sql_update_no_row admin_table_def
        split: sum.splits)
next
  case 5
  with assms(1,3-5) show ?thesis
    by (simp add: app_def put_admin_posts_id_def param_def sql_update_no_row admin_table_def
        split: sum.splits)
qed

lemma put_status_missing_id:
  assumes "\<forall>r \<in> set (rows (appointments db)). \<not> where_id env i r"
    and "req_method req = PUT" and "req_path req = [''admin'', ''appointments'', i, ''status'']"
  shows "dispatch (drop 10 (app env now)) req db
           = (case safeParse env Schema_status (req_body req) of
                Inl e \<Rightarrow> (validation_error env e, db)
              | Inr data \<Rightarrow> (respond 200 (JObj [(''updated'', JNum 0)]), db))"
  using assms
  by (simp add: app_def put_admin_appointments_id_status_def param_def sql_update_no_row
      split: sum.splits)

text \<open>
  Claim C5. A request that has passed the guard of the \<open>/admin\<close> prefix, a table behind
  \<open>/admin/<name>\<close> and an id that selects no row of it. \<open>DELETE /admin/<name>/:id\<close>
  answers 200 with \<open>{deleted: 0}\<close>. \<open>PUT /admin/<name>/:id\<close> and
  \<open>PUT /admin/appointments/:id/status\<close> answer 200 with \<open>{updated: 0}\<close> when the body passes
  the route's schema and 400 when it does not. None of these answers is 404, and the
  store is left as it was in every case.
\<close>

theorem missing_id_is_zero_changes:
  assumes "passes_guard env now req"
    and "admin_table name db = Some t"
    and "\<forall>r \<in> set (rows t). \<not> where_id env i r"
  shows "(req_method req = DELETE \<and> req_path req = [''admin'', name, i] \<longrightarrow>
            server env now req db = (respond 200 (JObj [(''deleted'', JNum 0)]), db))
       \<and> (\<forall>sch. req_method req = PUT \<and> req_path req = [''admin'', name, i]
              \<and> admin_schema name = Some sch \<longrightarrow>
            snd (server env now req db) = db
            \<and> res_status (fst (server env now req db)) \<noteq> 404
            \<and> (\<forall>data. safeParse env sch (req_body req) = Inr data \<longrightarrow>
                 fst (server env now req db) = respond 200 (JObj [(''updated'', JNum 0)])))
       \<and> (req_method req = PUT \<and> name = ''appointments''
              \<and> req_path req = [''admin'', name, i, ''status''] \<longrightarrow>
            snd (server env now req db) = db
            \<and> res_status (fst (server env now req db)) \<noteq> 404
            \<and> (\<forall>data. safeParse env Schema_status (req_body req) = Inr data \<longrightarrow>
                 fst (server env now req db) = respond 200 (JObj [(''updated'', JNum 0)])))"
proof (intro conjI impI allI)
  assume a: "req_method req = DELETE \<and> req_path req = [''admin'', name, i]"
  then obtain payload where "server env now req db
       = dispatch (drop 10 (app env now)) (req\<lparr>req_user := Some payload\<rparr>) db"
    using passes_guard_server [OF assms(1)] by blast
  with a show "server env now req db = (respond 200 (JObj [(''deleted'', JNum 0)]), db)"
    by (simp add: delete_missing_id [OF assms(2,3)])
next
  fix sch
  assume a: "req_method req = PUT \<and> req_path req = [''admin'', name, i]
              \<and> admin_schema name = Some sch"
  then obtain payload where "server env now req db
       = dispatch (drop 10 (app env now)) (req\<lparr>req_user := Some payload\<rparr>) db"
    using passes_guard_server [OF assms(1)] by blast
  with a have s: "server env now req db
       = (case safeParse env sch (req_body req) of
                Inl e \<Rightarrow> (validation_error env e, db)
              | Inr data \<Rightarrow> (respond 200 (JObj [(''updated'', JNum 0)]), db))"
    by (simp add: put_missing_id [OF assms(2) _ assms(3)])
  show "snd (server env now req db) = db"
    by (simp add: s split: sum.splits)
  show "res_status (fst (server env now req db)) \<noteq> 404"
    by (simp add: s validation_error_def respond_def split: sum.splits)
  show "\<And>data. safeParse env sch (req_body req) = Inr data \<Longrightarrow>
           fst (server env now req db) = respond 200 (JObj [(''updated'', JNum 0)])"
    by (simp add: s)
next
  assume a: "req_method req = PUT \<and> name = ''appointments''
              \<and> req_path req = [''admin'', name, i, ''status'']"
  then obtain payload where "server env now req db
       = dispatch (drop 10 (app env now)) (req\<lparr>req_user := Some payload\<rparr>) db"
    using passes_guard_server [OF assms(1)] by blast
  moreover from a assms(2) have "t = appointments db"
    by (simp add: admin_table_def)
  ultimately have s: "server env now req db
       = (case safeParse env Schema_status (req_body req) of
                Inl e \<Rightarrow> (validation_error env e, db)
              | Inr data \<Rightarrow> (respond 200 (JObj [(''updated'', JNum 0)]), db))"
    using a assms(3) by (simp add: put_status_missing_id)
  show "snd (server env now req db) = db"
    by (simp add: s split: sum.splits)
  show "res_status (fst (server env now req db)) \<noteq> 404"
    by (simp add: s validation_error_def respond_def split: sum.splits)
  show "\<And>data. safeParse env Schema_status (req_body req) = Inr data \<Longrightarrow>
           fst (server env now req db) = respond 200 (JObj [(''updated'', JNum 0)])"
    by (simp add: s)
qed

theorem missing_id_is_zero_changes_witness:
  "passes_guard test_env 0 (as_admin DELETE [''admin'', ''services'', ''999''] JNull)
   \<and> admin_table ''services'' sample_db = Some (services sample_db)
   \<and> filter (where_id test_env ''999'') (rows (services sample_db)) = []
   \<and> server test_env 0 (as_admin DELETE [''admin'', ''services'', ''999''] JNull) sample_db
       = (respond 200 (JObj [(''deleted'', JNum 0)]), sample_db)
   \<and> server test_env 0 (as_admin PUT [''admin'', ''services'', ''999''] service_body) sample_db
       = (respond 200 (JObj [(''updated'', JNum 0)]), sample_db)
   \<and> server test_env 0
        (as_admin PUT [''admin'', ''appointments'', ''999'', ''status''] (JObj [(''status'', JStr ''canceled'')]))
        sample_db
       = (respond 200 (JObj [(''updated'', JNum 0)]), sample_db)"
proof -
  have t: "admin_table ''services'' sample_db = Some (services sample_db)"
    and ta: "admin_table ''appointments'' sample_db = Some (appointments sample_db)"
    and sc: "admin_schema ''services'' = Some Schema_services"
    by (simp_all add: admin_table_def admin_schema_def)
  have n: "\<forall>r \<in> set (rows (services sample_db)). \<not> where_id test_env ''999'' r"
    and na: "\<forall>r \<in> set (rows (appointments sample_db)). \<not> where_id test_env ''999'' r"
    by (simp_all add: sample_db_def where_id_def test_env_def)
  have mp: "\<And>m p b. req_method (as_admin m p b) = m" "\<And>m p b. req_path (as_admin m p b) = p"
    "\<And>m p b. req_body (as_admin m p b) = b"
    by (simp_all add: as_admin_def request_def)
  have v: "safeParse test_env Schema_services service_body = Inr service_body"
    and vs: "safeParse test_env Schema_status (JObj [(''status'', JStr ''canceled'')])
               = Inr (JObj [(''status'', JStr ''canceled'')])"
    by (simp_all add: service_body_def safeParse_def field_issues_def Schema_services_def
        Schema_status_def List.map_filter_def)
  have 1: "server test_env 0 (as_admin DELETE [''admin'', ''services'', ''999''] JNull) sample_db
       = (respond 200 (JObj [(''deleted'', JNum 0)]), sample_db)"
    using missing_id_is_zero_changes [where env = test_env and now = 0 and db = sample_db
        and req = "as_admin DELETE [''admin'', ''services'', ''999''] JNull",
        OF passes_guard_as_admin t n]
    by (simp add: mp)
  have 2: "server test_env 0 (as_admin PUT [''admin'', ''services'', ''999''] service_body) sample_db
       = (respond 200 (JObj [(''updated'', JNum 0)]), sample_db)"
    using missing_id_is_zero_changes [where env = test_env and now = 0 and db = sample_db
        and req = "as_admin PUT [''admin'', ''services'', ''999''] service_body",
        OF passes_guard_as_admin t n] sc v
    by (simp add: mp prod_eq_iff)
  have 3: "server test_env 0
        (as_admin PUT [''admin'', ''appointments'', ''999'', ''status''] (JObj [(''status'', JStr ''canceled'')]))
        sample_db
       = (respond 200 (JObj [(''updated'', JNum 0)]), sample_db)"
    using missing_id_is_zero_changes [where env = test_env and now = 0 and db = sample_db
        and req = "as_admin PUT [''admin'', ''appointments'', ''999'', ''status'']
                     (JObj [(''status'', JStr ''canceled'')])",
        OF passes_guard_as_admin ta na] vs
    by (simp add: mp prod_eq_iff)
  have e: "filter (where_id test_env ''999'') (rows (services sample_db)) = []"
    using n by (simp add: filter_empty_conv)
  from passes_guard_as_admin t e 1 2 3 show ?thesis by blast
qed

section \<open>Starting the process twice\<close>

lemma services_ensureAdminUser: "services (ensureAdminUser env now db) = services db"
  by (simp add: ensureAdminUser_def split: option.splits)

lemma users_seedIfEmpty: "users (seedIfEmpty now db) = users db"
  by (simp add: seedIfEmpty_def Let_def)

lemma rows_sql_insert: "rows (snd (sql_insert vs t)) = rows t @ [\<lparr>rowid = next_rowid t, cols = vs\<rparr>]"
  by (simp add: sql_insert_def Let_def)

lemma seedIfEmpty_rows:
  "rows (services db) = [] \<Longrightarrow> length (rows (services (seedIfEmpty now db))) = 3"
  by (simp add: seedIfEmpty_def Let_def rows_sql_insert)

lemma seedIfEmpty_seeded: "rows (services (seedIfEmpty now db)) \<noteq> []"
proof (cases "rows (services db) = []")
  case True
  from seedIfEmpty_rows [OF this, of now] show ?thesis by auto
next
  case False
  then show ?thesis by (simp add: seedIfEmpty_def)
qed

lemma seedIfEmpty_again: "rows (services db) \<noteq> [] \<Longrightarrow> seedIfEmpty now db = db"
  by (simp add: seedIfEmpty_def)

lemma ensureAdminUser_again:
  assumes "ADMIN_EMAIL env = Some e"
    and "sql_get (where_eq ''email'' (SText e)) (users db) \<noteq> None"
  shows "ensureAdminUser env now db = db"
  using assms by (auto simp: ensureAdminUser_def split: option.splits)

lemma sql_get_appended:
  assumes "w r"
  shows "sql_get w (t\<lparr>rows := rows t @ [r], sequence := i\<rparr>) \<noteq> None"
  using assms by (simp add: sql_get_None)

lemma ensureAdminUser_user:
  assumes "ADMIN_EMAIL env = Some e" and "e \<noteq> []"
    and "ADMIN_PASSWORD env = Some pw" and "pw \<noteq> []"
  shows "sql_get (where_eq ''email'' (SText e)) (users (ensureAdminUser env now db)) \<noteq> None"
proof (cases "sql_get (where_eq ''email'' (SText e)) (users db)")
  case None
  define r where "r = \<lparr>rowid = next_rowid (users db),
           cols = [(''email'', SText e), (''password_hash'', SText (hashSync env pw)),
                   (''role'', SText ''admin''), (''created_at'', SInt now)]\<rparr>"
  have "where_eq ''email'' (SText e) r"
    by (simp add: where_eq_def col_def r_def)
  then have "sql_get (where_eq ''email'' (SText e))
       ((users db)\<lparr>rows := rows (users db) @ [r], sequence := next_rowid (users db)\<rparr>) \<noteq> None"
    by (rule sql_get_appended)
  with None assms show ?thesis
    by (simp add: ensureAdminUser_def sql_insert_def Let_def r_def)
next
  case (Some u)
  with assms show ?thesis by (simp add: ensureAdminUser_def)
qed

lemma ensureAdminUser_one:
  assumes "ADMIN_EMAIL env = Some e" and "e \<noteq> []"
    and "ADMIN_PASSWORD env = Some pw" and "pw \<noteq> []"
    and "length (filter (where_eq ''email'' (SText e)) (rows (users db))) \<le> 1"
  shows "length (filter (where_eq ''email'' (SText e)) (rows (users (ensureAdminUser env now db)))) = 1"
proof (cases "filter (where_eq ''email'' (SText e)) (rows (users db))")
  case Nil
  then have "sql_get (where_eq ''email'' (SText e)) (users db) = None"
    by (simp add: sql_get_def)
  with assms Nil show ?thesis
    by (simp add: ensureAdminUser_def sql_insert_def Let_def where_eq_def col_def)
next
  case (Cons u us)
  then have "sql_get (where_eq ''email'' (SText e)) (users db) = Some u"
    by (simp add: sql_get_def)
  with assms Cons show ?thesis
    by (simp add: ensureAdminUser_def)
qed

lemma ensureAdminUser_unconfigured:
  assumes "\<not> configured env"
  shows "ensureAdminUser env now db = db"
  using assms by (auto simp: ensureAdminUser_def configured_def split: option.splits)

lemma configuredE:
  assumes "configured env"
  obtains e pw where "ADMIN_EMAIL env = Some e" "e \<noteq> []" "ADMIN_PASSWORD env = Some pw" "pw \<noteq> []"
  using assms by (auto simp: configured_def split: option.splits)

lemma second_seed:
  "seedIfEmpty s2 (migrate (startup env s1 a1 db)) = startup env s1 a1 db"
proof -
  have "rows (services (startup env s1 a1 db)) \<noteq> []"
    by (simp add: startup_def services_ensureAdminUser seedIfEmpty_seeded)
  then show ?thesis by (simp add: migrate_def seedIfEmpty_again)
qed

text \<open>
  Claim C6. Start the process on any store, then start it again at other clock readings
  with the same administrator e-mail; the password of the second start may be the same,
  another one or not set. When the first start had both variables set, or the second has
  the password of the first, the second start leaves the store exactly as the first left
  it. The services table is as the first start left it whatever the second start is
  given. When the first start had both variables set and the store held at most one user
  with that e-mail before (the column is UNIQUE), it holds exactly one afterwards. When
  the services table was empty and fresh before, it holds the three seeded rows with ids
  1 to 3, stamped with the first start's clock reading.
\<close>

theorem startup_twice_is_startup_once:
  "(ADMIN_EMAIL env' = ADMIN_EMAIL env
      \<and> (configured env \<or> ADMIN_PASSWORD env' = ADMIN_PASSWORD env) \<longrightarrow>
      startup env' s2 a2 (startup env s1 a1 db) = startup env s1 a1 db)
   \<and> services (startup env' s2 a2 (startup env s1 a1 db)) = services (startup env s1 a1 db)
   \<and> (\<forall>e. configured env \<and> ADMIN_EMAIL env = Some e \<and> ADMIN_EMAIL env' = Some e
         \<and> length (filter (where_eq ''email'' (SText e)) (rows (users db))) \<le> 1 \<longrightarrow>
       length (filter (where_eq ''email'' (SText e))
         (rows (users (startup env' s2 a2 (startup env s1 a1 db))))) = 1)
   \<and> (rows (services db) = [] \<and> sequence (services db) = 0 \<longrightarrow>
       map (\<lambda>r. (rowid r, col r ''title'', col r ''price_cents'', col r ''active'', col r ''created_at''))
         (rows (services (startup env' s2 a2 (startup env s1 a1 db))))
       = [(1, SText (''Corte Cl'' @ [CHR 0xE1] @ ''ssico''), SInt 4000, SInt 1, SInt s1),
          (2, SText ''Barba Modelada'', SInt 3000, SInt 1, SInt s1),
          (3, SText ''Corte + Barba'', SInt 7000, SInt 1, SInt s1)])"
proof -
  define x where "x = startup env s1 a1 db"
  have seed: "seedIfEmpty s2 (migrate x) = x"
    unfolding x_def by (rule second_seed)
  have again: "ensureAdminUser env' a2 x = x"
    if c: "configured env" and same: "ADMIN_EMAIL env' = ADMIN_EMAIL env"
  proof -
    from c obtain e pw where k: "ADMIN_EMAIL env = Some e" "e \<noteq> []"
      "ADMIN_PASSWORD env = Some pw" "pw \<noteq> []"
      by (rule configuredE)
    from ensureAdminUser_user [OF k]
    have "sql_get (where_eq ''email'' (SText e)) (users x) \<noteq> None"
      by (simp add: x_def startup_def)
    moreover from k same have "ADMIN_EMAIL env' = Some e" by simp
    ultimately show ?thesis by (rule ensureAdminUser_again [rotated])
  qed
  have idem: "startup env' s2 a2 x = x"
    if h: "ADMIN_EMAIL env' = ADMIN_EMAIL env
      \<and> (configured env \<or> ADMIN_PASSWORD env' = ADMIN_PASSWORD env)"
  proof (cases "configured env")
    case True
    with h again seed show ?thesis by (simp add: startup_def)
  next
    case False
    with h have "\<not> configured env'" by (simp add: configured_def)
    then have "ensureAdminUser env' a2 x = x" by (rule ensureAdminUser_unconfigured)
    with seed show ?thesis by (simp add: startup_def)
  qed
  have serv: "services (startup env' s2 a2 x) = services x"
    by (simp add: startup_def seed services_ensureAdminUser)
  have one: "length (filter (where_eq ''email'' (SText e)) (rows (users (startup env' s2 a2 x)))) = 1"
    if c: "configured env \<and> ADMIN_EMAIL env = Some e \<and> ADMIN_EMAIL env' = Some e
         \<and> length (filter (where_eq ''email'' (SText e)) (rows (users db))) \<le> 1" for e
  proof -
    from c obtain e' pw where k: "ADMIN_EMAIL env = Some e'" "e' \<noteq> []"
      "ADMIN_PASSWORD env = Some pw" "pw \<noteq> []"
      by (blast elim: configuredE)
    with c have e: "e' = e" by simp
    from c have l: "length (filter (where_eq ''email'' (SText e))
        (rows (users (seedIfEmpty s1 (migrate db))))) \<le> 1"
      by (simp add: users_seedIfEmpty migrate_def)
    from k e have k': "ADMIN_EMAIL env = Some e" "e \<noteq> []" by simp_all
    have "length (filter (where_eq ''email'' (SText e)) (rows (users x))) = 1"
      unfolding x_def startup_def by (rule ensureAdminUser_one [OF k' k(3,4) l])
    moreover from c have "startup env' s2 a2 x = x"
      by (intro idem) simp
    ultimately show ?thesis by simp
  qed
  have three: "map (\<lambda>r. (rowid r, col r ''title'', col r ''price_cents'', col r ''active'', col r ''created_at''))
         (rows (services (startup env' s2 a2 x)))
       = [(1, SText (''Corte Cl'' @ [CHR 0xE1] @ ''ssico''), SInt 4000, SInt 1, SInt s1),
          (2, SText ''Barba Modelada'', SInt 3000, SInt 1, SInt s1),
          (3, SText ''Corte + Barba'', SInt 7000, SInt 1, SInt s1)]"
    if c: "rows (services db) = [] \<and> sequence (services db) = 0"
  proof -
    from c have "map (\<lambda>r. (rowid r, col r ''title'', col r ''price_cents'', col r ''active'', col r ''created_at''))
         (rows (services x))
       = [(1, SText (''Corte Cl'' @ [CHR 0xE1] @ ''ssico''), SInt 4000, SInt 1, SInt s1),
          (2, SText ''Barba Modelada'', SInt 3000, SInt 1, SInt s1),
          (3, SText ''Corte + Barba'', SInt 7000, SInt 1, SInt s1)]"
      by (simp add: x_def startup_def services_ensureAdminUser migrate_def seedIfEmpty_def Let_def
          sql_insert_def next_rowid_def seed_row_def col_def)
    then show ?thesis by (simp add: serv)
  qed
  from idem serv one three show ?thesis unfolding x_def by blast
qed

theorem startup_twice_is_startup_once_witness:
  "startup changed_password_env 3 4 (startup test_env 1 2 empty_db) = startup test_env 1 2 empty_db
   \<and> ADMIN_PASSWORD changed_password_env \<noteq> ADMIN_PASSWORD test_env
   \<and> length (filter (where_eq ''email'' (SText ''admin@x.com''))
        (rows (users (startup changed_password_env 3 4 (startup test_env 1 2 empty_db))))) = 1
   \<and> map (\<lambda>r. (rowid r, col r ''title'', col r ''price_cents'', col r ''active'', col r ''created_at''))
        (rows (services (startup changed_password_env 3 4 (startup test_env 1 2 empty_db))))
      = [(1, SText (''Corte Cl'' @ [CHR 0xE1] @ ''ssico''), SInt 4000, SInt 1, SInt 1),
         (2, SText ''Barba Modelada'', SInt 3000, SInt 1, SInt 1),
         (3, SText ''Corte + Barba'', SInt 7000, SInt 1, SInt 1)]
   \<and> map (\<lambda>r. col r ''password_hash'')
        (rows (users (startup changed_password_env 3 4 (startup test_env 1 2 empty_db))))
      = [SText ''#secret'']"
proof -
  have c: "configured test_env" and e: "ADMIN_EMAIL test_env = Some ''admin@x.com''"
    and e': "ADMIN_EMAIL changed_password_env = Some ''admin@x.com''"
    and p: "ADMIN_PASSWORD changed_password_env \<noteq> ADMIN_PASSWORD test_env"
    and u: "length (filter (where_eq ''email'' (SText ''admin@x.com'')) (rows (users empty_db))) \<le> 1"
    by (simp_all add: configured_def test_env_def changed_password_env_def empty_db_def
        empty_table_def)
  have f: "rows (services empty_db) = [] \<and> sequence (services empty_db) = 0"
    by (simp add: empty_db_def empty_table_def)
  note t = startup_twice_is_startup_once [where env = test_env and env' = changed_password_env
      and ?s1.0 = 1 and ?a1.0 = 2 and ?s2.0 = 3 and ?a2.0 = 4 and db = empty_db]
  from t c e e' have 1: "startup changed_password_env 3 4 (startup test_env 1 2 empty_db)
      = startup test_env 1 2 empty_db"
    by simp
  from t c e e' u have 2: "length (filter (where_eq ''email'' (SText ''admin@x.com''))
        (rows (users (startup changed_password_env 3 4 (startup test_env 1 2 empty_db))))) = 1"
    by blast
  from t f have 3: "map (\<lambda>r. (rowid r, col r ''title'', col r ''price_cents'', col r ''active'', col r ''created_at''))
        (rows (services (startup changed_password_env 3 4 (startup test_env 1 2 empty_db))))
      = [(1, SText (''Corte Cl'' @ [CHR 0xE1] @ ''ssico''), SInt 4000, SInt 1, SInt 1),
         (2, SText ''Barba Modelada'', SInt 3000, SInt 1, SInt 1),
         (3, SText ''Corte + Barba'', SInt 7000, SInt 1, SInt 1)]"
    by blast
  have "map (\<lambda>r. col r ''password_hash'') (rows (users (startup test_env 1 2 empty_db)))
      = [SText ''#secret'']"
    by (simp add: startup_def migrate_def users_seedIfEmpty ensureAdminUser_def test_env_def
        empty_db_def empty_table_def sql_get_def sql_insert_def Let_def col_def)
  with 1 have 4: "map (\<lambda>r. col r ''password_hash'')
        (rows (users (startup changed_password_env 3 4 (startup test_env 1 2 empty_db))))
      = [SText ''#secret'']"
    by simp
  from 1 p 2 3 4 show ?thesis by blast
qed

section \<open>Order and size of the lists\<close>

lemma newest_first_order_by_id_desc: "newest_first (order_by_id_desc ms)"
  by (simp add: newest_first_def order_by_id_desc_def rev_map)

lemma mset_order_by_id_desc: "mset (order_by_id_desc ms) = mset ms"
  by (simp add: order_by_id_desc_def)

lemma mset_order_by_id: "mset (order_by_id ms) = mset ms"
  by (simp add: order_by_id_def)

lemma sorted_order_by_id: "sorted (map rowid (order_by_id ms))"
  by (simp add: order_by_id_def)

lemma newest_first_sorted_wrt: "newest_first rs \<longleftrightarrow> sorted_wrt (\<lambda>a b. rowid b \<le> rowid a) rs"
proof -
  have "sorted (rev (map rowid rs)) \<longleftrightarrow> sorted_wrt (\<lambda>a b. b \<le> a) (map rowid rs)"
    by (simp add: sorted_wrt_rev)
  then show ?thesis by (simp add: newest_first_def sorted_wrt_map)
qed

lemma newest_limit: "newest n ms (limit n (order_by_id_desc ms))"
proof -
  define ys where "ys = order_by_id_desc ms"
  have m: "mset ys = mset ms" by (simp add: ys_def mset_order_by_id_desc)
  have s: "sorted_wrt (\<lambda>a b. rowid b \<le> rowid a) ys"
    using newest_first_order_by_id_desc [of ms] by (simp add: ys_def newest_first_sorted_wrt)
  have split: "ys = take n ys @ drop n ys" by simp
  have 1: "newest_first (take n ys)"
    using s by (simp add: newest_first_sorted_wrt sorted_wrt_take)
  have d: "mset ms = mset (take n ys) + mset (drop n ys)"
    using m by (metis append_take_drop_id mset_append)
  then have 2: "mset (take n ys) \<subseteq># mset ms" by simp
  have 3: "length (take n ys) = min n (length ms)"
    using mset_eq_length [OF m] by (simp add: min.commute)
  from d have r: "mset ms - mset (take n ys) = mset (drop n ys)" by simp
  from s have "sorted_wrt (\<lambda>a b. rowid b \<le> rowid a) (take n ys @ drop n ys)" by simp
  then have "\<forall>k \<in> set (take n ys). \<forall>r \<in> set (drop n ys). rowid r \<le> rowid k"
    unfolding sorted_wrt_append by blast
  with r have 4: "\<forall>r \<in># mset ms - mset (take n ys). \<forall>k \<in> set (take n ys). rowid r \<le> rowid k"
    by auto
  from 1 2 3 4 show ?thesis by (simp add: newest_def limit_def ys_def)
qed

lemma route_admin_lists:
  assumes "req_method req = GET" and "admin_table name db = Some t"
    and "req_path req = [''admin'', name]"
  shows "dispatch (drop 10 (app env now)) req db
           = (respond 200 (JArr (map select_star (order_by_id_desc (rows t)))), db)"
  using assms(2)
proof (cases rule: admin_table_cases)
  case 1
  with assms(1,3) show ?thesis by (simp add: app_def get_admin_services_def)
next
  case 2
  with assms(1,3) show ?thesis by (simp add: app_def get_admin_team_def)
next
  case 3
  with assms(1,3) show ?thesis by (simp add: app_def get_admin_testimonials_def)
next
  case 4
  with assms(1,3) show ?thesis by (simp add: app_def get_admin_gallery_def)
next
  case 5
  with assms(1,3) show ?thesis by (simp add: app_def get_admin_posts_def)
next
  case 6
  with assms(1,3) show ?thesis by (simp add: app_def get_admin_appointments_def)
next
  case 7
  with assms(1,3) show ?thesis by (simp add: app_def get_admin_contacts_def)
qed

lemma shows_columns_select: "shows_columns cs r (select cs r)"
  by (simp add: shows_columns_def select_def comp_def map_of_map_restrict)

lemma full_row_select_star: "full_row r (select_star r)"
proof -
  have k: "keys (select_star r) = ''id'' # map fst (cols r)"
    by (simp add: select_star_def comp_def split_def)
  have v: "js_get (select_star r) c = Some (json_of_sql (col r c))"
    if c: "c \<in> set (''id'' # map fst (cols r))" for c
  proof (cases "c = ''id''")
    case True
    then show ?thesis by (simp add: select_star_def col_def)
  next
    case False
    with c have "c \<in> fst ` set (cols r)" by simp
    then obtain x where x: "map_of (cols r) c = Some x"
      by (cases "map_of (cols r) c") (auto simp: map_of_eq_None_iff)
    have "map_of (map (\<lambda>(c, v). (c, json_of_sql v)) (cols r)) c
        = map_option json_of_sql (map_of (cols r) c)"
      by (simp add: map_of_map)
    with False x show ?thesis by (simp add: select_star_def col_def)
  qed
  from k v show ?thesis by (simp add: full_row_def shows_columns_def)
qed

lemma list_all2_shown:
  assumes "\<And>r. P r (f r)"
  shows "list_all2 P rs (map f rs)"
  using assms by (simp add: list_all2_map2 list_all2_same)

text \<open>
  Claim C7. Every list route answers 200 with an array, leaves the store as it was, and
  the array holds one object for each of the rows \<open>rs\<close> it returns, in their order.
  \<open>GET /services\<close> and \<open>GET /team\<close> return every row whose \<open>active\<close> flag is 1, ids
  ascending, each shown in the columns the route selects. \<open>GET /testimonials\<close>,
  \<open>GET /gallery\<close> and \<open>GET /posts\<close> return the 12, 24 and 20 newest of the rows whose flag
  is 1, ids descending, each shown in the columns the route selects.
  \<open>GET /admin/<name>\<close>, for each of the seven tables and a request that has passed the
  guard, returns every row of the table, hidden ones too, ids descending, each as a full
  row: an object whose keys are \<open>id\<close> and every column of the row, with the row's values.
\<close>

theorem lists_are_ordered_and_capped:
  assumes "req_method req = GET"
  shows "(req_path req = [''services''] \<longrightarrow>
            (\<exists>rs js. server env now req db = (respond 200 (JArr js), db)
              \<and> js = map (select [''id'', ''title'', ''description'', ''price_cents'']) rs
              \<and> list_all2 (shows_columns [''id'', ''title'', ''description'', ''price_cents'']) rs js
              \<and> mset rs = mset (filter (where_eq ''active'' (SInt 1)) (rows (services db)))
              \<and> sorted (map rowid rs)))
       \<and> (req_path req = [''team''] \<longrightarrow>
            (\<exists>rs js. server env now req db = (respond 200 (JArr js), db)
              \<and> js = map (select [''id'', ''name'', ''role'', ''photo_url'']) rs
              \<and> list_all2 (shows_columns [''id'', ''name'', ''role'', ''photo_url'']) rs js
              \<and> mset rs = mset (filter (where_eq ''active'' (SInt 1)) (rows (team db)))
              \<and> sorted (map rowid rs)))
       \<and> (req_path req = [''testimonials''] \<longrightarrow>
            (\<exists>rs js. server env now req db = (respond 200 (JArr js), db)
              \<and> js = map (select [''id'', ''author'', ''content'', ''rating'']) rs
              \<and> list_all2 (shows_columns [''id'', ''author'', ''content'', ''rating'']) rs js
              \<and> newest 12 (filter (where_eq ''active'' (SInt 1)) (rows (testimonials db))) rs))
       \<and> (req_path req = [''gallery''] \<longrightarrow>
            (\<exists>rs js. server env now req db = (respond 200 (JArr js), db)
              \<and> js = map (select [''id'', ''image_url'', ''caption'']) rs
              \<and> list_all2 (shows_columns [''id'', ''image_url'', ''caption'']) rs js
              \<and> newest 24 (filter (where_eq ''active'' (SInt 1)) (rows (gallery db))) rs))
       \<and> (req_path req = [''posts''] \<longrightarrow>
            (\<exists>rs js. server env now req db = (respond 200 (JArr js), db)
              \<and> js = map (select [''id'', ''title'', ''excerpt'', ''cover_url'', ''created_at'']) rs
              \<and> list_all2 (shows_columns [''id'', ''title'', ''excerpt'', ''cover_url'', ''created_at'']) rs js
              \<and> newest 20 (filter (where_eq ''published'' (SInt 1)) (rows (posts db))) rs))
       \<and> (\<forall>name t. passes_guard env now req \<and> req_path req = [''admin'', name]
              \<and> admin_table name db = Some t \<longrightarrow>
            (\<exists>rs js. server env now req db = (respond 200 (JArr js), db)
              \<and> js = map select_star rs
              \<and> list_all2 full_row rs js
              \<and> mset rs = mset (rows t) \<and> newest_first rs))"
proof (intro conjI impI allI)
  assume "req_path req = [''services'']"
  then have "server env now req db
      = (respond 200 (JArr (map (select [''id'', ''title'', ''description'', ''price_cents''])
           (order_by_id (filter (where_eq ''active'' (SInt 1)) (rows (services db)))))), db)"
    by (simp add: route_public_lists [OF assms] get_services_def)
  moreover have "list_all2 (shows_columns [''id'', ''title'', ''description'', ''price_cents''])
      (order_by_id (filter (where_eq ''active'' (SInt 1)) (rows (services db))))
      (map (select [''id'', ''title'', ''description'', ''price_cents''])
        (order_by_id (filter (where_eq ''active'' (SInt 1)) (rows (services db)))))"
    by (rule list_all2_shown) (rule shows_columns_select)
  ultimately show "(\<exists>rs js. server env now req db = (respond 200 (JArr js), db)
        \<and> js = map (select [''id'', ''title'', ''description'', ''price_cents'']) rs
        \<and> list_all2 (shows_columns [''id'', ''title'', ''description'', ''price_cents'']) rs js
        \<and> mset rs = mset (filter (where_eq ''active'' (SInt 1)) (rows (services db)))
        \<and> sorted (map rowid rs))"
    using mset_order_by_id sorted_order_by_id by blast
next
  assume "req_path req = [''team'']"
  then have "server env now req db
      = (respond 200 (JArr (map (select [''id'', ''name'', ''role'', ''photo_url''])
           (order_by_id (filter (where_eq ''active'' (SInt 1)) (rows (team db)))))), db)"
    by (simp add: route_public_lists [OF assms] get_team_def)
  moreover have "list_all2 (shows_columns [''id'', ''name'', ''role'', ''photo_url''])
      (order_by_id (filter (where_eq ''active'' (SInt 1)) (rows (team db))))
      (map (select [''id'', ''name'', ''role'', ''photo_url''])
        (order_by_id (filter (where_eq ''active'' (SInt 1)) (rows (team db)))))"
    by (rule list_all2_shown) (rule shows_columns_select)
  ultimately show "(\<exists>rs js. server env now req db = (respond 200 (JArr js), db)
        \<and> js = map (select [''id'', ''name'', ''role'', ''photo_url'']) rs
        \<and> list_all2 (shows_columns [''id'', ''name'', ''role'', ''photo_url'']) rs js
        \<and> mset rs = mset (filter (where_eq ''active'' (SInt 1)) (rows (team db)))
        \<and> sorted (map rowid rs))"
    using mset_order_by_id sorted_order_by_id by blast
next
  assume "req_path req = [''testimonials'']"
  then have "server env now req db
      = (respond 200 (JArr (map (select [''id'', ''author'', ''content'', ''rating''])
           (limit 12 (order_by_id_desc (filter (where_eq ''active'' (SInt 1)) (rows (testimonials db))))))), db)"
    by (simp add: route_public_lists [OF assms] get_testimonials_def)
  moreover have "list_all2 (shows_columns [''id'', ''author'', ''content'', ''rating''])
      (limit 12 (order_by_id_desc (filter (where_eq ''active'' (SInt 1)) (rows (testimonials db)))))
      (map (select [''id'', ''author'', ''content'', ''rating''])
        (limit 12 (order_by_id_desc (filter (where_eq ''active'' (SInt 1)) (rows (testimonials db))))))"
    by (rule list_all2_shown) (rule shows_columns_select)
  ultimately show "(\<exists>rs js. server env now req db = (respond 200 (JArr js), db)
        \<and> js = map (select [''id'', ''author'', ''content'', ''rating'']) rs
        \<and> list_all2 (shows_columns [''id'', ''author'', ''content'', ''rating'']) rs js
        \<and> newest 12 (filter (where_eq ''active'' (SInt 1)) (rows (testimonials db))) rs)"
    using newest_limit by blast
next
  assume "req_path req = [''gallery'']"
  then have "server env now req db
      = (respond 200 (JArr (map (select [''id'', ''image_url'', ''caption''])
           (limit 24 (order_by_id_desc (filter (where_eq ''active'' (SInt 1)) (rows (gallery db))))))), db)"
    by (simp add: route_public_lists [OF assms] get_gallery_def)
  moreover have "list_all2 (shows_columns [''id'', ''image_url'', ''caption''])
      (limit 24 (order_by_id_desc (filter (where_eq ''active'' (SInt 1)) (rows (gallery db)))))
      (map (select [''id'', ''image_url'', ''caption''])
        (limit 24 (order_by_id_desc (filter (where_eq ''active'' (SInt 1)) (rows (gallery db))))))"
    by (rule list_all2_shown) (rule shows_columns_select)
  ultimately show "(\<exists>rs js. server env now req db = (respond 200 (JArr js), db)
        \<and> js = map (select [''id'', ''image_url'', ''caption'']) rs
        \<and> list_all2 (shows_columns [''id'', ''image_url'', ''caption'']) rs js
        \<and> newest 24 (filter (where_eq ''active'' (SInt 1)) (rows (gallery db))) rs)"
    using newest_limit by blast
next
  assume "req_path req = [''posts'']"
  then have "server env now req db
      = (respond 200 (JArr (map (select [''id'', ''title'', ''excerpt'', ''cover_url'', ''created_at''])
           (limit 20 (order_by_id_desc (filter (where_eq ''published'' (SInt 1)) (rows (posts db))))))), db)"
    by (simp add: route_public_lists [OF assms] get_posts_def)
  moreover have "list_all2 (shows_columns [''id'', ''title'', ''excerpt'', ''cover_url'', ''created_at''])
      (limit 20 (order_by_id_desc (filter (where_eq ''published'' (SInt 1)) (rows (posts db)))))
      (map (select [''id'', ''title'', ''excerpt'', ''cover_url'', ''created_at''])
        (limit 20 (order_by_id_desc (filter (where_eq ''published'' (SInt 1)) (rows (posts db))))))"
    by (rule list_all2_shown) (rule shows_columns_select)
  ultimately show "(\<exists>rs js. server env now req db = (respond 200 (JArr js), db)
        \<and> js = map (select [''id'', ''title'', ''excerpt'', ''cover_url'', ''created_at'']) rs
        \<and> list_all2 (shows_columns [''id'', ''title'', ''excerpt'', ''cover_url'', ''created_at'']) rs js
        \<and> newest 20 (filter (where_eq ''published'' (SInt 1)) (rows (posts db))) rs)"
    using newest_limit by blast
next
  fix name t
  assume a: "passes_guard env now req \<and> req_path req = [''admin'', name]
              \<and> admin_table name db = Some t"
  then obtain payload where "server env now req db
       = dispatch (drop 10 (app env now)) (req\<lparr>req_user := Some payload\<rparr>) db"
    using passes_guard_server by blast
  moreover from a assms have "dispatch (drop 10 (app env now)) (req\<lparr>req_user := Some payload\<rparr>) db
      = (respond 200 (JArr (map select_star (order_by_id_desc (rows t)))), db)"
    by (intro route_admin_lists [where name = name]) simp_all
  ultimately have "server env now req db
      = (respond 200 (JArr (map select_star (order_by_id_desc (rows t)))), db)"
    by simp
  moreover have "list_all2 full_row (order_by_id_desc (rows t))
      (map select_star (order_by_id_desc (rows t)))"
    by (rule list_all2_shown) (rule full_row_select_star)
  ultimately show "(\<exists>rs js. server env now req db = (respond 200 (JArr js), db)
        \<and> js = map select_star rs
        \<and> list_all2 full_row rs js
        \<and> mset rs = mset (rows t) \<and> newest_first rs)"
    using mset_order_by_id_desc newest_first_order_by_id_desc by blast
qed

theorem lists_are_ordered_and_capped_witness:
  "(\<exists>rs js. server test_env 0 (request GET [''services''] None JNull) busy_db = (respond 200 (JArr js), busy_db)
      \<and> js = map (select [''id'', ''title'', ''description'', ''price_cents'']) rs
      \<and> list_all2 (shows_columns [''id'', ''title'', ''description'', ''price_cents'']) rs js
      \<and> mset rs = mset (filter (where_eq ''active'' (SInt 1)) (rows (services busy_db)))
      \<and> sorted (map rowid rs))
   \<and> (\<exists>rs js. server test_env 0 (request GET [''team''] None JNull) busy_db = (respond 200 (JArr js), busy_db)
      \<and> js = map (select [''id'', ''name'', ''role'', ''photo_url'']) rs
      \<and> list_all2 (shows_columns [''id'', ''name'', ''role'', ''photo_url'']) rs js
      \<and> mset rs = mset (filter (where_eq ''active'' (SInt 1)) (rows (team busy_db)))
      \<and> sorted (map rowid rs))
   \<and> (\<exists>rs js. server test_env 0 (request GET [''testimonials''] None JNull) busy_db = (respond 200 (JArr js), busy_db)
      \<and> js = map (select [''id'', ''author'', ''content'', ''rating'']) rs
      \<and> list_all2 (shows_columns [''id'', ''author'', ''content'', ''rating'']) rs js
      \<and> newest 12 (filter (where_eq ''active'' (SInt 1)) (rows (testimonials busy_db))) rs)
   \<and> (\<exists>rs js. server test_env 0 (request GET [''gallery''] None JNull) busy_db = (respond 200 (JArr js), busy_db)
      \<and> js = map (select [''id'', ''image_url'', ''caption'']) rs
      \<and> list_all2 (shows_columns [''id'', ''image_url'', ''caption'']) rs js
      \<and> newest 24 (filter (where_eq ''active'' (SInt 1)) (rows (gallery busy_db))) rs)
   \<and> (\<exists>rs js. server test_env 0 (request GET [''posts''] None JNull) busy_db = (respond 200 (JArr js), busy_db)
      \<and> js = map (select [''id'', ''title'', ''excerpt'', ''cover_url'', ''created_at'']) rs
      \<and> list_all2 (shows_columns [''id'', ''title'', ''excerpt'', ''cover_url'', ''created_at'']) rs js
      \<and> newest 20 (filter (where_eq ''published'' (SInt 1)) (rows (posts busy_db))) rs)
   \<and> (\<exists>rs js. server test_env 0 (as_admin GET [''admin'', ''services''] JNull) busy_db = (respond 200 (JArr js), busy_db)
      \<and> js = map select_star rs
      \<and> list_all2 full_row rs js
      \<and> mset rs = mset (rows (services busy_db)) \<and> newest_first rs)
   \<and> ids (server test_env 0 (request GET [''services''] None JNull) busy_db)
      = map (\<lambda>i. Some (JNum i)) [1, 3]
   \<and> ids (server test_env 0 (request GET [''team''] None JNull) busy_db)
      = map (\<lambda>i. Some (JNum i)) [1, 2]
   \<and> ids (server test_env 0 (request GET [''testimonials''] None JNull) busy_db)
      = map (\<lambda>i. Some (JNum i)) [14, 13, 12, 11, 10, 9, 8, 7, 6, 4, 3, 2]
   \<and> ids (server test_env 0 (request GET [''gallery''] None JNull) busy_db)
      = map (\<lambda>i. Some (JNum i))
          [25, 24, 23, 22, 21, 20, 19, 18, 17, 16, 15, 14, 13, 12, 11, 10, 9, 8, 7, 6, 5, 4, 3, 2]
   \<and> ids (server test_env 0 (request GET [''posts''] None JNull) busy_db)
      = map (\<lambda>i. Some (JNum i))
          [21, 20, 19, 18, 17, 16, 15, 14, 13, 12, 11, 10, 9, 8, 7, 6, 5, 4, 3, 2]
   \<and> fst (server test_env 0 (as_admin GET [''admin'', ''services''] JNull) busy_db)
      = respond 200
          (JArr
            [JObj [(''id'', JNum 3), (''title'', JStr ''Corte''), (''description'', JNull),
                   (''price_cents'', JNum 3000), (''active'', JNum 1), (''created_at'', JNum 103)],
             JObj [(''id'', JNum 2), (''title'', JStr ''Corte''), (''description'', JNull),
                   (''price_cents'', JNum 2000), (''active'', JNum 0), (''created_at'', JNum 102)],
             JObj [(''id'', JNum 1), (''title'', JStr ''Corte''), (''description'', JNull),
                   (''price_cents'', JNum 1000), (''active'', JNum 1), (''created_at'', JNum 101)]])"
proof -
  have m: "\<And>p. req_method (request GET p None JNull) = GET"
    and p: "\<And>p. req_path (request GET p None JNull) = p"
    and ma: "\<And>p. req_method (as_admin GET p JNull) = GET"
    and pa: "\<And>p. req_path (as_admin GET p JNull) = p"
    by (simp_all add: request_def as_admin_def)
  note t = lists_are_ordered_and_capped [OF m, where env = test_env and now = 0 and db = busy_db]
  note ta = lists_are_ordered_and_capped [OF ma, where env = test_env and now = 0 and db = busy_db]
  have 1: "(\<exists>rs js. server test_env 0 (request GET [''services''] None JNull) busy_db = (respond 200 (JArr js), busy_db)
      \<and> js = map (select [''id'', ''title'', ''description'', ''price_cents'']) rs
      \<and> list_all2 (shows_columns [''id'', ''title'', ''description'', ''price_cents'']) rs js
      \<and> mset rs = mset (filter (where_eq ''active'' (SInt 1)) (rows (services busy_db)))
      \<and> sorted (map rowid rs))"
    using t [of "[''services'']"] by (simp add: p)
  have 2: "(\<exists>rs js. server test_env 0 (request GET [''team''] None JNull) busy_db = (respond 200 (JArr js), busy_db)
      \<and> js = map (select [''id'', ''name'', ''role'', ''photo_url'']) rs
      \<and> list_all2 (shows_columns [''id'', ''name'', ''role'', ''photo_url'']) rs js
      \<and> mset rs = mset (filter (where_eq ''active'' (SInt 1)) (rows (team busy_db)))
      \<and> sorted (map rowid rs))"
    using t [of "[''team'']"] by (simp add: p)
  have 3: "(\<exists>rs js. server test_env 0 (request GET [''testimonials''] None JNull) busy_db = (respond 200 (JArr js), busy_db)
      \<and> js = map (select [''id'', ''author'', ''content'', ''rating'']) rs
      \<and> list_all2 (shows_columns [''id'', ''author'', ''content'', ''rating'']) rs js
      \<and> newest 12 (filter (where_eq ''active'' (SInt 1)) (rows (testimonials busy_db))) rs)"
    using t [of "[''testimonials'']"] by (simp add: p)
  have 4: "(\<exists>rs js. server test_env 0 (request GET [''gallery''] None JNull) busy_db = (respond 200 (JArr js), busy_db)
      \<and> js = map (select [''id'', ''image_url'', ''caption'']) rs
      \<and> list_all2 (shows_columns [''id'', ''image_url'', ''caption'']) rs js
      \<and> newest 24 (filter (where_eq ''active'' (SInt 1)) (rows (gallery busy_db))) rs)"
    using t [of "[''gallery'']"] by (simp add: p)
  have 5: "(\<exists>rs js. server test_env 0 (request GET [''posts''] None JNull) busy_db = (respond 200 (JArr js), busy_db)
      \<and> js = map (select [''id'', ''title'', ''excerpt'', ''cover_url'', ''created_at'']) rs
      \<and> list_all2 (shows_columns [''id'', ''title'', ''excerpt'', ''cover_url'', ''created_at'']) rs js
      \<and> newest 20 (filter (where_eq ''published'' (SInt 1)) (rows (posts busy_db))) rs)"
    using t [of "[''posts'']"] by (simp add: p)
  have g: "passes_guard test_env 0 (as_admin GET [''admin'', ''services''] JNull)"
    by (rule passes_guard_as_admin)
  have a: "admin_table ''services'' busy_db = Some (services busy_db)"
    by (simp add: admin_table_def)
  have 6: "(\<exists>rs js. server test_env 0 (as_admin GET [''admin'', ''services''] JNull) busy_db = (respond 200 (JArr js), busy_db)
      \<and> js = map select_star rs
      \<and> list_all2 full_row rs js
      \<and> mset rs = mset (rows (services busy_db)) \<and> newest_first rs)"
    using ta [of "[''admin'', ''services'']"] g a by (simp add: pa)
  have 7: "ids (server test_env 0 (request GET [''services''] None JNull) busy_db)
      = map (\<lambda>i. Some (JNum i)) [1, 3]"
    by (simp add: ids_def server_def app_def request_def respond_def busy_db_def
        where_eq_def col_def select_def get_services_def order_by_id_def service_def)
  have 8: "ids (server test_env 0 (request GET [''team''] None JNull) busy_db)
      = map (\<lambda>i. Some (JNum i)) [1, 2]"
    by (simp add: ids_def server_def app_def request_def respond_def busy_db_def
        where_eq_def col_def select_def get_team_def order_by_id_def team_member_def)
  have 9: "ids (server test_env 0 (request GET [''testimonials''] None JNull) busy_db)
      = map (\<lambda>i. Some (JNum i)) [14, 13, 12, 11, 10, 9, 8, 7, 6, 4, 3, 2]"
    by (simp add: ids_def server_def app_def request_def respond_def busy_db_def
        where_eq_def col_def select_def get_testimonials_def limit_def order_by_id_desc_def testimonial_def)
  have 10: "ids (server test_env 0 (request GET [''gallery''] None JNull) busy_db)
      = map (\<lambda>i. Some (JNum i))
          [25, 24, 23, 22, 21, 20, 19, 18, 17, 16, 15, 14, 13, 12, 11, 10, 9, 8, 7, 6, 5, 4, 3, 2]"
    by (simp add: ids_def server_def app_def request_def respond_def busy_db_def
        where_eq_def col_def select_def get_gallery_def limit_def order_by_id_desc_def gallery_item_def)
  have 11: "ids (server test_env 0 (request GET [''posts''] None JNull) busy_db)
      = map (\<lambda>i. Some (JNum i))
          [21, 20, 19, 18, 17, 16, 15, 14, 13, 12, 11, 10, 9, 8, 7, 6, 5, 4, 3, 2]"
    by (simp add: ids_def server_def app_def request_def respond_def busy_db_def
        where_eq_def col_def select_def get_posts_def limit_def order_by_id_desc_def post_def)
  have 12: "fst (server test_env 0 (as_admin GET [''admin'', ''services''] JNull) busy_db)
      = respond 200
          (JArr
            [JObj [(''id'', JNum 3), (''title'', JStr ''Corte''), (''description'', JNull),
                   (''price_cents'', JNum 3000), (''active'', JNum 1), (''created_at'', JNum 103)],
             JObj [(''id'', JNum 2), (''title'', JStr ''Corte''), (''description'', JNull),
                   (''price_cents'', JNum 2000), (''active'', JNum 0), (''created_at'', JNum 102)],
             JObj [(''id'', JNum 1), (''title'', JStr ''Corte''), (''description'', JNull),
                   (''price_cents'', JNum 1000), (''active'', JNum 1), (''created_at'', JNum 101)]])"
    by (simp add: server_def app_def as_admin_def request_def authMiddleware_def ensureAdmin_def
        test_env_def Let_def get_admin_services_def respond_def busy_db_def
        order_by_id_desc_def select_star_def service_def)
  from 1 2 3 4 5 6 7 8 9 10 11 12 show ?thesis by blast
qed

section \<open>Changing the status of an appointment\<close>

lemma col_set_status:
  "col (set_cols [(''status'', v)] r) c = (if c = ''status'' then v else col r c)"
  by (simp add: set_cols_def col_def update_conv')

lemma rowid_set_cols: "rowid (set_cols vs r) = rowid r"
  by (simp add: set_cols_def)

lemma Schema_status_accepts:
  assumes "js_get body ''status'' = Some (JStr s)"
    and "s \<in> {''pending'', ''confirmed'', ''canceled''}"
  shows "safeParse env Schema_status body = Inr (JObj [(''status'', JStr s)])"
proof -
  from assms(1) obtain kvs where b: "body = JObj kvs" and k: "map_of kvs ''status'' = Some (JStr s)"
    by (cases body) auto
  from k assms(2) have "field_issues env Schema_status kvs = []"
    by (auto simp: field_issues_def Schema_status_def)
  with b k show ?thesis
    by (simp add: safeParse_def Schema_status_def List.map_filter_def)
qed

lemma route_put_status:
  assumes "req_method req = PUT" and "req_path req = [''admin'', ''appointments'', i, ''status'']"
  shows "dispatch (drop 10 (app env now)) req db
           = put_admin_appointments_id_status env (req\<lparr>req_params := [(''id'', i)]\<rparr>) db"
  using assms by (simp add: app_def)

text \<open>
  Claim C8. A request that has passed the guard, \<open>PUT /admin/appointments/:id/status\<close> with a
  body whose \<open>status\<close> is \<open>pending\<close>, \<open>confirmed\<close> or \<open>canceled\<close>, whatever the status the
  row has now. The answer is 200 with the number of rows the id selects. Only the
  appointments table changes: it keeps its rows in their places and their ids; a row the
  id selects gets the new status and keeps the value of every other column; every other
  row is as it was.
\<close>

theorem status_update_changes_status_only:
  assumes "passes_guard env now req" and "req_method req = PUT"
    and "req_path req = [''admin'', ''appointments'', i, ''status'']"
    and "js_get (req_body req) ''status'' = Some (JStr s)"
    and "s \<in> {''pending'', ''confirmed'', ''canceled''}"
  shows "\<exists>t'. server env now req db
             = (respond 200
                  (JObj [(''updated'',
                     JNum (of_nat (length (filter (where_id env i) (rows (appointments db))))))]),
                db\<lparr>appointments := t'\<rparr>)
           \<and> sequence t' = sequence (appointments db)
           \<and> list_all2
               (\<lambda>r r'. rowid r' = rowid r
                  \<and> (\<forall>c. c \<noteq> ''status'' \<longrightarrow> col r' c = col r c)
                  \<and> (if where_id env i r then col r' ''status'' = SText s else r' = r))
               (rows (appointments db)) (rows t')"
proof -
  obtain payload where "server env now req db
       = dispatch (drop 10 (app env now)) (req\<lparr>req_user := Some payload\<rparr>) db"
    using passes_guard_server [OF assms(1)] assms(3) by blast
  then have s: "server env now req db
       = put_admin_appointments_id_status env
           (req\<lparr>req_user := Some payload, req_params := [(''id'', i)]\<rparr>) db"
    using assms(2,3) by (simp add: route_put_status)
  define t' where "t' = snd (sql_update [(''status'', SText s)] (where_id env i) (appointments db))"
  have 1: "server env now req db
             = (respond 200
                  (JObj [(''updated'',
                     JNum (of_nat (length (filter (where_id env i) (rows (appointments db))))))]),
                db\<lparr>appointments := t'\<rparr>)"
    by (simp add: s put_admin_appointments_id_status_def Schema_status_accepts [OF assms(4,5)]
        param_def sql_update_def t'_def)
  have 2: "sequence t' = sequence (appointments db)"
    by (simp add: t'_def sql_update_def)
  have 3: "list_all2
               (\<lambda>r r'. rowid r' = rowid r
                  \<and> (\<forall>c. c \<noteq> ''status'' \<longrightarrow> col r' c = col r c)
                  \<and> (if where_id env i r then col r' ''status'' = SText s else r' = r))
               (rows (appointments db)) (rows t')"
    by (simp add: t'_def sql_update_def list_all2_map2 list_all2_same col_set_status rowid_set_cols)
  from 1 2 3 show ?thesis by blast
qed

theorem status_update_changes_status_only_witness:
  "\<exists>t'. server test_env 0
           (as_admin PUT [''admin'', ''appointments'', ''1'', ''status''] (JObj [(''status'', JStr ''pending'')]))
           sample_db
         = (respond 200 (JObj [(''updated'', JNum 1)]), sample_db\<lparr>appointments := t'\<rparr>)
       \<and> map (\<lambda>r. (rowid r, col r ''name'', col r ''status'', col r ''created_at'')) (rows t')
           = [(1, SText ''Ana Silva'', SText ''pending'', SInt 17)]"
proof -
  define req where "req = as_admin PUT [''admin'', ''appointments'', ''1'', ''status'']
       (JObj [(''status'', JStr ''pending'')])"
  have g: "passes_guard test_env 0 req"
    unfolding req_def by (rule passes_guard_as_admin)
  have m: "req_method req = PUT" "req_path req = [''admin'', ''appointments'', ''1'', ''status'']"
    "js_get (req_body req) ''status'' = Some (JStr ''pending'')"
    "''pending'' \<in> {''pending'', ''confirmed'', ''canceled''}"
    by (simp_all add: req_def as_admin_def request_def)
  from status_update_changes_status_only [OF g m, of sample_db]
  obtain t' where s: "server test_env 0 req sample_db
             = (respond 200
                  (JObj [(''updated'',
                     JNum (of_nat (length (filter (where_id test_env ''1'') (rows (appointments sample_db))))))]),
                sample_db\<lparr>appointments := t'\<rparr>)"
    and l: "list_all2
               (\<lambda>r r'. rowid r' = rowid r
                  \<and> (\<forall>c. c \<noteq> ''status'' \<longrightarrow> col r' c = col r c)
                  \<and> (if where_id test_env ''1'' r then col r' ''status'' = SText ''pending'' else r' = r))
               (rows (appointments sample_db)) (rows t')"
    by blast
  have n: "length (filter (where_id test_env ''1'') (rows (appointments sample_db))) = 1"
    by (simp add: sample_db_def where_id_def test_env_def)
  define r0 where "r0 = hd (rows (appointments sample_db))"
  from l obtain r' where r: "rows t' = [r']" and i: "rowid r' = 1"
    and f: "\<forall>c. c \<noteq> ''status'' \<longrightarrow> col r' c = col r0 c"
    and c: "col r' ''status'' = SText ''pending''"
    by (auto simp: sample_db_def list_all2_Cons1 where_id_def test_env_def r0_def)
  from f have "col r' ''name'' = col r0 ''name''" "col r' ''created_at'' = col r0 ''created_at''"
    by simp_all
  moreover have "col r0 ''name'' = SText ''Ana Silva''" "col r0 ''created_at'' = SInt 17"
    by (simp_all add: r0_def sample_db_def col_def)
  ultimately have "map (\<lambda>r. (rowid r, col r ''name'', col r ''status'', col r ''created_at'')) (rows t')
           = [(1, SText ''Ana Silva'', SText ''pending'', SInt 17)]"
    using r i c by simp
  with s n show ?thesis unfolding req_def by auto
qed

section \<open>Replacing a row without its visibility flag\<close>

lemma put_existing_id:
  assumes "req_method req = PUT" and "req_path req = [''admin'', name, i]"
    and "admin_schema name = Some sch"
  shows "dispatch (drop 10 (app env now)) req db
           = (if name = ''services'' then put_admin_services_id env (req\<lparr>req_params := [(''id'', i)]\<rparr>) db
              else if name = ''team'' then put_admin_team_id env (req\<lparr>req_params := [(''id'', i)]\<rparr>) db
              else if name = ''testimonials''
                then put_admin_testimonials_id env (req\<lparr>req_params := [(''id'', i)]\<rparr>) db
              else if name = ''gallery'' then put_admin_gallery_id env (req\<lparr>req_params := [(''id'', i)]\<rparr>) db
              else put_admin_posts_id env (req\<lparr>req_params := [(''id'', i)]\<rparr>) db)"
  using assms(3)
proof (cases rule: admin_schema_cases)
  case 1
  with assms(1,2) show ?thesis by (simp add: app_def)
next
  case 2
  with assms(1,2) show ?thesis by (simp add: app_def)
next
  case 3
  with assms(1,2) show ?thesis by (simp add: app_def)
next
  case 4
  with assms(1,2) show ?thesis by (simp add: app_def)
next
  case 5
  with assms(1,2) show ?thesis by (simp add: app_def)
qed

lemma flag_set:
  assumes "\<And>r. w r \<Longrightarrow> col (set_cols vs r) c = v"
  shows "list_all2 (\<lambda>r r'. rowid r' = rowid r \<and> (w r \<longrightarrow> col r' c = v))
           (rows t) (rows (snd (sql_update vs w t)))"
  using assms by (simp add: sql_update_def list_all2_map2 list_all2_same rowid_set_cols)

text \<open>
  Claim C10. A request that has passed the guard, \<open>PUT /admin/<name>/:id\<close> with a body that
  passes the schema of the route. When \<open>name\<close> is services, team, testimonials or gallery
  and the body has no \<open>active\<close>, every row the id selects has \<open>active\<close> 1 afterwards,
  whatever it had before. When \<open>name\<close> is posts and the body has no \<open>published\<close>, every row
  the id selects has \<open>published\<close> 0 afterwards, whatever it had before.
\<close>

theorem replace_resets_omitted_flag:
  assumes "passes_guard env now req" and "req_method req = PUT"
    and "req_path req = [''admin'', name, i]"
    and "admin_table name db = Some t" and "admin_schema name = Some sch"
    and "safeParse env sch (req_body req) = Inr data"
  shows "(name \<noteq> ''posts'' \<and> js_get (req_body req) ''active'' = None \<longrightarrow>
            (\<exists>t'. admin_table name (snd (server env now req db)) = Some t'
               \<and> list_all2 (\<lambda>r r'. rowid r' = rowid r \<and> (where_id env i r \<longrightarrow> col r' ''active'' = SInt 1))
                    (rows t) (rows t')))
       \<and> (name = ''posts'' \<and> js_get (req_body req) ''published'' = None \<longrightarrow>
            (\<exists>t'. admin_table name (snd (server env now req db)) = Some t'
               \<and> list_all2 (\<lambda>r r'. rowid r' = rowid r \<and> (where_id env i r \<longrightarrow> col r' ''published'' = SInt 0))
                    (rows t) (rows t')))"
proof -
  obtain payload where "server env now req db
       = dispatch (drop 10 (app env now)) (req\<lparr>req_user := Some payload\<rparr>) db"
    using passes_guard_server [OF assms(1)] assms(3) by blast
  then have s: "server env now req db
           = (if name = ''services''
                then put_admin_services_id env (req\<lparr>req_user := Some payload, req_params := [(''id'', i)]\<rparr>) db
              else if name = ''team''
                then put_admin_team_id env (req\<lparr>req_user := Some payload, req_params := [(''id'', i)]\<rparr>) db
              else if name = ''testimonials''
                then put_admin_testimonials_id env (req\<lparr>req_user := Some payload, req_params := [(''id'', i)]\<rparr>) db
              else if name = ''gallery''
                then put_admin_gallery_id env (req\<lparr>req_user := Some payload, req_params := [(''id'', i)]\<rparr>) db
              else put_admin_posts_id env (req\<lparr>req_user := Some payload, req_params := [(''id'', i)]\<rparr>) db)"
    using assms(2,3,5) by (simp add: put_existing_id [where sch = sch])
  note d = safeParse_data [OF assms(6)]
  from assms(5) show ?thesis
  proof (cases rule: admin_schema_cases)
    case 1
    with assms(4) have t: "t = services db" by (simp add: admin_table_def)
    show ?thesis
    proof (intro conjI impI)
      assume "name \<noteq> ''posts'' \<and> js_get (req_body req) ''active'' = None"
      with 1 have "js_get data ''active'' = None" by (simp add: d Schema_services_def)
      with 1 assms(6) show "\<exists>t'. admin_table name (snd (server env now req db)) = Some t'
               \<and> list_all2 (\<lambda>r r'. rowid r' = rowid r \<and> (where_id env i r \<longrightarrow> col r' ''active'' = SInt 1))
                    (rows t) (rows t')"
        by (simp add: s t put_admin_services_id_def param_def split_def Let_def admin_table_def)
          (rule flag_set, simp add: set_cols_def col_def update_conv')
    next
      assume "name = ''posts'' \<and> js_get (req_body req) ''published'' = None"
      with 1 show "\<exists>t'. admin_table name (snd (server env now req db)) = Some t'
               \<and> list_all2 (\<lambda>r r'. rowid r' = rowid r \<and> (where_id env i r \<longrightarrow> col r' ''published'' = SInt 0))
                    (rows t) (rows t')"
        by simp
    qed
  next
    case 2
    with assms(4) have t: "t = team db" by (simp add: admin_table_def)
    show ?thesis
    proof (intro conjI impI)
      assume "name \<noteq> ''posts'' \<and> js_get (req_body req) ''active'' = None"
      with 2 have "js_get data ''active'' = None" by (simp add: d Schema_team_def)
      with 2 assms(6) show "\<exists>t'. admin_table name (snd (server env now req db)) = Some t'
               \<and> list_all2 (\<lambda>r r'. rowid r' = rowid r \<and> (where_id env i r \<longrightarrow> col r' ''active'' = SInt 1))
                    (rows t) (rows t')"
        by (simp add: s t put_admin_team_id_def param_def split_def Let_def admin_table_def)
          (rule flag_set, simp add: set_cols_def col_def update_conv')
    next
      assume "name = ''posts'' \<and> js_get (req_body req) ''published'' = None"
      with 2 show "\<exists>t'. admin_table name (snd (server env now req db)) = Some t'
               \<and> list_all2 (\<lambda>r r'. rowid r' = rowid r \<and> (where_id env i r \<longrightarrow> col r' ''published'' = SInt 0))
                    (rows t) (rows t')"
        by simp
    qed
  next
    case 3
    with assms(4) have t: "t = testimonials db" by (simp add: admin_table_def)
    show ?thesis
    proof (intro conjI impI)
      assume "name \<noteq> ''posts'' \<and> js_get (req_body req) ''active'' = None"
      with 3 have "js_get data ''active'' = None" by (simp add: d Schema_testimonials_def)
      with 3 assms(6) show "\<exists>t'. admin_table name (snd (server env now req db)) = Some t'
               \<and> list_all2 (\<lambda>r r'. rowid r' = rowid r \<and> (where_id env i r \<longrightarrow> col r' ''active'' = SInt 1))
                    (rows t) (rows t')"
        by (simp add: s t put_admin_testimonials_id_def param_def split_def Let_def admin_table_def)
          (rule flag_set, simp add: set_cols_def col_def update_conv')
    next
      assume "name = ''posts'' \<and> js_get (req_body req) ''published'' = None"
      with 3 show "\<exists>t'. admin_table name (snd (server env now req db)) = Some t'
               \<and> list_all2 (\<lambda>r r'. rowid r' = rowid r \<and> (where_id env i r \<longrightarrow> col r' ''published'' = SInt 0))
                    (rows t) (rows t')"
        by simp
    qed
  next
    case 4
    with assms(4) have t: "t = gallery db" by (simp add: admin_table_def)
    show ?thesis
    proof (intro conjI impI)
      assume "name \<noteq> ''posts'' \<and> js_get (req_body req) ''active'' = None"
      with 4 have "js_get data ''active'' = None" by (simp add: d Schema_gallery_def)
      with 4 assms(6) show "\<exists>t'. admin_table name (snd (server env now req db)) = Some t'
               \<and> list_all2 (\<lambda>r r'. rowid r' = rowid r \<and> (where_id env i r \<longrightarrow> col r' ''active'' = SInt 1))
                    (rows t) (rows t')"
        by (simp add: s t put_admin_gallery_id_def param_def split_def Let_def admin_table_def)
          (rule flag_set, simp add: set_cols_def col_def update_conv')
    next
      assume "name = ''posts'' \<and> js_get (req_body req) ''published'' = None"
      with 4 show "\<exists>t'. admin_table name (snd (server env now req db)) = Some t'
               \<and> list_all2 (\<lambda>r r'. rowid r' = rowid r \<and> (where_id env i r \<longrightarrow> col r' ''published'' = SInt 0))
                    (rows t) (rows t')"
        by simp
    qed
  next
    case 5
    with assms(4) have t: "t = posts db" by (simp add: admin_table_def)
    show ?thesis
    proof (intro conjI impI)
      assume "name \<noteq> ''posts'' \<and> js_get (req_body req) ''active'' = None"
      with 5 show "\<exists>t'. admin_table name (snd (server env now req db)) = Some t'
               \<and> list_all2 (\<lambda>r r'. rowid r' = rowid r \<and> (where_id env i r \<longrightarrow> col r' ''active'' = SInt 1))
                    (rows t) (rows t')"
        by simp
    next
      assume "name = ''posts'' \<and> js_get (req_body req) ''published'' = None"
      with 5 have "js_get data ''published'' = None" by (simp add: d Schema_posts_def)
      with 5 assms(6) show "\<exists>t'. admin_table name (snd (server env now req db)) = Some t'
               \<and> list_all2 (\<lambda>r r'. rowid r' = rowid r \<and> (where_id env i r \<longrightarrow> col r' ''published'' = SInt 0))
                    (rows t) (rows t')"
        by (simp add: s t put_admin_posts_id_def param_def split_def Let_def admin_table_def)
          (rule flag_set, simp add: set_cols_def col_def update_conv')
    qed
  qed
qed

theorem replace_resets_omitted_flag_witness:
  "(\<exists>a b. rows (services (snd (server test_env 0
               (as_admin PUT [''admin'', ''services'', ''2''] service_body) sample_db))) = [a, b]
        \<and> rowid b = 2 \<and> col b ''active'' = SInt 1)
   \<and> col (last (rows (services sample_db))) ''active'' = SInt 0
   \<and> (\<exists>a b. rows (posts (snd (server test_env 0
               (as_admin PUT [''admin'', ''posts'', ''1''] (JObj [(''title'', JStr ''Novo'')])) sample_db)))
             = [a, b]
        \<and> rowid a = 1 \<and> col a ''published'' = SInt 0)
   \<and> col (hd (rows (posts sample_db))) ''published'' = SInt 1"
proof -
  define rs where "rs = as_admin PUT [''admin'', ''services'', ''2''] service_body"
  define rp where "rp = as_admin PUT [''admin'', ''posts'', ''1''] (JObj [(''title'', JStr ''Novo'')])"
  have gs: "passes_guard test_env 0 rs" and gp: "passes_guard test_env 0 rp"
    unfolding rs_def rp_def by (rule passes_guard_as_admin)+
  have ms: "req_method rs = PUT" "req_path rs = [''admin'', ''services'', ''2'']"
    and mp: "req_method rp = PUT" "req_path rp = [''admin'', ''posts'', ''1'']"
    by (simp_all add: rs_def rp_def as_admin_def request_def)
  have ts: "admin_table ''services'' sample_db = Some (services sample_db)"
    "admin_schema ''services'' = Some Schema_services"
    and tp: "admin_table ''posts'' sample_db = Some (posts sample_db)"
    "admin_schema ''posts'' = Some Schema_posts"
    by (simp_all add: admin_table_def admin_schema_def)
  have vs: "safeParse test_env Schema_services (req_body rs) = Inr service_body"
    and vp: "safeParse test_env Schema_posts (req_body rp) = Inr (JObj [(''title'', JStr ''Novo'')])"
    by (simp_all add: rs_def rp_def as_admin_def request_def service_body_def safeParse_def
        field_issues_def Schema_services_def Schema_posts_def List.map_filter_def)
  have os: "''services'' \<noteq> ''posts'' \<and> js_get (req_body rs) ''active'' = None"
    and op: "''posts'' = ''posts'' \<and> js_get (req_body rp) ''published'' = None"
    by (simp_all add: rs_def rp_def as_admin_def request_def service_body_def)
  from replace_resets_omitted_flag [OF gs ms ts vs] os
  obtain t' where a: "admin_table ''services'' (snd (server test_env 0 rs sample_db)) = Some t'"
    and l: "list_all2 (\<lambda>r r'. rowid r' = rowid r \<and> (where_id test_env ''2'' r \<longrightarrow> col r' ''active'' = SInt 1))
                    (rows (services sample_db)) (rows t')"
    by blast
  from a have "t' = services (snd (server test_env 0 rs sample_db))"
    by (simp add: admin_table_def)
  with l have 1: "\<exists>a b. rows (services (snd (server test_env 0 rs sample_db))) = [a, b]
        \<and> rowid b = 2 \<and> col b ''active'' = SInt 1"
    by (auto simp: sample_db_def list_all2_Cons1 where_id_def test_env_def)
  have 2: "col (last (rows (services sample_db))) ''active'' = SInt 0"
    by (simp add: sample_db_def col_def)
  from replace_resets_omitted_flag [OF gp mp tp vp] op
  obtain u' where b: "admin_table ''posts'' (snd (server test_env 0 rp sample_db)) = Some u'"
    and k: "list_all2 (\<lambda>r r'. rowid r' = rowid r \<and> (where_id test_env ''1'' r \<longrightarrow> col r' ''published'' = SInt 0))
                    (rows (posts sample_db)) (rows u')"
    by blast
  from b have "u' = posts (snd (server test_env 0 rp sample_db))"
    by (simp add: admin_table_def)
  with k have 3: "\<exists>a b. rows (posts (snd (server test_env 0 rp sample_db))) = [a, b]
        \<and> rowid a = 1 \<and> col a ''published'' = SInt 0"
    by (auto simp: sample_db_def list_all2_Cons1 where_id_def test_env_def)
  have 4: "col (hd (rows (posts sample_db))) ''published'' = SInt 1"
    by (simp add: sample_db_def col_def)
  from 1 2 3 4 show ?thesis unfolding rs_def rp_def by blast
qed

section \<open>Bodies that fail validation\<close>

lemma post_admin_route:
  assumes "req_method req = POST" and "req_path req = [''admin'', name]"
    and "admin_schema name = Some sch"
  shows "dispatch (drop 10 (app env now)) req db
           = (if name = ''services'' then post_admin_services env now (req\<lparr>req_params := []\<rparr>) db
              else if name = ''team'' then post_admin_team env now (req\<lparr>req_params := []\<rparr>) db
              else if name = ''testimonials''
                then post_admin_testimonials env now (req\<lparr>req_params := []\<rparr>) db
              else if name = ''gallery'' then post_admin_gallery env now (req\<lparr>req_params := []\<rparr>) db
              else post_admin_posts env now (req\<lparr>req_params := []\<rparr>) db)"
  using assms(3)
proof (cases rule: admin_schema_cases)
  case 1
  with assms(1,2) show ?thesis by (simp add: app_def)
next
  case 2
  with assms(1,2) show ?thesis by (simp add: app_def)
next
  case 3
  with assms(1,2) show ?thesis by (simp add: app_def)
next
  case 4
  with assms(1,2) show ?thesis by (simp add: app_def)
next
  case 5
  with assms(1,2) show ?thesis by (simp add: app_def)
qed

lemma rejected_public:
  assumes "req_method req = POST"
    and "safeParse env sch (req_body req) = Inl e"
  shows "req_path req = [''auth'', ''login''] \<Longrightarrow> sch = Schema_login \<Longrightarrow>
           server env now req db = (validation_error env e, db)"
    and "req_path req = [''appointments''] \<Longrightarrow> sch = Schema_appointments \<Longrightarrow>
           server env now req db = (validation_error env e, db)"
    and "req_path req = [''contact''] \<Longrightarrow> sch = Schema_contact \<Longrightarrow>
           server env now req db = (validation_error env e, db)"
  using assms
  by (simp_all add: server_def app_def post_auth_login_def post_appointments_def post_contact_def)

lemma rejected_admin_post:
  assumes "req_method req = POST" and "req_path req = [''admin'', name]"
    and "admin_schema name = Some sch"
    and "safeParse env sch (req_body req) = Inl e"
  shows "dispatch (drop 10 (app env now)) req db = (validation_error env e, db)"
  using assms(3)
proof (cases rule: admin_schema_cases)
  case 1
  with assms show ?thesis by (simp add: post_admin_route [where sch = sch] post_admin_services_def)
next
  case 2
  with assms show ?thesis by (simp add: post_admin_route [where sch = sch] post_admin_team_def)
next
  case 3
  with assms show ?thesis by (simp add: post_admin_route [where sch = sch] post_admin_testimonials_def)
next
  case 4
  with assms show ?thesis by (simp add: post_admin_route [where sch = sch] post_admin_gallery_def)
next
  case 5
  with assms show ?thesis by (simp add: post_admin_route [where sch = sch] post_admin_posts_def)
qed

lemma rejected_admin_put:
  assumes "req_method req = PUT" and "req_path req = [''admin'', name, i]"
    and "admin_schema name = Some sch"
    and "safeParse env sch (req_body req) = Inl e"
  shows "dispatch (drop 10 (app env now)) req db = (validation_error env e, db)"
  using assms(3)
proof (cases rule: admin_schema_cases)
  case 1
  with assms show ?thesis by (simp add: put_existing_id [where sch = sch] put_admin_services_id_def)
next
  case 2
  with assms show ?thesis by (simp add: put_existing_id [where sch = sch] put_admin_team_id_def)
next
  case 3
  with assms show ?thesis by (simp add: put_existing_id [where sch = sch] put_admin_testimonials_id_def)
next
  case 4
  with assms show ?thesis by (simp add: put_existing_id [where sch = sch] put_admin_gallery_id_def)
next
  case 5
  with assms show ?thesis by (simp add: put_existing_id [where sch = sch] put_admin_posts_id_def)
qed

lemma rejected_admin_status:
  assumes "req_method req = PUT" and "req_path req = [''admin'', ''appointments'', i, ''status'']"
    and "safeParse env Schema_status (req_body req) = Inl e"
  shows "dispatch (drop 10 (app env now)) req db = (validation_error env e, db)"
  using assms by (simp add: route_put_status put_admin_appointments_id_status_def)

lemma rejected:
  assumes "write_schema (req_method req) (req_path req) = Some sch"
    and "hd (req_path req) = ''admin'' \<longrightarrow> passes_guard env now req"
    and "safeParse env sch (req_body req) = Inl e"
  shows "server env now req db = (validation_error env e, db)"
proof -
  have admin: "server env now req db = (validation_error env e, db)"
    if p: "req_path req = ''admin'' # rest"
      and d: "\<And>payload. dispatch (drop 10 (app env now)) (req\<lparr>req_user := Some payload\<rparr>) db
                 = (validation_error env e, db)" for rest
  proof -
    from p assms(2) have "passes_guard env now req" by simp
    from passes_guard_server [OF this p] obtain payload where "server env now req db
        = dispatch (drop 10 (app env now)) (req\<lparr>req_user := Some payload\<rparr>) db"
      by blast
    then show ?thesis by (simp add: d)
  qed
  from assms(1) show ?thesis
  proof (cases "(req_method req, req_path req)" rule: write_schema.cases)
    case (1 a)
    with assms(1,3) show ?thesis
      by (auto simp: rejected_public split: if_splits)
  next
    case (2 a b)
    show ?thesis
    proof (cases "a = ''admin''")
      case True
      with 2 assms(1) have s: "admin_schema b = Some sch" by simp
      from 2 True have "req_path req = ''admin'' # [b]" by simp
      then show ?thesis
      proof (rule admin)
        fix payload
        from 2 True s assms(3)
        show "dispatch (drop 10 (app env now)) (req\<lparr>req_user := Some payload\<rparr>) db
                 = (validation_error env e, db)"
          by (intro rejected_admin_post [where name = b and sch = sch]) simp_all
      qed
    next
      case False
      with 2 assms(1,3) show ?thesis
        by (auto simp: rejected_public split: if_splits)
    qed
  next
    case (3 a b i)
    with assms(1) have a: "a = ''admin''" and s: "admin_schema b = Some sch"
      by (auto split: if_splits)
    from 3 a have "req_path req = ''admin'' # [b, i]" by simp
    then show ?thesis
    proof (rule admin)
      fix payload
      from 3 a s assms(3)
      show "dispatch (drop 10 (app env now)) (req\<lparr>req_user := Some payload\<rparr>) db
                 = (validation_error env e, db)"
        by (intro rejected_admin_put [where name = b and sch = sch and i = i]) simp_all
    qed
  next
    case (4 a b i c)
    with assms(1) have a: "a = ''admin''" "b = ''appointments''" "c = ''status''"
      and s: "sch = Schema_status"
      by (auto split: if_splits)
    from 4 a have "req_path req = ''admin'' # [''appointments'', i, ''status'']" by simp
    then show ?thesis
    proof (rule admin)
      fix payload
      from 4 a s assms(3)
      show "dispatch (drop 10 (app env now)) (req\<lparr>req_user := Some payload\<rparr>) db
                 = (validation_error env e, db)"
        by (intro rejected_admin_status [where i = i]) simp_all
    qed
  qed (use assms(1) in simp_all)
qed

lemma write_schema_distinct:
  assumes "write_schema m p = Some sch"
  shows "distinct (map fst sch)"
proof -
  have a: "distinct (map fst s)" if "admin_schema b = Some s" for b s
    using that
    by (cases rule: admin_schema_cases)
      (simp_all add: Schema_services_def Schema_team_def Schema_testimonials_def
        Schema_gallery_def Schema_posts_def)
  from assms show ?thesis
  proof (cases "(m, p)" rule: write_schema.cases)
    case (1 a)
    with assms show ?thesis
      by (auto simp: Schema_appointments_def Schema_contact_def split: if_splits)
  next
    case (2 a b)
    with assms a [of b sch] show ?thesis
      by (auto simp: Schema_login_def split: if_splits)
  next
    case (3 a b i)
    with assms a [of b sch] show ?thesis
      by (auto split: if_splits)
  next
    case (4 a b i c)
    with assms show ?thesis
      by (auto simp: Schema_status_def split: if_splits)
  qed (use assms in simp_all)
qed

lemma field_issues_keys:
  "map fst (field_issues env sch kvs) = invalid_fields env sch (JObj kvs)"
proof -
  have "filter (\<lambda>(k, is). is \<noteq> []) (map (\<lambda>(k, tw). (k, parse_field env tw (map_of kvs k))) sch)
      = map (\<lambda>(k, tw). (k, parse_field env tw (map_of kvs k)))
          (filter (\<lambda>(k, tw). parse_field env tw (map_of kvs k) \<noteq> []) sch)"
    by (induction sch) auto
  then show ?thesis
    by (simp add: field_issues_def invalid_fields_def comp_def split_def)
qed

lemma field_issues_entry:
  assumes "(k, ms) \<in> set (field_issues env sch kvs)"
  shows "\<exists>tw. (k, tw) \<in> set sch \<and> ms = parse_field env tw (map_of kvs k) \<and> ms \<noteq> []"
  using assms by (auto simp: field_issues_def)

text \<open>
  Claim C9. A route that validates its body (the login, the two public writes, the five
  create and five replace routes of the administration and the status route; the
  administration ones for a request that has passed the guard) and a body that fails the
  route's schema. The answer is 400 with \<open>{error: {formErrors, fieldErrors}}\<close>, and the
  store is left as it was; the answer is the same whatever the store holds, so nothing
  was read from it. For a body that is an object, \<open>formErrors\<close> is empty and
  \<open>fieldErrors\<close> has exactly one entry for each declared field the body fails on, in the
  schema's order, holding the messages of all the issues of that field. For a body that
  is not an object, the one message is in \<open>formErrors\<close> and \<open>fieldErrors\<close> is empty.
\<close>

theorem invalid_body_is_rejected:
  assumes "write_schema (req_method req) (req_path req) = Some sch"
    and "hd (req_path req) = ''admin'' \<longrightarrow> passes_guard env now req"
    and "safeParse env sch (req_body req) = Inl e"
  shows "\<exists>fm fe.
           server env now req db
             = (respond 400
                  (JObj [(''error'', JObj [(''formErrors'', JArr fm), (''fieldErrors'', JObj fe)])]),
                db)
         \<and> fst (server env now req db') = fst (server env now req db)
         \<and> distinct (map fst fe)
         \<and> (\<forall>kvs. req_body req = JObj kvs \<longrightarrow>
               fm = [] \<and> fe \<noteq> [] \<and> map fst fe = invalid_fields env sch (req_body req))
         \<and> ((\<forall>kvs. req_body req \<noteq> JObj kvs) \<longrightarrow> fm \<noteq> [] \<and> fe = [])
         \<and> (\<forall>k v. (k, v) \<in> set fe \<longrightarrow>
               (\<exists>tw. (k, tw) \<in> set sch
                  \<and> parse_field env tw (js_get (req_body req) k) \<noteq> []
                  \<and> v = JArr (map (\<lambda>i. JStr (zod_message env i))
                                (parse_field env tw (js_get (req_body req) k)))))"
proof -
  define fm where "fm = map (\<lambda>i. JStr (zod_message env i)) (fst e)"
  define fe where "fe = map (\<lambda>(k, is). (k, JArr (map (\<lambda>i. JStr (zod_message env i)) is))) (snd e)"
  have k: "map fst fe = map fst (snd e)"
    by (simp add: fe_def comp_def split_def)
  have 1: "server env now req db
             = (respond 400
                  (JObj [(''error'', JObj [(''formErrors'', JArr fm), (''fieldErrors'', JObj fe)])]),
                db)"
    by (simp add: rejected [OF assms] validation_error_def flatten_def fm_def fe_def)
  have 2: "fst (server env now req db') = fst (server env now req db)"
    by (simp add: rejected [OF assms])
  have 3: "distinct (map fst fe)"
  proof (cases "req_body req")
    case (JObj kvs)
    with assms(3) have "snd e = field_issues env sch kvs"
      by (auto simp: safeParse_def split: if_splits)
    then have "map fst fe = invalid_fields env sch (JObj kvs)"
      by (simp add: k field_issues_keys)
    with write_schema_distinct [OF assms(1)] show ?thesis
      by (simp add: invalid_fields_def distinct_map_filter)
  qed (use assms(3) in \<open>auto simp: safeParse_def fe_def\<close>)
  have 4: "\<forall>kvs. req_body req = JObj kvs \<longrightarrow>
               fm = [] \<and> fe \<noteq> [] \<and> map fst fe = invalid_fields env sch (req_body req)"
  proof (intro allI impI)
    fix kvs
    assume b: "req_body req = JObj kvs"
    with assms(3) have e: "e = ([], field_issues env sch kvs)" and n: "field_issues env sch kvs \<noteq> []"
      by (auto simp: safeParse_def split: if_splits)
    from e n b show "fm = [] \<and> fe \<noteq> [] \<and> map fst fe = invalid_fields env sch (req_body req)"
      by (simp add: fm_def k field_issues_keys) (simp add: fe_def)
  qed
  have 5: "(\<forall>kvs. req_body req \<noteq> JObj kvs) \<longrightarrow> fm \<noteq> [] \<and> fe = []"
  proof
    assume "\<forall>kvs. req_body req \<noteq> JObj kvs"
    with assms(3) have "e = ([InvalidType], [])"
      by (cases "req_body req") (auto simp: safeParse_def)
    then show "fm \<noteq> [] \<and> fe = []" by (simp add: fm_def fe_def)
  qed
  have 6: "\<forall>k v. (k, v) \<in> set fe \<longrightarrow>
               (\<exists>tw. (k, tw) \<in> set sch
                  \<and> parse_field env tw (js_get (req_body req) k) \<noteq> []
                  \<and> v = JArr (map (\<lambda>i. JStr (zod_message env i))
                                (parse_field env tw (js_get (req_body req) k))))"
  proof (intro allI impI)
    fix k v
    assume m: "(k, v) \<in> set fe"
    then obtain ms where i: "(k, ms) \<in> set (snd e)"
      and v: "v = JArr (map (\<lambda>i. JStr (zod_message env i)) ms)"
      by (auto simp: fe_def)
    show "\<exists>tw. (k, tw) \<in> set sch
                  \<and> parse_field env tw (js_get (req_body req) k) \<noteq> []
                  \<and> v = JArr (map (\<lambda>i. JStr (zod_message env i))
                                (parse_field env tw (js_get (req_body req) k)))"
    proof (cases "req_body req")
      case (JObj kvs)
      with assms(3) have "snd e = field_issues env sch kvs"
        by (auto simp: safeParse_def split: if_splits)
      with i have "(k, ms) \<in> set (field_issues env sch kvs)" by simp
      from field_issues_entry [OF this] JObj v show ?thesis by auto
    qed (use assms(3) i in \<open>auto simp: safeParse_def\<close>)
  qed
  from 1 2 3 4 5 6 show ?thesis by blast
qed

theorem invalid_body_is_rejected_witness:
  "(\<exists>fm fe. server test_env 0
       (as_admin PUT [''admin'', ''services'', ''1''] (JObj [(''title'', JStr ''a''), (''price_cents'', JNum (- 1))]))
       sample_db
     = (respond 400 (JObj [(''error'', JObj [(''formErrors'', JArr fm), (''fieldErrors'', JObj fe)])]),
        sample_db)
     \<and> fm = [] \<and> map fst fe = [''title'', ''price_cents''])
   \<and> (\<exists>gm. gm \<noteq> []
         \<and> server test_env 0 (request POST [''contact''] None (JArr [])) sample_db
           = (respond 400 (JObj [(''error'', JObj [(''formErrors'', JArr gm), (''fieldErrors'', JObj [])])]),
              sample_db))"
proof -
  define req where "req = as_admin PUT [''admin'', ''services'', ''1'']
       (JObj [(''title'', JStr ''a''), (''price_cents'', JNum (- 1))])"
  have w: "write_schema (req_method req) (req_path req) = Some Schema_services"
    by (simp add: req_def as_admin_def request_def admin_schema_def)
  have g: "hd (req_path req) = ''admin'' \<longrightarrow> passes_guard test_env 0 req"
    unfolding req_def using passes_guard_as_admin by blast
  have f: "safeParse test_env Schema_services (req_body req)
      = Inl ([], [(''title'', [TooSmall]), (''price_cents'', [TooSmall])])"
    by (simp add: req_def as_admin_def request_def safeParse_def field_issues_def
        Schema_services_def List.map_filter_def)
  have i: "invalid_fields test_env Schema_services (req_body req) = [''title'', ''price_cents'']"
    by (simp add: req_def as_admin_def request_def invalid_fields_def Schema_services_def
        List.map_filter_def)
  have b: "req_body req = JObj [(''title'', JStr ''a''), (''price_cents'', JNum (- 1))]"
    by (simp add: req_def as_admin_def request_def)
  from invalid_body_is_rejected [OF w g f, of sample_db sample_db] b i
  have 1: "\<exists>fm fe. server test_env 0 req sample_db
     = (respond 400 (JObj [(''error'', JObj [(''formErrors'', JArr fm), (''fieldErrors'', JObj fe)])]),
        sample_db)
   \<and> fm = [] \<and> map fst fe = [''title'', ''price_cents'']"
    by auto
  define rc where "rc = request POST [''contact''] None (JArr [])"
  have wc: "write_schema (req_method rc) (req_path rc) = Some Schema_contact"
    and gc: "hd (req_path rc) = ''admin'' \<longrightarrow> passes_guard test_env 0 rc"
    and fc: "safeParse test_env Schema_contact (req_body rc) = Inl ([InvalidType], [])"
    and nc: "\<forall>kvs. req_body rc \<noteq> JObj kvs"
    by (simp_all add: rc_def request_def safeParse_def)
  from invalid_body_is_rejected [OF wc gc fc, of sample_db sample_db] nc
  have 2: "\<exists>gm. gm \<noteq> []
         \<and> server test_env 0 rc sample_db
           = (respond 400 (JObj [(''error'', JObj [(''formErrors'', JArr gm), (''fieldErrors'', JObj [])])]),
              sample_db)"
    by auto
  from 1 2 show ?thesis unfolding req_def rc_def by (rule conjI)
qed

end
